theory Spec2Isabelle
  imports Complex_Main
begin

section \<open>Data model\<close>

text \<open>
  The development embeds the well-control and economic-limit logic of
  \<^verbatim>\<open>WellInterfaceFluidSystem\<close>.  A C++ \<^verbatim>\<open>double\<close> is read as a real number: the claims
  verified below concern control flow, comparisons and the algebra of the ratios, not
  rounding.  A \<^verbatim>\<open>throw\<close> and a failed \<^verbatim>\<open>assert\<close> are values of the type \<open>error\<close>.
\<close>

datatype error = Exception string | AssertionFailed

text \<open>The slots of \<^verbatim>\<open>BlackoilPhases\<close>; the class names them \<^verbatim>\<open>Water\<close>, \<^verbatim>\<open>Oil\<close>, \<^verbatim>\<open>Gas\<close>.\<close>

datatype BlackoilPhases = Aqua | Liquid | Vapour

abbreviation Water :: BlackoilPhases where "Water \<equiv> Aqua"
abbreviation Oil :: BlackoilPhases where "Oil \<equiv> Liquid"
abbreviation Gas :: BlackoilPhases where "Gas \<equiv> Vapour"

text \<open>
  \<^verbatim>\<open>InjectorType\<close>: the code names \<^verbatim>\<open>WATER\<close>, \<^verbatim>\<open>OIL\<close> and \<^verbatim>\<open>GAS\<close> and sends every other
  enumerator to the \<^verbatim>\<open>default:\<close> branch; \<open>MULTI\<close> stands for those.
\<close>

datatype InjectorType = WATER | OIL | GAS | MULTI

datatype Phase = Phase_WATER | Phase_OIL | Phase_GAS

datatype InjectorCMode =
  Inj_RATE | Inj_RESV | Inj_BHP | Inj_THP | Inj_GRUP | Inj_CMODE_UNDEFINED

datatype ProducerCMode =
  Prod_NONE | Prod_ORAT | Prod_WRAT | Prod_GRAT | Prod_LRAT | Prod_CRAT | Prod_RESV
  | Prod_BHP | Prod_THP | Prod_GRUP | Prod_CMODE_UNDEFINED

text \<open>
  Modelled from the spec: \<^verbatim>\<open>PhaseUsage\<close> is declared outside the source file. It maps a
  logical phase to its slot in the state vectors; a phase may be inactive.
\<close>

record PhaseUsage =
  num_phases :: nat
  phase_used :: "BlackoilPhases \<Rightarrow> bool"
  phase_pos :: "BlackoilPhases \<Rightarrow> nat"

text \<open>
  The controls of a well at the current step, as \<^verbatim>\<open>injectionControls\<close> and
  \<^verbatim>\<open>productionControls\<close> hand them out; the structs are declared outside the source file
  and every member the code reads is a field.
\<close>

record InjectionControls =
  inj_hasControl :: "InjectorCMode \<Rightarrow> bool"
  inj_bhp_limit :: real
  injector_type :: InjectorType
  surface_rate :: real
  reservoir_rate :: real

record ProductionControls =
  prod_hasControl :: "ProducerCMode \<Rightarrow> bool"
  prod_bhp_limit :: real
  oil_rate :: real
  water_rate :: real
  gas_rate :: real
  liquid_rate :: real
  resv_rate :: real
  prediction_mode :: bool

datatype QuantityLimit = QuantityLimit_RATE | QuantityLimit_POTN

datatype EconWorkover = NONE | CON | CONP | WELL | PLUG

text \<open>
  \<^verbatim>\<open>WellEconProductionLimits\<close> is declared outside the source file; every query the code
  makes of it is a field here, \<^verbatim>\<open>onAnyRateLimit\<close>, \<^verbatim>\<open>onAnyRatioLimit\<close> and
  \<^verbatim>\<open>onAnyEffectiveLimit\<close> included, and so is its static \<^verbatim>\<open>EconWorkover2String\<close>.
\<close>

record WellEconProductionLimits =
  onAnyEffectiveLimit :: bool
  onAnyRateLimit :: bool
  onAnyRatioLimit :: bool
  quantityLimit :: QuantityLimit
  onMinOilRate :: bool
  minOilRate :: real
  onMinGasRate :: bool
  minGasRate :: real
  onMinLiquidRate :: bool
  minLiquidRate :: real
  onMinReservoirFluidRate :: bool
  onMaxWaterCut :: bool
  maxWaterCut :: real
  onMaxGasOilRatio :: bool
  maxGasOilRatio :: real
  onMaxWaterGasRatio :: bool
  maxWaterGasRatio :: real
  onMaxGasLiquidRatio :: bool
  endRun :: bool
  validFollowonWell :: bool
  workover :: EconWorkover
  EconWorkover2String :: "EconWorkover \<Rightarrow> string"

datatype ConnectionState = OPEN | SHUT | AUTO

record Connection =
  state :: ConnectionState
  complnum :: int

text \<open>
  Modelled from the spec: the class \<^verbatim>\<open>Well\<close> of the static well \<^verbatim>\<open>well_ecl_\<close> is declared
  outside the source file. Every query the code makes of it is a field; a well has one
  role, injector or producer, kept in \<open>producer\<close>.
\<close>

record 'sum Well =
  well_name :: string
  producer :: bool
  groupName :: string
  getEfficiencyFactor :: real
  injectionControls :: "'sum \<Rightarrow> InjectionControls"
  productionControls :: "'sum \<Rightarrow> ProductionControls"
  getEconLimits :: WellEconProductionLimits
  getConnections :: "Connection list"
  getAutomaticShutIn :: bool

definition isProducer :: "'sum Well \<Rightarrow> bool" where
  "isProducer w = producer w"

definition isInjector :: "'sum Well \<Rightarrow> bool" where
  "isInjector w = (\<not> producer w)"

text \<open>
  Modelled from the spec: \<^verbatim>\<open>WellState\<close> is declared outside the source file. It is the
  per-step snapshot of the wells: each accessor \<^verbatim>\<open>f(well_index)\<close> of the class is a
  function of the well index; \<^verbatim>\<open>perfPhaseRates()\<close> and \<^verbatim>\<open>wellPotentials()\<close> are the flat
  vectors the code takes addresses into.
\<close>

record WellState =
  numPhases :: nat
  wellRates :: "nat \<Rightarrow> real list"
  wellReservoirRates :: "nat \<Rightarrow> real list"
  bhp :: "nat \<Rightarrow> real"
  thp :: "nat \<Rightarrow> real"
  currentInjectionControl :: "nat \<Rightarrow> InjectorCMode"
  currentProductionControl :: "nat \<Rightarrow> ProducerCMode"
  perfPhaseRates :: "real list"
  wellPotentials :: "real list"

text \<open>The two-argument accessors of \<^verbatim>\<open>WellState\<close> store a control mode.\<close>

definition set_currentInjectionControl :: "nat \<Rightarrow> InjectorCMode \<Rightarrow> WellState \<Rightarrow> WellState" where
  "set_currentInjectionControl i m ws =
     ws\<lparr>currentInjectionControl := (currentInjectionControl ws)(i := m)\<rparr>"

definition set_currentProductionControl :: "nat \<Rightarrow> ProducerCMode \<Rightarrow> WellState \<Rightarrow> WellState" where
  "set_currentProductionControl i m ws =
     ws\<lparr>currentProductionControl := (currentProductionControl ws)(i := m)\<rparr>"

text \<open>
  The well interface \<^verbatim>\<open>this\<close>: its members and the collaborators it calls. The rate
  converter (\<open>calcReservoirVoidageRates\<close>, \<open>calcCoeff\<close>), the THP constraint, the collective
  sum of the parallel well communicator, the static \<^verbatim>\<open>FluidSystem::phaseIsActive\<close>, the
  schedule's \<^verbatim>\<open>getGroup\<close> and the two evaluators of \<^verbatim>\<open>WellGroupHelpers\<close> live outside the
  source file and are parameters. The converter writes its result into a vector the
  caller allocates; here it returns that vector, read at the slots \<open>p < np\<close>.
  \<open>completions\<close> is the map \<^verbatim>\<open>completions_\<close> in its iteration order, each completion
  number with the indices of its connections.
\<close>

record ('grp, 'gs, 'sch, 'sum) WellInterface =
  well_ecl :: "'sum Well"
  phaseUsage :: PhaseUsage
  index_of_well :: nat
  number_of_phases :: nat
  first_perf :: nat
  pvtRegionIdx :: int
  current_step :: int
  wellIsStopped :: bool
  completions :: "(int \<times> nat list) list"
  calcReservoirVoidageRates :: "int \<Rightarrow> int \<Rightarrow> real list \<Rightarrow> real list"
  calcCoeff :: "int \<Rightarrow> int \<Rightarrow> real list \<Rightarrow> real list"
  getTHPConstraint :: "'sum \<Rightarrow> real"
  communication_sum :: "real list \<Rightarrow> real list"
  phaseIsActive :: "BlackoilPhases \<Rightarrow> bool"
  getGroup :: "'sch \<Rightarrow> string \<Rightarrow> int \<Rightarrow> 'grp"
  WellGroupHelpers_checkGroupConstraintsInj ::
    "string \<Rightarrow> string \<Rightarrow> 'grp \<Rightarrow> WellState \<Rightarrow> 'gs \<Rightarrow> int \<Rightarrow> real list \<Rightarrow> Phase \<Rightarrow> PhaseUsage
      \<Rightarrow> real \<Rightarrow> 'sch \<Rightarrow> 'sum \<Rightarrow> real list \<Rightarrow> bool \<times> real"
  WellGroupHelpers_checkGroupConstraintsProd ::
    "string \<Rightarrow> string \<Rightarrow> 'grp \<Rightarrow> WellState \<Rightarrow> 'gs \<Rightarrow> int \<Rightarrow> real list \<Rightarrow> PhaseUsage
      \<Rightarrow> real \<Rightarrow> 'sch \<Rightarrow> 'sum \<Rightarrow> real list \<Rightarrow> bool \<times> real"

definition name :: "('grp, 'gs, 'sch, 'sum) WellInterface \<Rightarrow> string" where
  "name wi = well_name (well_ecl wi)"

section \<open>Loops over the phase slots\<close>

text \<open>
  \<^verbatim>\<open>for (int p = 0; p < np; ++p) v[p] = g(p, v[p]);\<close> is the fold below: the slots are
  visited in increasing order and each is rewritten from its own old value.
\<close>

definition for_phases :: "nat \<Rightarrow> (nat \<Rightarrow> real \<Rightarrow> real) \<Rightarrow> real list \<Rightarrow> real list" where
  "for_phases np g v = foldl (\<lambda>r p. r[p := g p (r ! p)]) v [0..<np]"

section \<open>Reservoir rates\<close>

definition calculateReservoirRates ::
  "('grp, 'gs, 'sch, 'sum) WellInterface \<Rightarrow> WellState \<Rightarrow> WellState" where
  "calculateReservoirRates wi well_state =
     (let fipreg = 0;
          np = number_of_phases wi;
          surface_rates = for_phases np (\<lambda>p _. wellRates well_state (index_of_well wi) ! p)
                            (replicate np 0);
          voidage_rates = calcReservoirVoidageRates wi fipreg (pvtRegionIdx wi) surface_rates
      in well_state\<lparr>wellReservoirRates := (wellReservoirRates well_state)
           (index_of_well wi :=
              for_phases np (\<lambda>p _. voidage_rates ! p)
                (wellReservoirRates well_state (index_of_well wi)))\<rparr>)"

section \<open>Individual constraints\<close>

text \<open>
  Each \<^verbatim>\<open>if\<close> block of \<^verbatim>\<open>checkIndividualConstraints\<close> is a function that yields
  \<open>Some well_state'\<close> when the block executes \<^verbatim>\<open>return true\<close>, with the well state as the
  block leaves it, and \<open>None\<close> when control falls through to the next block.
\<close>

definition orElse :: "'a option \<Rightarrow> 'a option \<Rightarrow> 'a option" where
  "orElse a b = (case a of Some x \<Rightarrow> Some x | None \<Rightarrow> b)"

definition inj_check_BHP ::
  "('grp, 'gs, 'sch, 'sum) WellInterface \<Rightarrow> WellState \<Rightarrow> 'sum \<Rightarrow> WellState option" where
  "inj_check_BHP wi well_state summaryState =
     (let controls = injectionControls (well_ecl wi) summaryState;
          well_index = index_of_well wi;
          currentControl = currentInjectionControl well_state well_index
      in if inj_hasControl controls Inj_BHP \<and> currentControl \<noteq> Inj_BHP then
           (if inj_bhp_limit controls < bhp well_state well_index
            then Some (set_currentInjectionControl well_index Inj_BHP well_state)
            else None)
         else None)"

definition inj_check_RATE ::
  "('grp, 'gs, 'sch, 'sum) WellInterface \<Rightarrow> WellState \<Rightarrow> 'sum \<Rightarrow> error + WellState option" where
  "inj_check_RATE wi well_state summaryState =
     (let controls = injectionControls (well_ecl wi) summaryState;
          pu = phaseUsage wi;
          well_index = index_of_well wi;
          currentControl = currentInjectionControl well_state well_index
      in if inj_hasControl controls Inj_RATE \<and> currentControl \<noteq> Inj_RATE then
           (case (case injector_type controls of
                    WATER \<Rightarrow> Inr (wellRates well_state well_index ! phase_pos pu Aqua)
                  | OIL \<Rightarrow> Inr (wellRates well_state well_index ! phase_pos pu Liquid)
                  | GAS \<Rightarrow> Inr (wellRates well_state well_index ! phase_pos pu Vapour)
                  | MULTI \<Rightarrow> Inl (Exception
                      (''Expected WATER, OIL or GAS as type for injectors ''
                         @ well_name (well_ecl wi))))
            of Inl e \<Rightarrow> Inl e
             | Inr current_rate \<Rightarrow>
                 if surface_rate controls < current_rate
                 then Inr (Some (set_currentInjectionControl well_index Inj_RATE well_state))
                 else Inr None)
         else Inr None)"

text \<open>
  The aggregate reservoir rate of the two RESV blocks: the injector adds the slot of each
  phase in use (\<^verbatim>\<open>+=\<close>), the producer subtracts it (\<^verbatim>\<open>-=\<close>).
\<close>

definition inj_resv_current_rate :: "PhaseUsage \<Rightarrow> real list \<Rightarrow> real" where
  "inj_resv_current_rate pu rr =
     (let r0 = 0;
          r1 = (if phase_used pu Aqua then r0 + rr ! phase_pos pu Aqua else r0);
          r2 = (if phase_used pu Liquid then r1 + rr ! phase_pos pu Liquid else r1);
          r3 = (if phase_used pu Vapour then r2 + rr ! phase_pos pu Vapour else r2)
      in r3)"

definition prod_resv_current_rate :: "PhaseUsage \<Rightarrow> real list \<Rightarrow> real" where
  "prod_resv_current_rate pu rr =
     (let r0 = 0;
          r1 = (if phase_used pu Aqua then r0 - rr ! phase_pos pu Aqua else r0);
          r2 = (if phase_used pu Liquid then r1 - rr ! phase_pos pu Liquid else r1);
          r3 = (if phase_used pu Vapour then r2 - rr ! phase_pos pu Vapour else r2)
      in r3)"

text \<open>
  In the RESV and THP blocks of the injector the source assigns the new mode to the local
  copy \<^verbatim>\<open>currentControl\<close> (declared with \<^verbatim>\<open>auto\<close>) and returns: the well state is not
  written.
\<close>

definition inj_check_RESV ::
  "('grp, 'gs, 'sch, 'sum) WellInterface \<Rightarrow> WellState \<Rightarrow> 'sum \<Rightarrow> WellState option" where
  "inj_check_RESV wi well_state summaryState =
     (let controls = injectionControls (well_ecl wi) summaryState;
          pu = phaseUsage wi;
          well_index = index_of_well wi;
          currentControl = currentInjectionControl well_state well_index
      in if inj_hasControl controls Inj_RESV \<and> currentControl \<noteq> Inj_RESV then
           (let current_rate = inj_resv_current_rate pu (wellReservoirRates well_state well_index)
            in if reservoir_rate controls < current_rate
               then Some well_state
               else None)
         else None)"

definition inj_check_THP ::
  "('grp, 'gs, 'sch, 'sum) WellInterface \<Rightarrow> WellState \<Rightarrow> 'sum \<Rightarrow> WellState option" where
  "inj_check_THP wi well_state summaryState =
     (let controls = injectionControls (well_ecl wi) summaryState;
          well_index = index_of_well wi;
          currentControl = currentInjectionControl well_state well_index
      in if inj_hasControl controls Inj_THP \<and> currentControl \<noteq> Inj_THP then
           (if getTHPConstraint wi summaryState < thp well_state well_index
            then Some well_state
            else None)
         else None)"

definition checkIndividualConstraints_injector ::
  "('grp, 'gs, 'sch, 'sum) WellInterface \<Rightarrow> WellState \<Rightarrow> 'sum \<Rightarrow> error + WellState option" where
  "checkIndividualConstraints_injector wi well_state summaryState =
     (case inj_check_BHP wi well_state summaryState of
        Some ws' \<Rightarrow> Inr (Some ws')
      | None \<Rightarrow>
         (case inj_check_RATE wi well_state summaryState of
            Inl e \<Rightarrow> Inl e
          | Inr (Some ws') \<Rightarrow> Inr (Some ws')
          | Inr None \<Rightarrow>
              Inr (orElse (inj_check_RESV wi well_state summaryState)
                          (inj_check_THP wi well_state summaryState))))"

definition prod_check_BHP ::
  "('grp, 'gs, 'sch, 'sum) WellInterface \<Rightarrow> WellState \<Rightarrow> 'sum \<Rightarrow> WellState option" where
  "prod_check_BHP wi well_state summaryState =
     (let controls = productionControls (well_ecl wi) summaryState;
          well_index = index_of_well wi;
          currentControl = currentProductionControl well_state well_index
      in if prod_hasControl controls Prod_BHP \<and> currentControl \<noteq> Prod_BHP then
           (if prod_bhp_limit controls > bhp well_state well_index
            then Some (set_currentProductionControl well_index Prod_BHP well_state)
            else None)
         else None)"

definition prod_check_ORAT ::
  "('grp, 'gs, 'sch, 'sum) WellInterface \<Rightarrow> WellState \<Rightarrow> 'sum \<Rightarrow> WellState option" where
  "prod_check_ORAT wi well_state summaryState =
     (let controls = productionControls (well_ecl wi) summaryState;
          pu = phaseUsage wi;
          well_index = index_of_well wi;
          currentControl = currentProductionControl well_state well_index
      in if prod_hasControl controls Prod_ORAT \<and> currentControl \<noteq> Prod_ORAT then
           (let current_rate = - (wellRates well_state well_index ! phase_pos pu Liquid)
            in if oil_rate controls < current_rate
               then Some (set_currentProductionControl well_index Prod_ORAT well_state)
               else None)
         else None)"

definition prod_check_WRAT ::
  "('grp, 'gs, 'sch, 'sum) WellInterface \<Rightarrow> WellState \<Rightarrow> 'sum \<Rightarrow> WellState option" where
  "prod_check_WRAT wi well_state summaryState =
     (let controls = productionControls (well_ecl wi) summaryState;
          pu = phaseUsage wi;
          well_index = index_of_well wi;
          currentControl = currentProductionControl well_state well_index
      in if prod_hasControl controls Prod_WRAT \<and> currentControl \<noteq> Prod_WRAT then
           (let current_rate = - (wellRates well_state well_index ! phase_pos pu Aqua)
            in if water_rate controls < current_rate
               then Some (set_currentProductionControl well_index Prod_WRAT well_state)
               else None)
         else None)"

definition prod_check_GRAT ::
  "('grp, 'gs, 'sch, 'sum) WellInterface \<Rightarrow> WellState \<Rightarrow> 'sum \<Rightarrow> WellState option" where
  "prod_check_GRAT wi well_state summaryState =
     (let controls = productionControls (well_ecl wi) summaryState;
          pu = phaseUsage wi;
          well_index = index_of_well wi;
          currentControl = currentProductionControl well_state well_index
      in if prod_hasControl controls Prod_GRAT \<and> currentControl \<noteq> Prod_GRAT then
           (let current_rate = - (wellRates well_state well_index ! phase_pos pu Vapour)
            in if gas_rate controls < current_rate
               then Some (set_currentProductionControl well_index Prod_GRAT well_state)
               else None)
         else None)"

definition prod_check_LRAT ::
  "('grp, 'gs, 'sch, 'sum) WellInterface \<Rightarrow> WellState \<Rightarrow> 'sum \<Rightarrow> WellState option" where
  "prod_check_LRAT wi well_state summaryState =
     (let controls = productionControls (well_ecl wi) summaryState;
          pu = phaseUsage wi;
          well_index = index_of_well wi;
          currentControl = currentProductionControl well_state well_index
      in if prod_hasControl controls Prod_LRAT \<and> currentControl \<noteq> Prod_LRAT then
           (let current_rate0 = - (wellRates well_state well_index ! phase_pos pu Liquid);
                current_rate = current_rate0 - wellRates well_state well_index ! phase_pos pu Aqua
            in if liquid_rate controls < current_rate
               then Some (set_currentProductionControl well_index Prod_LRAT well_state)
               else None)
         else None)"

text \<open>
  The RESV limit of a producer under history matching (\<^verbatim>\<open>!prediction_mode\<close>): the target
  surface rates, converted to reservoir rates and summed over the \<open>np\<close> slots.
\<close>

definition prod_converted_resv_rate ::
  "('grp, 'gs, 'sch, 'sum) WellInterface \<Rightarrow> ProductionControls \<Rightarrow> real" where
  "prod_converted_resv_rate wi controls =
     (let fipreg = 0;
          np = number_of_phases wi;
          pu = phaseUsage wi;
          s0 = replicate np 0;
          s1 = (if phase_used pu Aqua then s0[phase_pos pu Aqua := water_rate controls] else s0);
          s2 = (if phase_used pu Liquid then s1[phase_pos pu Liquid := oil_rate controls] else s1);
          s3 = (if phase_used pu Vapour then s2[phase_pos pu Vapour := gas_rate controls] else s2);
          voidage_rates = calcReservoirVoidageRates wi fipreg (pvtRegionIdx wi) s3
      in foldl (\<lambda>resv_rate p. resv_rate + voidage_rates ! p) 0 [0..<np])"

definition prod_check_RESV ::
  "('grp, 'gs, 'sch, 'sum) WellInterface \<Rightarrow> WellState \<Rightarrow> 'sum \<Rightarrow> WellState option" where
  "prod_check_RESV wi well_state summaryState =
     (let controls = productionControls (well_ecl wi) summaryState;
          pu = phaseUsage wi;
          well_index = index_of_well wi;
          currentControl = currentProductionControl well_state well_index
      in if prod_hasControl controls Prod_RESV \<and> currentControl \<noteq> Prod_RESV then
           (let current_rate =
                  prod_resv_current_rate pu (wellReservoirRates well_state well_index)
            in if prediction_mode controls \<and> resv_rate controls < current_rate
               then Some (set_currentProductionControl well_index Prod_RESV well_state)
               else if \<not> prediction_mode controls then
                 (if prod_converted_resv_rate wi controls < current_rate
                  then Some (set_currentProductionControl well_index Prod_RESV well_state)
                  else None)
               else None)
         else None)"

definition prod_check_THP ::
  "('grp, 'gs, 'sch, 'sum) WellInterface \<Rightarrow> WellState \<Rightarrow> 'sum \<Rightarrow> WellState option" where
  "prod_check_THP wi well_state summaryState =
     (let controls = productionControls (well_ecl wi) summaryState;
          well_index = index_of_well wi;
          currentControl = currentProductionControl well_state well_index
      in if prod_hasControl controls Prod_THP \<and> currentControl \<noteq> Prod_THP then
           (if getTHPConstraint wi summaryState > thp well_state well_index
            then Some (set_currentProductionControl well_index Prod_THP well_state)
            else None)
         else None)"

definition checkIndividualConstraints_producer ::
  "('grp, 'gs, 'sch, 'sum) WellInterface \<Rightarrow> WellState \<Rightarrow> 'sum \<Rightarrow> WellState option" where
  "checkIndividualConstraints_producer wi well_state summaryState =
     orElse (prod_check_BHP wi well_state summaryState)
    (orElse (prod_check_ORAT wi well_state summaryState)
    (orElse (prod_check_WRAT wi well_state summaryState)
    (orElse (prod_check_GRAT wi well_state summaryState)
    (orElse (prod_check_LRAT wi well_state summaryState)
    (orElse (prod_check_RESV wi well_state summaryState)
            (prod_check_THP wi well_state summaryState))))))"

text \<open>
  \<^verbatim>\<open>checkIndividualConstraints\<close>: the injector blocks, then the producer blocks, then
  \<^verbatim>\<open>return false\<close>. The result is the returned flag with the well state after the call.
\<close>

definition checkIndividualConstraints ::
  "('grp, 'gs, 'sch, 'sum) WellInterface \<Rightarrow> WellState \<Rightarrow> 'sum \<Rightarrow> error + bool \<times> WellState" where
  "checkIndividualConstraints wi well_state summaryState =
     (case (if isInjector (well_ecl wi)
            then checkIndividualConstraints_injector wi well_state summaryState
            else Inr None) of
        Inl e \<Rightarrow> Inl e
      | Inr (Some ws') \<Rightarrow> Inr (True, ws')
      | Inr None \<Rightarrow>
          (case (if isProducer (well_ecl wi)
                 then checkIndividualConstraints_producer wi well_state summaryState
                 else None) of
             Some ws' \<Rightarrow> Inr (True, ws')
           | None \<Rightarrow> Inr (False, well_state)))"

section \<open>Group constraints\<close>

text \<open>
  \<^verbatim>\<open>checkGroupConstraintsInj\<close> and \<^verbatim>\<open>checkGroupConstraintsProd\<close> hand the well's data to
  the group evaluators. The guide rate and the logger the source also passes are not
  arguments here: the evaluators are parameters of the interface already.
\<close>

definition checkGroupConstraintsInj ::
  "('grp, 'gs, 'sch, 'sum) WellInterface \<Rightarrow> 'grp \<Rightarrow> WellState \<Rightarrow> 'gs \<Rightarrow> real \<Rightarrow> 'sch \<Rightarrow> 'sum
     \<Rightarrow> error + bool \<times> real" where
  "checkGroupConstraintsInj wi grp well_state group_state efficiencyFactor schedule summaryState =
     (let well_controls = injectionControls (well_ecl wi) summaryState;
          injectorType = injector_type well_controls
      in case (case injectorType of
                 WATER \<Rightarrow> Inr Phase_WATER
               | OIL \<Rightarrow> Inr Phase_OIL
               | GAS \<Rightarrow> Inr Phase_GAS
               | MULTI \<Rightarrow> Inl (Exception
                   (''Expected WATER, OIL or GAS as type for injector '' @ name wi)))
         of Inl e \<Rightarrow> Inl e
          | Inr injectionPhase \<Rightarrow>
              (let resv_coeff = calcCoeff wi 0 (pvtRegionIdx wi)
                                  (replicate (num_phases (phaseUsage wi)) 1)
               in Inr (WellGroupHelpers_checkGroupConstraintsInj wi (name wi)
                         (groupName (well_ecl wi)) grp well_state group_state (current_step wi)
                         (wellRates well_state (index_of_well wi)) injectionPhase (phaseUsage wi)
                         efficiencyFactor schedule summaryState resv_coeff)))"

definition checkGroupConstraintsProd ::
  "('grp, 'gs, 'sch, 'sum) WellInterface \<Rightarrow> 'grp \<Rightarrow> WellState \<Rightarrow> 'gs \<Rightarrow> real \<Rightarrow> 'sch \<Rightarrow> 'sum
     \<Rightarrow> bool \<times> real" where
  "checkGroupConstraintsProd wi grp well_state group_state efficiencyFactor schedule summaryState =
     (let resv_coeff = calcCoeff wi 0 (pvtRegionIdx wi)
                         (replicate (num_phases (phaseUsage wi)) 1)
      in WellGroupHelpers_checkGroupConstraintsProd wi (name wi)
           (groupName (well_ecl wi)) grp well_state group_state (current_step wi)
           (wellRates well_state (index_of_well wi)) (phaseUsage wi)
           efficiencyFactor schedule summaryState resv_coeff)"

text \<open>
  The loop \<^verbatim>\<open>for (p < np) wellRates(index_of_well_)[p] *= group_constraint.second\<close>, with
  \<open>np\<close> read from the well state.
\<close>

definition scale_wellRates :: "nat \<Rightarrow> real \<Rightarrow> WellState \<Rightarrow> WellState" where
  "scale_wellRates i s ws =
     (let np = numPhases ws
      in ws\<lparr>wellRates := (wellRates ws)(i := for_phases np (\<lambda>p x. x * s) (wellRates ws i))\<rparr>)"

definition checkGroupConstraints_injector ::
  "('grp, 'gs, 'sch, 'sum) WellInterface \<Rightarrow> WellState \<Rightarrow> 'gs \<Rightarrow> 'sch \<Rightarrow> 'sum
     \<Rightarrow> error + (bool \<times> WellState) option" where
  "checkGroupConstraints_injector wi well_state group_state schedule summaryState =
     (let well = well_ecl wi;
          well_index = index_of_well wi;
          currentControl = currentInjectionControl well_state well_index
      in if currentControl \<noteq> Inj_GRUP then
           (let grp = getGroup wi schedule (groupName well) (current_step wi);
                efficiencyFactor = getEfficiencyFactor well
            in case checkGroupConstraintsInj wi grp well_state group_state efficiencyFactor
                      schedule summaryState of
                 Inl e \<Rightarrow> Inl e
               | Inr group_constraint \<Rightarrow>
                   Inr (Some (fst group_constraint,
                     if fst group_constraint
                     then scale_wellRates (index_of_well wi) (snd group_constraint)
                            (set_currentInjectionControl (index_of_well wi) Inj_GRUP well_state)
                     else well_state)))
         else Inr None)"

definition checkGroupConstraints_producer ::
  "('grp, 'gs, 'sch, 'sum) WellInterface \<Rightarrow> WellState \<Rightarrow> 'gs \<Rightarrow> 'sch \<Rightarrow> 'sum
     \<Rightarrow> (bool \<times> WellState) option" where
  "checkGroupConstraints_producer wi well_state group_state schedule summaryState =
     (let well = well_ecl wi;
          well_index = index_of_well wi;
          currentControl = currentProductionControl well_state well_index
      in if currentControl \<noteq> Prod_GRUP then
           (let grp = getGroup wi schedule (groupName well) (current_step wi);
                efficiencyFactor = getEfficiencyFactor well;
                group_constraint = checkGroupConstraintsProd wi grp well_state group_state
                                     efficiencyFactor schedule summaryState
            in Some (fst group_constraint,
                 if fst group_constraint
                 then scale_wellRates (index_of_well wi) (snd group_constraint)
                        (set_currentProductionControl (index_of_well wi) Prod_GRUP well_state)
                 else well_state))
         else None)"

definition checkGroupConstraints ::
  "('grp, 'gs, 'sch, 'sum) WellInterface \<Rightarrow> WellState \<Rightarrow> 'gs \<Rightarrow> 'sch \<Rightarrow> 'sum
     \<Rightarrow> error + bool \<times> WellState" where
  "checkGroupConstraints wi well_state group_state schedule summaryState =
     (case (if isInjector (well_ecl wi)
            then checkGroupConstraints_injector wi well_state group_state schedule summaryState
            else Inr None) of
        Inl e \<Rightarrow> Inl e
      | Inr (Some r) \<Rightarrow> Inr r
      | Inr None \<Rightarrow>
          (case (if isProducer (well_ecl wi)
                 then checkGroupConstraints_producer wi well_state group_state schedule summaryState
                 else None) of
             Some r \<Rightarrow> Inr r
           | None \<Rightarrow> Inr (False, well_state)))"

definition checkConstraints ::
  "('grp, 'gs, 'sch, 'sum) WellInterface \<Rightarrow> WellState \<Rightarrow> 'gs \<Rightarrow> 'sch \<Rightarrow> 'sum
     \<Rightarrow> error + bool \<times> WellState" where
  "checkConstraints wi well_state group_state schedule summaryState =
     (case checkIndividualConstraints wi well_state summaryState of
        Inl e \<Rightarrow> Inl e
      | Inr (ind_broken, ws') \<Rightarrow>
          if ind_broken then Inr (True, ws')
          else checkGroupConstraints wi ws' group_state schedule summaryState)"

section \<open>The logger and the well-test ledger\<close>

text \<open>
  Modelled from the spec: \<^verbatim>\<open>DeferredLogger\<close> is declared outside the source file. It
  collects warnings (a stable tag and a message) and info messages in the order they are
  issued.
\<close>

datatype LogEntry = Warning string string | Info string

type_synonym DeferredLogger = "LogEntry list"

definition warning :: "string \<Rightarrow> string \<Rightarrow> DeferredLogger \<Rightarrow> DeferredLogger" where
  "warning tag msg deferred_logger = deferred_logger @ [Warning tag msg]"

definition info :: "string \<Rightarrow> DeferredLogger \<Rightarrow> DeferredLogger" where
  "info msg deferred_logger = deferred_logger @ [Info msg]"

text \<open>\<^verbatim>\<open>std::to_string\<close> on an \<^verbatim>\<open>int\<close>: the decimal digits, with a sign when negative.\<close>

fun nat_to_string :: "nat \<Rightarrow> string" where
  "nat_to_string n =
     (if n < 10 then [''0123456789'' ! n]
      else nat_to_string (n div 10) @ [''0123456789'' ! (n mod 10)])"

declare nat_to_string.simps [simp del]

definition to_string :: "int \<Rightarrow> string" where
  "to_string i = (if i < 0 then ''-'' @ nat_to_string (nat (- i)) else nat_to_string (nat i))"

datatype Reason = PHYSICAL | ECONOMIC | GROUP | THP_DESIGN | COMPLETION

text \<open>
  Modelled from the spec: \<^verbatim>\<open>WellTestState\<close> is declared outside the source file. The
  ledger maps a well name to its closure (closed, reason, time) and a well name with a
  completion number to the closure of that completion (closed, time).
\<close>

record ClosedWell =
  wt_closed :: bool
  wt_reason :: Reason
  wt_time :: real

record ClosedCompletion =
  ct_closed :: bool
  ct_time :: real

record WellTestState =
  wt_wells :: "string \<rightharpoonup> ClosedWell"
  wt_completions :: "string \<times> int \<rightharpoonup> ClosedCompletion"

definition closeWell :: "string \<Rightarrow> Reason \<Rightarrow> real \<Rightarrow> WellTestState \<Rightarrow> WellTestState" where
  "closeWell well_name' reason sim_time wts =
     wts\<lparr>wt_wells := (wt_wells wts)
           (well_name' \<mapsto> \<lparr>wt_closed = True, wt_reason = reason, wt_time = sim_time\<rparr>)\<rparr>"

definition addClosedCompletion :: "string \<Rightarrow> int \<Rightarrow> real \<Rightarrow> WellTestState \<Rightarrow> WellTestState" where
  "addClosedCompletion well_name' complnum' sim_time wts =
     wts\<lparr>wt_completions := (wt_completions wts)
           ((well_name', complnum') \<mapsto> \<lparr>ct_closed = True, ct_time = sim_time\<rparr>)\<rparr>"

definition hasCompletion :: "WellTestState \<Rightarrow> string \<Rightarrow> int \<Rightarrow> bool" where
  "hasCompletion wts well_name' complnum' =
     (case wt_completions wts (well_name', complnum') of
        None \<Rightarrow> False
      | Some c \<Rightarrow> ct_closed c)"

definition hasWellClosed :: "WellTestState \<Rightarrow> string \<Rightarrow> Reason \<Rightarrow> bool" where
  "hasWellClosed wts well_name' reason =
     (case wt_wells wts well_name' of
        None \<Rightarrow> False
      | Some w \<Rightarrow> wt_closed w \<and> wt_reason w = reason)"

section \<open>Rate limits\<close>

text \<open>
  \<^verbatim>\<open>checkRateEconLimits\<close>. The argument \<^verbatim>\<open>rates_or_potentials\<close> is a pointer to the first
  phase slot of the well: a function from the offset to the value read there.
\<close>

definition checkRateEconLimits ::
  "('grp, 'gs, 'sch, 'sum) WellInterface \<Rightarrow> WellEconProductionLimits \<Rightarrow> (nat \<Rightarrow> real)
     \<Rightarrow> DeferredLogger \<Rightarrow> error + bool \<times> DeferredLogger" where
  "checkRateEconLimits wi econ_production_limits rates_or_potentials deferred_logger =
     (let pu = phaseUsage wi
      in case (if onMinOilRate econ_production_limits then
                 (if \<not> phaseIsActive wi Oil then Inl AssertionFailed
                  else Inr (\<bar>rates_or_potentials (phase_pos pu Oil)\<bar>
                              < minOilRate econ_production_limits))
               else Inr False) of
           Inl e \<Rightarrow> Inl e
         | Inr True \<Rightarrow> Inr (True, deferred_logger)
         | Inr False \<Rightarrow>
        (case (if onMinGasRate econ_production_limits then
                 (if \<not> phaseIsActive wi Gas then Inl AssertionFailed
                  else Inr (\<bar>rates_or_potentials (phase_pos pu Gas)\<bar>
                              < minGasRate econ_production_limits))
               else Inr False) of
           Inl e \<Rightarrow> Inl e
         | Inr True \<Rightarrow> Inr (True, deferred_logger)
         | Inr False \<Rightarrow>
        (case (if onMinLiquidRate econ_production_limits then
                 (if \<not> phaseIsActive wi Oil then Inl AssertionFailed
                  else if \<not> phaseIsActive wi Water then Inl AssertionFailed
                  else (let oil_rate' = rates_or_potentials (phase_pos pu Oil);
                            water_rate' = rates_or_potentials (phase_pos pu Water);
                            liquid_rate' = oil_rate' + water_rate'
                        in Inr (\<bar>liquid_rate'\<bar> < minLiquidRate econ_production_limits)))
               else Inr False) of
           Inl e \<Rightarrow> Inl e
         | Inr True \<Rightarrow> Inr (True, deferred_logger)
         | Inr False \<Rightarrow>
             Inr (False,
               if onMinReservoirFluidRate econ_production_limits
               then warning ''NOT_SUPPORTING_MIN_RESERVOIR_FLUID_RATE''
                      ''Minimum reservoir fluid production rate limit is not supported yet''
                      deferred_logger
               else deferred_logger))))"

section \<open>Ratio evaluators\<close>

text \<open>
  The three lambdas \<^verbatim>\<open>waterCut\<close>, \<^verbatim>\<open>gor\<close> and \<^verbatim>\<open>wgr\<close>. Each asserts that its two rates
  have the same direction.
\<close>

definition waterCut :: "real list \<Rightarrow> PhaseUsage \<Rightarrow> error + real" where
  "waterCut rates pu =
     (let oil_rate' = rates ! phase_pos pu Oil;
          water_rate' = rates ! phase_pos pu Water
      in if \<not> (oil_rate' * water_rate' \<ge> 0) then Inl AssertionFailed
         else (let liquid_rate' = oil_rate' + water_rate'
               in if liquid_rate' \<noteq> 0 then Inr (water_rate' / liquid_rate') else Inr 0))"

definition gor :: "real list \<Rightarrow> PhaseUsage \<Rightarrow> error + real" where
  "gor rates pu =
     (let oil_rate' = rates ! phase_pos pu Oil;
          gas_rate' = rates ! phase_pos pu Gas
      in if \<not> (oil_rate' * gas_rate' \<ge> 0) then Inl AssertionFailed
         else if oil_rate' \<noteq> 0 then Inr (gas_rate' / oil_rate')
         else if gas_rate' \<noteq> 0 then Inr (10 ^ 100)
         else Inr 0)"

definition wgr :: "real list \<Rightarrow> PhaseUsage \<Rightarrow> error + real" where
  "wgr rates pu =
     (let water_rate' = rates ! phase_pos pu Water;
          gas_rate' = rates ! phase_pos pu Gas
      in if \<not> (water_rate' * gas_rate' \<ge> 0) then Inl AssertionFailed
         else if gas_rate' \<noteq> 0 then Inr (water_rate' / gas_rate')
         else if water_rate' \<noteq> 0 then Inr (10 ^ 100)
         else Inr 0)"

section \<open>Ratio limits and the worst-offending completion\<close>

text \<open>
  Modelled from the spec: \<^verbatim>\<open>RatioLimitCheckReport\<close> and \<^verbatim>\<open>INVALIDCOMPLETION\<close> are declared
  in the class header, outside the source file. A report holds the violation flag, the
  worst completion, with a sentinel for no completion identified, and the violation
  extent. The sentinel is taken to be the largest \<^verbatim>\<open>int\<close>; a fresh report is unviolated,
  names the sentinel and has extent \<open>0\<close>.
\<close>

definition INVALIDCOMPLETION :: int where
  "INVALIDCOMPLETION = 2147483647"

record RatioLimitCheckReport =
  ratio_limit_violated :: bool
  worst_offending_completion :: int
  violation_extent :: real

definition new_RatioLimitCheckReport :: RatioLimitCheckReport where
  "new_RatioLimitCheckReport =
     \<lparr>ratio_limit_violated = False, worst_offending_completion = INVALIDCOMPLETION,
      violation_extent = 0\<rparr>"

definition checkMaxRatioLimitWell ::
  "('grp, 'gs, 'sch, 'sum) WellInterface \<Rightarrow> WellState \<Rightarrow> real
     \<Rightarrow> (real list \<Rightarrow> PhaseUsage \<Rightarrow> error + real) \<Rightarrow> error + bool" where
  "checkMaxRatioLimitWell wi well_state max_ratio_limit ratioFunc =
     (let np = number_of_phases wi;
          well_rates = for_phases np (\<lambda>p _. wellRates well_state (index_of_well wi) ! p)
                         (replicate np 0)
      in case ratioFunc well_rates (phaseUsage wi) of
           Inl e \<Rightarrow> Inl e
         | Inr well_ratio \<Rightarrow> Inr (well_ratio > max_ratio_limit))"

text \<open>
  The rates of one completion: over its connections \<open>c\<close> and the phases \<open>p\<close>, the slot
  \<^verbatim>\<open>perf_phase_rates[c * np + p]\<close> is added to \<^verbatim>\<open>completion_rates[p]\<close>, where
  \<^verbatim>\<open>perf_phase_rates\<close> points at slot \<^verbatim>\<open>first_perf_ * np\<close> of the perforation rates.
\<close>

definition perf_phase_rates ::
  "('grp, 'gs, 'sch, 'sum) WellInterface \<Rightarrow> WellState \<Rightarrow> nat \<Rightarrow> real" where
  "perf_phase_rates wi well_state j =
     perfPhaseRates well_state ! (first_perf wi * number_of_phases wi + j)"

definition completion_rates ::
  "('grp, 'gs, 'sch, 'sum) WellInterface \<Rightarrow> WellState \<Rightarrow> nat list \<Rightarrow> real list" where
  "completion_rates wi well_state conns =
     (let np = number_of_phases wi
      in foldl (\<lambda>rates c.
                  for_phases np (\<lambda>p x. x + perf_phase_rates wi well_state (c * np + p)) rates)
           (replicate np 0) conns)"

text \<open>
  The scan over \<^verbatim>\<open>completions_\<close>: \<open>ratio_of\<close> gives the ratio of a completion from its
  connections; the pair is \<^verbatim>\<open>(worst_offending_completion, max_ratio_completion)\<close>.
\<close>

fun scan_completions ::
  "(nat list \<Rightarrow> error + real) \<Rightarrow> (int \<times> nat list) list \<Rightarrow> int \<times> real \<Rightarrow> error + int \<times> real" where
  "scan_completions ratio_of [] acc = Inr acc"
| "scan_completions ratio_of (completion # rest) acc =
     (case ratio_of (snd completion) of
        Inl e \<Rightarrow> Inl e
      | Inr ratio_completion \<Rightarrow>
          scan_completions ratio_of rest
            (if ratio_completion > snd acc then (fst completion, ratio_completion) else acc))"

definition completion_ratio ::
  "('grp, 'gs, 'sch, 'sum) WellInterface \<Rightarrow> WellState
     \<Rightarrow> (real list \<Rightarrow> PhaseUsage \<Rightarrow> error + real) \<Rightarrow> nat list \<Rightarrow> error + real" where
  "completion_ratio wi well_state ratioFunc conns =
     ratioFunc (communication_sum wi (completion_rates wi well_state conns)) (phaseUsage wi)"

text \<open>
  \<^verbatim>\<open>checkMaxRatioLimitCompletions\<close>. The division is the division of the reals; every
  caller asserts \<^verbatim>\<open>max_ratio_limit > 0\<close> before the call.
\<close>

definition checkMaxRatioLimitCompletions ::
  "('grp, 'gs, 'sch, 'sum) WellInterface \<Rightarrow> WellState \<Rightarrow> real
     \<Rightarrow> (real list \<Rightarrow> PhaseUsage \<Rightarrow> error + real) \<Rightarrow> RatioLimitCheckReport
     \<Rightarrow> error + RatioLimitCheckReport" where
  "checkMaxRatioLimitCompletions wi well_state max_ratio_limit ratioFunc report =
     (case scan_completions (completion_ratio wi well_state ratioFunc) (completions wi)
             (INVALIDCOMPLETION, 0) of
        Inl e \<Rightarrow> Inl e
      | Inr (worst_offending_completion', max_ratio_completion) \<Rightarrow>
          if \<not> (max_ratio_completion > max_ratio_limit) then Inl AssertionFailed
          else if \<not> (worst_offending_completion' \<noteq> INVALIDCOMPLETION) then Inl AssertionFailed
          else (let violation_extent' = max_ratio_completion / max_ratio_limit
                in if \<not> (violation_extent' > 1) then Inl AssertionFailed
                   else if violation_extent' > violation_extent report
                   then Inr (report\<lparr>worst_offending_completion := worst_offending_completion',
                                    violation_extent := violation_extent'\<rparr>)
                   else Inr report))"

definition checkMaxWaterCutLimit ::
  "('grp, 'gs, 'sch, 'sum) WellInterface \<Rightarrow> WellEconProductionLimits \<Rightarrow> WellState
     \<Rightarrow> RatioLimitCheckReport \<Rightarrow> error + RatioLimitCheckReport" where
  "checkMaxWaterCutLimit wi econ_production_limits well_state report =
     (if \<not> phaseIsActive wi Oil then Inl AssertionFailed
      else if \<not> phaseIsActive wi Water then Inl AssertionFailed
      else (let max_water_cut_limit = maxWaterCut econ_production_limits
            in if \<not> (max_water_cut_limit > 0) then Inl AssertionFailed
               else (case checkMaxRatioLimitWell wi well_state max_water_cut_limit waterCut of
                       Inl e \<Rightarrow> Inl e
                     | Inr watercut_limit_violated \<Rightarrow>
                         if watercut_limit_violated
                         then checkMaxRatioLimitCompletions wi well_state max_water_cut_limit
                                waterCut (report\<lparr>ratio_limit_violated := True\<rparr>)
                         else Inr report)))"

definition checkMaxGORLimit ::
  "('grp, 'gs, 'sch, 'sum) WellInterface \<Rightarrow> WellEconProductionLimits \<Rightarrow> WellState
     \<Rightarrow> RatioLimitCheckReport \<Rightarrow> error + RatioLimitCheckReport" where
  "checkMaxGORLimit wi econ_production_limits well_state report =
     (if \<not> phaseIsActive wi Oil then Inl AssertionFailed
      else if \<not> phaseIsActive wi Gas then Inl AssertionFailed
      else (let max_gor_limit = maxGasOilRatio econ_production_limits
            in if \<not> (max_gor_limit > 0) then Inl AssertionFailed
               else (case checkMaxRatioLimitWell wi well_state max_gor_limit gor of
                       Inl e \<Rightarrow> Inl e
                     | Inr gor_limit_violated \<Rightarrow>
                         if gor_limit_violated
                         then checkMaxRatioLimitCompletions wi well_state max_gor_limit
                                gor (report\<lparr>ratio_limit_violated := True\<rparr>)
                         else Inr report)))"

definition checkMaxWGRLimit ::
  "('grp, 'gs, 'sch, 'sum) WellInterface \<Rightarrow> WellEconProductionLimits \<Rightarrow> WellState
     \<Rightarrow> RatioLimitCheckReport \<Rightarrow> error + RatioLimitCheckReport" where
  "checkMaxWGRLimit wi econ_production_limits well_state report =
     (if \<not> phaseIsActive wi Water then Inl AssertionFailed
      else if \<not> phaseIsActive wi Gas then Inl AssertionFailed
      else (let max_wgr_limit = maxWaterGasRatio econ_production_limits
            in if \<not> (max_wgr_limit > 0) then Inl AssertionFailed
               else (case checkMaxRatioLimitWell wi well_state max_wgr_limit wgr of
                       Inl e \<Rightarrow> Inl e
                     | Inr wgr_limit_violated \<Rightarrow>
                         if wgr_limit_violated
                         then checkMaxRatioLimitCompletions wi well_state max_wgr_limit
                                wgr (report\<lparr>ratio_limit_violated := True\<rparr>)
                         else Inr report)))"

definition checkRatioEconLimits ::
  "('grp, 'gs, 'sch, 'sum) WellInterface \<Rightarrow> WellEconProductionLimits \<Rightarrow> WellState
     \<Rightarrow> RatioLimitCheckReport \<Rightarrow> DeferredLogger
     \<Rightarrow> error + RatioLimitCheckReport \<times> DeferredLogger" where
  "checkRatioEconLimits wi econ_production_limits well_state report deferred_logger =
     (case (if onMaxWaterCut econ_production_limits
            then checkMaxWaterCutLimit wi econ_production_limits well_state report
            else Inr report) of
        Inl e \<Rightarrow> Inl e
      | Inr report1 \<Rightarrow>
     (case (if onMaxGasOilRatio econ_production_limits
            then checkMaxGORLimit wi econ_production_limits well_state report1
            else Inr report1) of
        Inl e \<Rightarrow> Inl e
      | Inr report2 \<Rightarrow>
     (case (if onMaxWaterGasRatio econ_production_limits
            then checkMaxWGRLimit wi econ_production_limits well_state report2
            else Inr report2) of
        Inl e \<Rightarrow> Inl e
      | Inr report3 \<Rightarrow>
          (let logger1 = (if onMaxGasLiquidRatio econ_production_limits
                          then warning ''NOT_SUPPORTING_MAX_GLR''
                                 ''the support for max Gas-Liquid ratio is not implemented yet!''
                                 deferred_logger
                          else deferred_logger)
           in if ratio_limit_violated report3 then
                (if \<not> (worst_offending_completion report3 \<noteq> INVALIDCOMPLETION)
                 then Inl AssertionFailed
                 else if \<not> (violation_extent report3 > 1) then Inl AssertionFailed
                 else Inr (report3, logger1))
              else Inr (report3, logger1)))))"

section \<open>The economic limit evaluator\<close>

text \<open>The block of \<^verbatim>\<open>updateWellTestStateEconomic\<close> under \<^verbatim>\<open>if (rate_limit_violated)\<close>.\<close>

definition close_for_rate_limit ::
  "('grp, 'gs, 'sch, 'sum) WellInterface \<Rightarrow> WellEconProductionLimits \<Rightarrow> real \<Rightarrow> bool
     \<Rightarrow> WellTestState \<Rightarrow> DeferredLogger \<Rightarrow> WellTestState \<times> DeferredLogger" where
  "close_for_rate_limit wi econ_production_limits simulation_time write_message_to_opmlog
       well_test_state deferred_logger =
     (let logger1 =
            (if endRun econ_production_limits
             then warning ''NOT_SUPPORTING_ENDRUN''
                    (''ending run after well closed due to economic limits''
                       @ ''is not supported yet '' @ [CHR 0x0A]
                       @ ''the program will keep running after '' @ name wi
                       @ '' is closed'')
                    deferred_logger
             else deferred_logger);
          logger2 =
            (if validFollowonWell econ_production_limits
             then warning ''NOT_SUPPORTING_FOLLOWONWELL''
                    ''opening following on well after well closed is not supported yet''
                    logger1
             else logger1);
          wts1 = closeWell (name wi) ECONOMIC simulation_time well_test_state;
          logger3 =
            (if write_message_to_opmlog then
               (if getAutomaticShutIn (well_ecl wi)
                then info (''well '' @ name wi @ '' will be shut due to rate economic limit'')
                       logger2
                else info (''well '' @ name wi @ '' will be stopped due to rate economic limit'')
                       logger2)
             else logger2)
      in (wts1, logger3))"

text \<open>
  The loop of the \<^verbatim>\<open>CON\<close> case over the connections of the well: the flag is cleared by
  every connection that is open and whose completion the ledger does not hold.
\<close>

definition allCompletionsClosed ::
  "('grp, 'gs, 'sch, 'sum) WellInterface \<Rightarrow> WellTestState \<Rightarrow> bool" where
  "allCompletionsClosed wi well_test_state =
     foldl (\<lambda>flag connection.
              if state connection = OPEN
                 \<and> \<not> hasCompletion well_test_state (name wi) (complnum connection)
              then False else flag)
       True (getConnections (well_ecl wi))"

definition workover_CON ::
  "('grp, 'gs, 'sch, 'sum) WellInterface \<Rightarrow> RatioLimitCheckReport \<Rightarrow> real \<Rightarrow> bool
     \<Rightarrow> WellTestState \<Rightarrow> DeferredLogger \<Rightarrow> WellTestState \<times> DeferredLogger" where
  "workover_CON wi ratio_report simulation_time write_message_to_opmlog
       well_test_state deferred_logger =
     (let worst_offending_completion' = worst_offending_completion ratio_report;
          wts1 = addClosedCompletion (name wi) worst_offending_completion' simulation_time
                   well_test_state;
          logger1 =
            (if write_message_to_opmlog then
               (if worst_offending_completion' < 0
                then info (''Connection '' @ to_string (- worst_offending_completion')
                             @ '' for well '' @ name wi
                             @ '' will be closed due to economic limit'') deferred_logger
                else info (''Completion '' @ to_string worst_offending_completion'
                             @ '' for well '' @ name wi
                             @ '' will be closed due to economic limit'') deferred_logger)
             else deferred_logger)
      in if allCompletionsClosed wi wts1 then
           (closeWell (name wi) ECONOMIC simulation_time wts1,
            if write_message_to_opmlog then
              (if getAutomaticShutIn (well_ecl wi)
               then info (name wi @ '' will be shut due to last completion closed'') logger1
               else info (name wi @ '' will be stopped due to last completion closed'') logger1)
            else logger1)
         else (wts1, logger1))"

definition workover_WELL ::
  "('grp, 'gs, 'sch, 'sum) WellInterface \<Rightarrow> real \<Rightarrow> bool
     \<Rightarrow> WellTestState \<Rightarrow> DeferredLogger \<Rightarrow> WellTestState \<times> DeferredLogger" where
  "workover_WELL wi simulation_time write_message_to_opmlog well_test_state deferred_logger =
     (closeWell (name wi) ECONOMIC simulation_time well_test_state,
      if write_message_to_opmlog then
        (if getAutomaticShutIn (well_ecl wi)
         then info (name wi @ '' will be shut due to ratio economic limit'') deferred_logger
         else info (name wi @ '' will be stopped due to ratio economic limit'') deferred_logger)
      else deferred_logger)"

text \<open>
  The flag \<^verbatim>\<open>rate_limit_violated\<close> of \<^verbatim>\<open>updateWellTestStateEconomic\<close>: the rate limits are
  checked on the potentials of the well, from slot \<^verbatim>\<open>index_of_well_ * np\<close> of the flat
  vector, or on its rates.
\<close>

definition rate_limit_violated ::
  "('grp, 'gs, 'sch, 'sum) WellInterface \<Rightarrow> WellEconProductionLimits \<Rightarrow> WellState
     \<Rightarrow> DeferredLogger \<Rightarrow> error + bool \<times> DeferredLogger" where
  "rate_limit_violated wi econ_production_limits well_state deferred_logger =
     (let quantity_limit = quantityLimit econ_production_limits;
          np = number_of_phases wi
      in if onAnyRateLimit econ_production_limits then
           (if quantity_limit = QuantityLimit_POTN
            then checkRateEconLimits wi econ_production_limits
                   (\<lambda>j. wellPotentials well_state ! (index_of_well wi * np + j))
                   deferred_logger
            else checkRateEconLimits wi econ_production_limits
                   (\<lambda>j. wellRates well_state (index_of_well wi) ! j)
                   deferred_logger)
         else Inr (False, deferred_logger))"

text \<open>
  \<^verbatim>\<open>updateWellTestStateEconomic\<close>: the result is the ledger and the logger after the call.
\<close>

definition updateWellTestStateEconomic ::
  "('grp, 'gs, 'sch, 'sum) WellInterface \<Rightarrow> WellState \<Rightarrow> real \<Rightarrow> bool
     \<Rightarrow> WellTestState \<Rightarrow> DeferredLogger \<Rightarrow> error + WellTestState \<times> DeferredLogger" where
  "updateWellTestStateEconomic wi well_state simulation_time write_message_to_opmlog
       well_test_state deferred_logger =
     (if wellIsStopped wi then Inr (well_test_state, deferred_logger)
      else
        (let econ_production_limits = getEconLimits (well_ecl wi)
         in if \<not> onAnyEffectiveLimit econ_production_limits
            then Inr (well_test_state, deferred_logger)
            else
              (case rate_limit_violated wi econ_production_limits well_state deferred_logger of
                 Inl e \<Rightarrow> Inl e
               | Inr (rate_limit_violated', logger1) \<Rightarrow>
                   if rate_limit_violated'
                   then Inr (close_for_rate_limit wi econ_production_limits simulation_time
                               write_message_to_opmlog well_test_state logger1)
                   else if \<not> onAnyRatioLimit econ_production_limits
                   then Inr (well_test_state, logger1)
                   else
                     (case checkRatioEconLimits wi econ_production_limits well_state
                             new_RatioLimitCheckReport logger1 of
                        Inl e \<Rightarrow> Inl e
                      | Inr (ratio_report, logger2) \<Rightarrow>
                          if ratio_limit_violated ratio_report then
                            (case workover econ_production_limits of
                               CON \<Rightarrow> Inr (workover_CON wi ratio_report simulation_time
                                              write_message_to_opmlog well_test_state logger2)
                             | WELL \<Rightarrow> Inr (workover_WELL wi simulation_time
                                               write_message_to_opmlog well_test_state logger2)
                             | NONE \<Rightarrow> Inr (well_test_state, logger2)
                             | _ \<Rightarrow> Inr (well_test_state,
                                      warning ''NOT_SUPPORTED_WORKOVER_TYPE''
                                        (''not supporting workover type ''
                                           @ EconWorkover2String econ_production_limits
                                               (workover econ_production_limits))
                                        logger2))
                          else Inr (well_test_state, logger2)))))"

section \<open>The economic limits in the words of the specification\<close>

text \<open>
  The quantity the minimum-rate limits are tested on, by the quantity-limit mode, and the
  condition that one of the configured minimum oil, gas or liquid rates is violated: the
  absolute value of the signed rate is below the minimum.
\<close>

definition econ_quantity ::
  "('grp, 'gs, 'sch, 'sum) WellInterface \<Rightarrow> WellState \<Rightarrow> BlackoilPhases \<Rightarrow> real" where
  "econ_quantity wi ws phase =
     (if quantityLimit (getEconLimits (well_ecl wi)) = QuantityLimit_POTN
      then wellPotentials ws
             ! (index_of_well wi * number_of_phases wi + phase_pos (phaseUsage wi) phase)
      else wellRates ws (index_of_well wi) ! phase_pos (phaseUsage wi) phase)"

definition min_rate_violated ::
  "('grp, 'gs, 'sch, 'sum) WellInterface \<Rightarrow> WellState \<Rightarrow> bool" where
  "min_rate_violated wi ws =
     (let el = getEconLimits (well_ecl wi)
      in (onMinOilRate el \<and> \<bar>econ_quantity wi ws Oil\<bar> < minOilRate el)
         \<or> (onMinGasRate el \<and> \<bar>econ_quantity wi ws Gas\<bar> < minGasRate el)
         \<or> (onMinLiquidRate el
            \<and> \<bar>econ_quantity wi ws Oil + econ_quantity wi ws Water\<bar> < minLiquidRate el))"

text \<open>
  The phases a configured minimum-rate limit reads are active in the fluid system: the
  assertions of \<^verbatim>\<open>checkRateEconLimits\<close>.
\<close>

definition rate_limit_phases_active :: "('grp, 'gs, 'sch, 'sum) WellInterface \<Rightarrow> bool" where
  "rate_limit_phases_active wi =
     (let el = getEconLimits (well_ecl wi)
      in (if onMinOilRate el then phaseIsActive wi Oil else True)
         \<and> (if onMinGasRate el then phaseIsActive wi Gas else True)
         \<and> (if onMinLiquidRate el then phaseIsActive wi Oil \<and> phaseIsActive wi Water else True))"

text \<open>
  The scan over the completions when the ratio of every completion is at hand: the pairs
  are completion number and ratio, in iteration order.
\<close>

definition select_worst :: "int \<times> real \<Rightarrow> (int \<times> real) list \<Rightarrow> int \<times> real" where
  "select_worst acc ratios =
     foldl (\<lambda>acc completion. if snd completion > snd acc then completion else acc) acc ratios"

text \<open>
  The worst offender of one ratio kind in the words of the specification: when the kind
  is configured and the ratio of the well exceeds the limit, the first completion, in
  iteration order, whose ratio is the maximum over the completions, with the extent of the
  violation, that maximum over the limit. A completion whose ratio aborts the code counts
  as \<open>0\<close> here; the properties below are about calls that return.
\<close>

definition kind_outcome ::
  "('grp, 'gs, 'sch, 'sum) WellInterface \<Rightarrow> WellState \<Rightarrow> bool \<Rightarrow> real
     \<Rightarrow> (real list \<Rightarrow> PhaseUsage \<Rightarrow> error + real) \<Rightarrow> (int \<times> real) option" where
  "kind_outcome wi ws configured limit ratioFunc =
     (if configured \<and> checkMaxRatioLimitWell wi ws limit ratioFunc = Inr True
         \<and> completions wi \<noteq> []
      then (let ratios = map (\<lambda>c. case completion_ratio wi ws ratioFunc (snd c) of
                                     Inr q \<Rightarrow> q | Inl _ \<Rightarrow> 0) (completions wi);
                m = Max (set ratios)
            in case find (\<lambda>c. completion_ratio wi ws ratioFunc (snd c) = Inr m)
                      (completions wi) of
                 Some c \<Rightarrow> Some (fst c, m / limit)
               | None \<Rightarrow> None)
      else None)"

text \<open>
  What the worst offender of one kind does to the report the evaluator carries from kind
  to kind: a kind without a worst offender leaves it; otherwise the violation is marked,
  and the completion and its extent replace those of the report when the extent is
  greater.
\<close>

definition kind_update ::
  "(int \<times> real) option \<Rightarrow> RatioLimitCheckReport \<Rightarrow> RatioLimitCheckReport" where
  "kind_update outcome report =
     (case outcome of
        None \<Rightarrow> report
      | Some ce \<Rightarrow>
          if violation_extent report < snd ce
          then report\<lparr>ratio_limit_violated := True, worst_offending_completion := fst ce,
                      violation_extent := snd ce\<rparr>
          else report\<lparr>ratio_limit_violated := True\<rparr>)"

text \<open>
  The cross-kind comparison in the words of the specification: the report marks a
  violation exactly when some kind has a worst offender; no kind has an extent above the
  one the report holds; and a report that marks a violation holds the worst offender of
  one of the kinds, with its extent.
\<close>

definition retains_largest ::
  "RatioLimitCheckReport \<Rightarrow> (int \<times> real) option list \<Rightarrow> bool" where
  "retains_largest report outcomes =
     (ratio_limit_violated report = list_ex (\<lambda>outcome. outcome \<noteq> None) outcomes
      \<and> list_all (\<lambda>outcome. case outcome of
                               None \<Rightarrow> True
                             | Some ce \<Rightarrow> snd ce \<le> violation_extent report) outcomes
      \<and> (if ratio_limit_violated report
         then Some (worst_offending_completion report, violation_extent report)
                \<in> set outcomes
         else violation_extent report = 0))"

section \<open>The priority order in the words of the specification\<close>

text \<open>
  The specification describes \<^verbatim>\<open>checkIndividualConstraints\<close> as a search through a fixed
  priority list for the first control that is configured, not the active one, and whose
  limit the observed value breaks. These definitions follow that description; they are
  compared with the embedding of the code below.
\<close>

definition injector_priority :: "InjectorCMode list" where
  "injector_priority = [Inj_BHP, Inj_RATE, Inj_RESV, Inj_THP]"

definition producer_priority :: "ProducerCMode list" where
  "producer_priority =
     [Prod_BHP, Prod_ORAT, Prod_WRAT, Prod_GRAT, Prod_LRAT, Prod_RESV, Prod_THP]"

definition inj_limit_broken ::
  "('grp, 'gs, 'sch, 'sum) WellInterface \<Rightarrow> WellState \<Rightarrow> 'sum \<Rightarrow> InjectorCMode \<Rightarrow> bool" where
  "inj_limit_broken wi ws summaryState c =
     (let controls = injectionControls (well_ecl wi) summaryState;
          pu = phaseUsage wi;
          i = index_of_well wi
      in case c of
           Inj_BHP \<Rightarrow> inj_bhp_limit controls < bhp ws i
         | Inj_RATE \<Rightarrow>
             (case injector_type controls of
                WATER \<Rightarrow> surface_rate controls < wellRates ws i ! phase_pos pu Aqua
              | OIL \<Rightarrow> surface_rate controls < wellRates ws i ! phase_pos pu Liquid
              | GAS \<Rightarrow> surface_rate controls < wellRates ws i ! phase_pos pu Vapour
              | MULTI \<Rightarrow> False)
         | Inj_RESV \<Rightarrow>
             reservoir_rate controls < inj_resv_current_rate pu (wellReservoirRates ws i)
         | Inj_THP \<Rightarrow> getTHPConstraint wi summaryState < thp ws i
         | _ \<Rightarrow> False)"

definition inj_fires ::
  "('grp, 'gs, 'sch, 'sum) WellInterface \<Rightarrow> WellState \<Rightarrow> 'sum \<Rightarrow> InjectorCMode \<Rightarrow> bool" where
  "inj_fires wi ws summaryState c =
     (inj_hasControl (injectionControls (well_ecl wi) summaryState) c
      \<and> currentInjectionControl ws (index_of_well wi) \<noteq> c
      \<and> inj_limit_broken wi ws summaryState c)"

definition prod_limit_broken ::
  "('grp, 'gs, 'sch, 'sum) WellInterface \<Rightarrow> WellState \<Rightarrow> 'sum \<Rightarrow> ProducerCMode \<Rightarrow> bool" where
  "prod_limit_broken wi ws summaryState c =
     (let controls = productionControls (well_ecl wi) summaryState;
          pu = phaseUsage wi;
          i = index_of_well wi
      in case c of
           Prod_BHP \<Rightarrow> bhp ws i < prod_bhp_limit controls
         | Prod_ORAT \<Rightarrow> oil_rate controls < - (wellRates ws i ! phase_pos pu Liquid)
         | Prod_WRAT \<Rightarrow> water_rate controls < - (wellRates ws i ! phase_pos pu Aqua)
         | Prod_GRAT \<Rightarrow> gas_rate controls < - (wellRates ws i ! phase_pos pu Vapour)
         | Prod_LRAT \<Rightarrow>
             liquid_rate controls
               < - (wellRates ws i ! phase_pos pu Liquid) - wellRates ws i ! phase_pos pu Aqua
         | Prod_RESV \<Rightarrow>
             (if prediction_mode controls
              then resv_rate controls < prod_resv_current_rate pu (wellReservoirRates ws i)
              else prod_converted_resv_rate wi controls
                     < prod_resv_current_rate pu (wellReservoirRates ws i))
         | Prod_THP \<Rightarrow> thp ws i < getTHPConstraint wi summaryState
         | _ \<Rightarrow> False)"

definition prod_fires ::
  "('grp, 'gs, 'sch, 'sum) WellInterface \<Rightarrow> WellState \<Rightarrow> 'sum \<Rightarrow> ProducerCMode \<Rightarrow> bool" where
  "prod_fires wi ws summaryState c =
     (prod_hasControl (productionControls (well_ecl wi) summaryState) c
      \<and> currentProductionControl ws (index_of_well wi) \<noteq> c
      \<and> prod_limit_broken wi ws summaryState c)"

section \<open>Example wells\<close>

definition ex_pu :: PhaseUsage where
  "ex_pu = \<lparr>num_phases = 3, phase_used = (\<lambda>_. True),
            phase_pos = (\<lambda>p. case p of Aqua \<Rightarrow> 0 | Liquid \<Rightarrow> 1 | Vapour \<Rightarrow> 2)\<rparr>"

definition ex_limits :: WellEconProductionLimits where
  "ex_limits =
     \<lparr>onAnyEffectiveLimit = False, onAnyRateLimit = False, onAnyRatioLimit = False,
      quantityLimit = QuantityLimit_RATE,
      onMinOilRate = False, minOilRate = 0, onMinGasRate = False, minGasRate = 0,
      onMinLiquidRate = False, minLiquidRate = 0, onMinReservoirFluidRate = False,
      onMaxWaterCut = False, maxWaterCut = 0, onMaxGasOilRatio = False, maxGasOilRatio = 0,
      onMaxWaterGasRatio = False, maxWaterGasRatio = 0, onMaxGasLiquidRatio = False,
      endRun = False, validFollowonWell = False, workover = NONE,
      EconWorkover2String = (\<lambda>_. [])\<rparr>"

definition ex_inj_controls :: InjectionControls where
  "ex_inj_controls =
     \<lparr>inj_hasControl = (\<lambda>c. c = Inj_BHP \<or> c = Inj_RATE \<or> c = Inj_RESV),
      inj_bhp_limit = 300, injector_type = WATER, surface_rate = 1000,
      reservoir_rate = 1200\<rparr>"

definition ex_prod_controls :: ProductionControls where
  "ex_prod_controls =
     \<lparr>prod_hasControl = (\<lambda>c. c = Prod_BHP \<or> c = Prod_ORAT \<or> c = Prod_LRAT),
      prod_bhp_limit = 100, oil_rate = 500, water_rate = 0, gas_rate = 0,
      liquid_rate = 600, resv_rate = 0, prediction_mode = True\<rparr>"

definition ex_well :: "unit Well" where
  "ex_well =
     \<lparr>well_name = ''W1'', producer = False, groupName = ''G1'', getEfficiencyFactor = 1,
      injectionControls = (\<lambda>_. ex_inj_controls),
      productionControls = (\<lambda>_. ex_prod_controls),
      getEconLimits = ex_limits, getConnections = [], getAutomaticShutIn = True\<rparr>"

definition ex_wi :: "(unit, unit, unit, unit) WellInterface" where
  "ex_wi =
     \<lparr>well_ecl = ex_well, phaseUsage = ex_pu, index_of_well = 0, number_of_phases = 3,
      first_perf = 0, pvtRegionIdx = 0, current_step = 0, wellIsStopped = False,
      completions = [],
      calcReservoirVoidageRates = (\<lambda>_ _ surface_rates. map (\<lambda>x. 2 * x) surface_rates),
      calcCoeff = (\<lambda>_ _ coeff. coeff),
      getTHPConstraint = (\<lambda>_. 50),
      communication_sum = (\<lambda>v. v),
      phaseIsActive = (\<lambda>_. True),
      getGroup = (\<lambda>_ _ _. ()),
      WellGroupHelpers_checkGroupConstraintsInj =
        (\<lambda>_ _ _ _ _ _ _ _ _ _ _ _ _. (True, 7 / 10)),
      WellGroupHelpers_checkGroupConstraintsProd =
        (\<lambda>_ _ _ _ _ _ _ _ _ _ _ _. (True, 7 / 10))\<rparr>"

text \<open>
  An injector on RATE control whose reservoir rate \<open>1500\<close> is above the RESV limit
  \<open>1200\<close>, with BHP \<open>250\<close> below the BHP limit \<open>300\<close>; and the same well state with the
  surface rates of a producer.
\<close>

definition ex_ws :: WellState where
  "ex_ws =
     \<lparr>numPhases = 3, wellRates = (\<lambda>_. [100, 0, 0]),
      wellReservoirRates = (\<lambda>_. [1500, 0, 0]),
      bhp = (\<lambda>_. 250), thp = (\<lambda>_. 40),
      currentInjectionControl = (\<lambda>_. Inj_RATE),
      currentProductionControl = (\<lambda>_. Prod_GRAT),
      perfPhaseRates = [], wellPotentials = []\<rparr>"

text \<open>The injector with both its BHP limit and its RATE limit broken, on RESV control.\<close>

definition ex_ws_both :: WellState where
  "ex_ws_both =
     ex_ws\<lparr>wellRates := (\<lambda>_. [1100, 0, 0]), bhp := (\<lambda>_. 350),
           currentInjectionControl := (\<lambda>_. Inj_RESV)\<rparr>"

text \<open>The injector with both its RATE limit and its RESV limit broken, on THP control.\<close>

definition ex_ws_rate_resv :: WellState where
  "ex_ws_rate_resv =
     ex_ws\<lparr>wellRates := (\<lambda>_. [1100, 0, 0]), currentInjectionControl := (\<lambda>_. Inj_THP)\<rparr>"

text \<open>The injector with no individual limit broken, on RATE control and on GRUP control.\<close>

definition ex_ws_quiet :: WellState where
  "ex_ws_quiet = ex_ws\<lparr>wellReservoirRates := (\<lambda>_. [1000, 0, 0])\<rparr>"

definition ex_ws_grup :: WellState where
  "ex_ws_grup = ex_ws_quiet\<lparr>currentInjectionControl := (\<lambda>_. Inj_GRUP)\<rparr>"

definition ex_ws_prod_grup :: WellState where
  "ex_ws_prod_grup = ex_ws_quiet\<lparr>currentProductionControl := (\<lambda>_. Prod_GRUP)\<rparr>"

text \<open>
  A producer on GRAT control that produces \<open>200\<close> of water and \<open>600\<close> of oil: both its oil
  limit \<open>500\<close> and its liquid limit \<open>600\<close> are broken.
\<close>

definition ex_prod_wi :: "(unit, unit, unit, unit) WellInterface" where
  "ex_prod_wi = ex_wi\<lparr>well_ecl := ex_well\<lparr>producer := True\<rparr>\<rparr>"

definition ex_prod_ws :: WellState where
  "ex_prod_ws = ex_ws\<lparr>wellRates := (\<lambda>_. [- 200, - 600, 0])\<rparr>"

text \<open>
  A producer with three completions of one connection each, whose water cuts are \<open>0.3\<close>,
  \<open>0.9\<close> and \<open>0.6\<close>; the water cut of the well is \<open>0.6\<close>. Its limits: a maximum water cut
  of \<open>0.5\<close> under the workover \<open>CON\<close>.
\<close>

definition ex_ratio_limits :: WellEconProductionLimits where
  "ex_ratio_limits =
     ex_limits\<lparr>onAnyEffectiveLimit := True, onAnyRatioLimit := True,
               onMaxWaterCut := True, maxWaterCut := 1 / 2, workover := CON\<rparr>"

definition ex_econ_well :: "unit Well" where
  "ex_econ_well =
     ex_well\<lparr>well_name := ''P1'', producer := True, getEconLimits := ex_ratio_limits,
             getConnections := [\<lparr>state = OPEN, complnum = 1\<rparr>, \<lparr>state = OPEN, complnum = 2\<rparr>,
                                \<lparr>state = OPEN, complnum = 3\<rparr>]\<rparr>"

definition ex_econ_wi :: "(unit, unit, unit, unit) WellInterface" where
  "ex_econ_wi = ex_wi\<lparr>well_ecl := ex_econ_well, completions := [(1, [0]), (2, [1]), (3, [2])]\<rparr>"

definition ex_econ_ws :: WellState where
  "ex_econ_ws =
     ex_ws\<lparr>wellRates := (\<lambda>_. [- 18, - 12, 0]),
           perfPhaseRates := [- 3, - 7, 0, - 9, - 1, 0, - 6, - 4, 0],
           wellPotentials := [- 18, - 12, 0]\<rparr>"

text \<open>The ledger that holds the completions \<open>1\<close> and \<open>3\<close> of the producer as closed.\<close>

definition ex_ledger :: WellTestState where
  "ex_ledger =
     \<lparr>wt_wells = Map.empty,
      wt_completions = [(''P1'', 1) \<mapsto> \<lparr>ct_closed = True, ct_time = 1\<rparr>,
                        (''P1'', 3) \<mapsto> \<lparr>ct_closed = True, ct_time = 2\<rparr>]\<rparr>"

text \<open>
  The same producer with a minimum oil rate of \<open>20\<close>, above its oil rate \<open>12\<close>, beside the
  water-cut limit.
\<close>

definition ex_rate_wi :: "(unit, unit, unit, unit) WellInterface" where
  "ex_rate_wi =
     ex_econ_wi\<lparr>well_ecl := ex_econ_well\<lparr>getEconLimits :=
        ex_ratio_limits\<lparr>onAnyRateLimit := True, onMinOilRate := True, minOilRate := 20\<rparr>\<rparr>\<rparr>"

text \<open>
  A producer whose first two completions both have water cut \<open>0.9\<close>, and whose third has
  gas-oil ratio \<open>9\<close>: under a water-cut limit of \<open>0.5\<close> and a gas-oil-ratio limit of \<open>5\<close> the two
  extents are both \<open>1.8\<close>.
\<close>

definition ex_tie_wi :: "(unit, unit, unit, unit) WellInterface" where
  "ex_tie_wi =
     ex_econ_wi\<lparr>well_ecl := ex_econ_well\<lparr>getEconLimits :=
        ex_ratio_limits\<lparr>onMaxGasOilRatio := True, maxGasOilRatio := 5\<rparr>\<rparr>\<rparr>"

definition ex_tie_ws :: WellState where
  "ex_tie_ws =
     ex_ws\<lparr>wellRates := (\<lambda>_. [- 27, - 7, - 36]),
           perfPhaseRates := [- 9, - 1, 0, - 18, - 2, 0, 0, - 4, - 36]\<rparr>"

text \<open>
  The same producer under a gas-oil-ratio limit of \<open>3\<close>: the extent of the gas-oil ratio,
  \<open>3\<close>, is above the extent \<open>1.8\<close> of the water cut.
\<close>

definition ex_multi_wi :: "(unit, unit, unit, unit) WellInterface" where
  "ex_multi_wi =
     ex_econ_wi\<lparr>well_ecl := ex_econ_well\<lparr>getEconLimits :=
        ex_ratio_limits\<lparr>onMaxGasOilRatio := True, maxGasOilRatio := 3\<rparr>\<rparr>\<rparr>"

section \<open>Properties of the phase loops\<close>

lemma for_phases_eq:
  "n \<le> length v \<Longrightarrow> for_phases n g v = map (\<lambda>p. g p (v ! p)) [0..<n] @ drop n v"
proof (induction n)
  case 0
  then show ?case by (simp add: for_phases_def)
next
  case (Suc n)
  then have n: "n < length v" by simp
  have "for_phases (Suc n) g v = (for_phases n g v)[n := g n (for_phases n g v ! n)]"
    by (simp add: for_phases_def)
  also have "for_phases n g v = map (\<lambda>p. g p (v ! p)) [0..<n] @ drop n v"
    using Suc by simp
  finally show ?case using n
    by (simp add: list_update_append nth_append Cons_nth_drop_Suc[symmetric] del: upt_Suc)
       (simp add: Cons_nth_drop_Suc[symmetric])
qed

lemma for_phases_full:
  "length v = n \<Longrightarrow> for_phases n g v = map (\<lambda>p. g p (v ! p)) [0..<n]"
  by (simp add: for_phases_eq)

lemma for_phases_scale:
  "length v = n \<Longrightarrow> for_phases n (\<lambda>p x. x * s) v = map (\<lambda>x. x * s) v"
  by (simp add: for_phases_full list_eq_iff_nth_eq)

section \<open>Individual constraints: the blocks and the priority search\<close>

lemma inj_check_BHP_fires:
  "inj_check_BHP wi ws s =
     (if inj_fires wi ws s Inj_BHP
      then Some (set_currentInjectionControl (index_of_well wi) Inj_BHP ws) else None)"
  by (simp add: inj_check_BHP_def inj_fires_def inj_limit_broken_def Let_def)

lemma inj_check_RATE_fires:
  "injector_type (injectionControls (well_ecl wi) s) \<noteq> MULTI \<Longrightarrow>
   inj_check_RATE wi ws s =
     Inr (if inj_fires wi ws s Inj_RATE
          then Some (set_currentInjectionControl (index_of_well wi) Inj_RATE ws) else None)"
  by (simp add: inj_check_RATE_def inj_fires_def inj_limit_broken_def Let_def
           split: InjectorType.splits)

lemma inj_check_RESV_fires:
  "inj_check_RESV wi ws s = (if inj_fires wi ws s Inj_RESV then Some ws else None)"
  by (simp add: inj_check_RESV_def inj_fires_def inj_limit_broken_def Let_def)

lemma inj_check_THP_fires:
  "inj_check_THP wi ws s = (if inj_fires wi ws s Inj_THP then Some ws else None)"
  by (simp add: inj_check_THP_def inj_fires_def inj_limit_broken_def Let_def)

lemma prod_check_BHP_fires:
  "prod_check_BHP wi ws s =
     (if prod_fires wi ws s Prod_BHP
      then Some (set_currentProductionControl (index_of_well wi) Prod_BHP ws) else None)"
  by (simp add: prod_check_BHP_def prod_fires_def prod_limit_broken_def Let_def)

lemma prod_check_ORAT_fires:
  "prod_check_ORAT wi ws s =
     (if prod_fires wi ws s Prod_ORAT
      then Some (set_currentProductionControl (index_of_well wi) Prod_ORAT ws) else None)"
  by (simp add: prod_check_ORAT_def prod_fires_def prod_limit_broken_def Let_def)

lemma prod_check_WRAT_fires:
  "prod_check_WRAT wi ws s =
     (if prod_fires wi ws s Prod_WRAT
      then Some (set_currentProductionControl (index_of_well wi) Prod_WRAT ws) else None)"
  by (simp add: prod_check_WRAT_def prod_fires_def prod_limit_broken_def Let_def)

lemma prod_check_GRAT_fires:
  "prod_check_GRAT wi ws s =
     (if prod_fires wi ws s Prod_GRAT
      then Some (set_currentProductionControl (index_of_well wi) Prod_GRAT ws) else None)"
  by (simp add: prod_check_GRAT_def prod_fires_def prod_limit_broken_def Let_def)

lemma prod_check_LRAT_fires:
  "prod_check_LRAT wi ws s =
     (if prod_fires wi ws s Prod_LRAT
      then Some (set_currentProductionControl (index_of_well wi) Prod_LRAT ws) else None)"
  by (simp add: prod_check_LRAT_def prod_fires_def prod_limit_broken_def Let_def)

lemma prod_check_RESV_fires:
  "prod_check_RESV wi ws s =
     (if prod_fires wi ws s Prod_RESV
      then Some (set_currentProductionControl (index_of_well wi) Prod_RESV ws) else None)"
  by (simp add: prod_check_RESV_def prod_fires_def prod_limit_broken_def Let_def)

lemma prod_check_THP_fires:
  "prod_check_THP wi ws s =
     (if prod_fires wi ws s Prod_THP
      then Some (set_currentProductionControl (index_of_well wi) Prod_THP ws) else None)"
  by (simp add: prod_check_THP_def prod_fires_def prod_limit_broken_def Let_def)

lemmas prod_blocks = prod_check_BHP_fires prod_check_ORAT_fires prod_check_WRAT_fires
  prod_check_GRAT_fires prod_check_LRAT_fires prod_check_RESV_fires prod_check_THP_fires

lemma producer_blocks_find:
  "checkIndividualConstraints_producer wi ws s =
     map_option (\<lambda>c. set_currentProductionControl (index_of_well wi) c ws)
       (find (prod_fires wi ws s) producer_priority)"
  by (simp add: checkIndividualConstraints_producer_def prod_blocks orElse_def
        producer_priority_def)

lemma injector_blocks_find:
  assumes "injector_type (injectionControls (well_ecl wi) s) \<noteq> MULTI"
  shows "checkIndividualConstraints_injector wi ws s =
     Inr (map_option
            (\<lambda>c. if c = Inj_BHP \<or> c = Inj_RATE
                 then set_currentInjectionControl (index_of_well wi) c ws else ws)
            (find (inj_fires wi ws s) injector_priority))"
  by (simp add: checkIndividualConstraints_injector_def inj_check_BHP_fires
        inj_check_RATE_fires[OF assms] inj_check_RESV_fires inj_check_THP_fires orElse_def
        injector_priority_def)

text \<open>
  Claim C6. \<^verbatim>\<open>checkIndividualConstraints\<close> goes through the controls in the order BHP, RATE,
  RESV, THP for an injector and BHP, ORAT, WRAT, GRAT, LRAT, RESV, THP for a producer,
  skips the active control and returns true at the first control whose limit is broken.
  The result is that of the search through the priority list: false and the well state
  as it was when no control is found, true when one is found, with the state the block
  of that control leaves: the mode of the control written for BHP and RATE of the
  injector and for every control of the producer, the state as it was for RESV and THP
  of the injector. A broken BHP limit wins over every later one. For an injector the
  injector type must be one the code knows: any other type is a fatal configuration error.
\<close>

theorem checkIndividualConstraints_priority:
  "(isInjector (well_ecl wi) \<and> injector_type (injectionControls (well_ecl wi) s) \<noteq> MULTI
      \<longrightarrow> checkIndividualConstraints wi ws s
            = Inr (case find (inj_fires wi ws s) injector_priority of
                     None \<Rightarrow> (False, ws)
                   | Some c \<Rightarrow>
                       (True, if c = Inj_BHP \<or> c = Inj_RATE
                              then set_currentInjectionControl (index_of_well wi) c ws
                              else ws)))
   \<and> (isInjector (well_ecl wi) \<and> inj_fires wi ws s Inj_BHP
      \<longrightarrow> checkIndividualConstraints wi ws s
            = Inr (True, set_currentInjectionControl (index_of_well wi) Inj_BHP ws))
   \<and> (isProducer (well_ecl wi)
      \<longrightarrow> checkIndividualConstraints wi ws s
            = Inr (case find (prod_fires wi ws s) producer_priority of
                     None \<Rightarrow> (False, ws)
                   | Some c \<Rightarrow> (True, set_currentProductionControl (index_of_well wi) c ws)))"
proof (intro conjI impI)
  assume a: "isInjector (well_ecl wi) \<and> injector_type (injectionControls (well_ecl wi) s) \<noteq> MULTI"
  then have np: "\<not> isProducer (well_ecl wi)" by (simp add: isInjector_def isProducer_def)
  show "checkIndividualConstraints wi ws s
            = Inr (case find (inj_fires wi ws s) injector_priority of
                     None \<Rightarrow> (False, ws)
                   | Some c \<Rightarrow>
                       (True, if c = Inj_BHP \<or> c = Inj_RATE
                              then set_currentInjectionControl (index_of_well wi) c ws
                              else ws))"
    using a np
    by (cases "find (inj_fires wi ws s) injector_priority")
       (simp_all add: checkIndividualConstraints_def injector_blocks_find)
next
  assume a: "isInjector (well_ecl wi) \<and> inj_fires wi ws s Inj_BHP"
  then show "checkIndividualConstraints wi ws s
            = Inr (True, set_currentInjectionControl (index_of_well wi) Inj_BHP ws)"
    by (simp add: checkIndividualConstraints_def checkIndividualConstraints_injector_def
          inj_check_BHP_fires)
next
  assume a: "isProducer (well_ecl wi)"
  then have ni: "\<not> isInjector (well_ecl wi)" by (simp add: isInjector_def isProducer_def)
  show "checkIndividualConstraints wi ws s
            = Inr (case find (prod_fires wi ws s) producer_priority of
                     None \<Rightarrow> (False, ws)
                   | Some c \<Rightarrow> (True, set_currentProductionControl (index_of_well wi) c ws))"
    using a ni
    by (cases "find (prod_fires wi ws s) producer_priority")
       (simp_all add: checkIndividualConstraints_def producer_blocks_find)
qed

lemmas ex_defs = ex_wi_def ex_well_def ex_ws_def ex_pu_def ex_inj_controls_def
  ex_prod_controls_def ex_limits_def

lemmas inj_block_defs = checkIndividualConstraints_injector_def inj_check_BHP_def
  inj_check_RATE_def inj_check_RESV_def inj_check_THP_def inj_resv_current_rate_def
  orElse_def set_currentInjectionControl_def

theorem checkIndividualConstraints_priority_witness:
  "checkIndividualConstraints ex_wi ex_ws_both ()
     = Inr (True, set_currentInjectionControl 0 Inj_BHP ex_ws_both)
   \<and> inj_fires ex_wi ex_ws_both () Inj_RATE
   \<and> find (inj_fires ex_wi ex_ws_both ()) injector_priority = Some Inj_BHP
   \<and> checkIndividualConstraints ex_wi ex_ws_rate_resv ()
     = Inr (True, set_currentInjectionControl 0 Inj_RATE ex_ws_rate_resv)
   \<and> inj_fires ex_wi ex_ws_rate_resv () Inj_RESV
   \<and> find (inj_fires ex_wi ex_ws_rate_resv ()) injector_priority = Some Inj_RATE
   \<and> checkIndividualConstraints ex_prod_wi ex_prod_ws ()
     = Inr (True, set_currentProductionControl 0 Prod_ORAT ex_prod_ws)
   \<and> prod_fires ex_prod_wi ex_prod_ws () Prod_LRAT"
proof -
  have inj: "isInjector (well_ecl ex_wi)"
    by (simp add: isInjector_def ex_defs)
  have ty: "injector_type (injectionControls (well_ecl ex_wi) ()) \<noteq> MULTI"
    by (simp add: ex_defs)
  have bhp: "inj_fires ex_wi ex_ws_both () Inj_BHP"
    by (simp add: inj_fires_def inj_limit_broken_def ex_ws_both_def ex_defs)
  have rate: "inj_fires ex_wi ex_ws_both () Inj_RATE"
    by (simp add: inj_fires_def inj_limit_broken_def ex_ws_both_def ex_defs)
  have nb': "\<not> inj_fires ex_wi ex_ws_rate_resv () Inj_BHP"
    by (simp add: inj_fires_def inj_limit_broken_def ex_ws_rate_resv_def ex_defs)
  have rate': "inj_fires ex_wi ex_ws_rate_resv () Inj_RATE"
    by (simp add: inj_fires_def inj_limit_broken_def ex_ws_rate_resv_def ex_defs)
  have resv': "inj_fires ex_wi ex_ws_rate_resv () Inj_RESV"
    by (simp add: inj_fires_def inj_limit_broken_def inj_resv_current_rate_def
          ex_ws_rate_resv_def ex_defs)
  have i0: "index_of_well ex_wi = 0" "index_of_well ex_prod_wi = 0"
    by (simp_all add: ex_prod_wi_def ex_defs)
  have prod: "isProducer (well_ecl ex_prod_wi)"
    by (simp add: isProducer_def ex_prod_wi_def ex_defs)
  have nb: "\<not> prod_fires ex_prod_wi ex_prod_ws () Prod_BHP"
    by (simp add: prod_fires_def prod_limit_broken_def ex_prod_wi_def ex_prod_ws_def ex_defs)
  have orat: "prod_fires ex_prod_wi ex_prod_ws () Prod_ORAT"
    by (simp add: prod_fires_def prod_limit_broken_def ex_prod_wi_def ex_prod_ws_def ex_defs)
  have lrat: "prod_fires ex_prod_wi ex_prod_ws () Prod_LRAT"
    by (simp add: prod_fires_def prod_limit_broken_def ex_prod_wi_def ex_prod_ws_def ex_defs)
  have f1: "find (inj_fires ex_wi ex_ws_both ()) injector_priority = Some Inj_BHP"
    using bhp by (simp add: injector_priority_def)
  have f3: "find (inj_fires ex_wi ex_ws_rate_resv ()) injector_priority = Some Inj_RATE"
    using nb' rate' by (simp add: injector_priority_def)
  have f2: "find (prod_fires ex_prod_wi ex_prod_ws ()) producer_priority = Some Prod_ORAT"
    using nb orat by (simp add: producer_priority_def)
  note prio = checkIndividualConstraints_priority
  from prio [of ex_wi "()" ex_ws_both] inj bhp i0
  have 1: "checkIndividualConstraints ex_wi ex_ws_both ()
     = Inr (True, set_currentInjectionControl 0 Inj_BHP ex_ws_both)" by simp
  from prio [of ex_wi "()" ex_ws_rate_resv] inj ty f3 i0
  have 3: "checkIndividualConstraints ex_wi ex_ws_rate_resv ()
     = Inr (True, set_currentInjectionControl 0 Inj_RATE ex_ws_rate_resv)" by simp
  from prio [of ex_prod_wi "()" ex_prod_ws] prod f2 i0
  have 2: "checkIndividualConstraints ex_prod_wi ex_prod_ws ()
     = Inr (True, set_currentProductionControl 0 Prod_ORAT ex_prod_ws)" by simp
  from 1 2 3 rate resv' lrat f1 f3 show ?thesis by blast
qed

text \<open>
  Claim C1. \<^verbatim>\<open>checkConstraints\<close> should return true exactly when the control mode in the
  well state changed. On the injector \<open>ex_wi\<close> in state \<open>ex_ws\<close> the RESV limit is the only
  one broken: the call returns true and leaves the well state as it was, still on RATE
  control.
\<close>

theorem checkConstraints_injector_RESV_not_recorded:
  "checkConstraints ex_wi ex_ws () () () = Inr (True, ex_ws)
   \<and> inj_fires ex_wi ex_ws () Inj_RESV
   \<and> currentInjectionControl ex_ws (index_of_well ex_wi) = Inj_RATE"
  by (simp add: checkConstraints_def checkIndividualConstraints_def isInjector_def
        inj_block_defs inj_fires_def inj_limit_broken_def ex_defs)

section \<open>What the constraint checks write\<close>

lemma checkIndividualConstraints_injector_frame:
  "checkIndividualConstraints_injector wi ws s = Inr (Some ws') \<Longrightarrow>
     ws' = ws \<or> (\<exists>c. ws' = set_currentInjectionControl (index_of_well wi) c ws)"
  by (auto simp: checkIndividualConstraints_injector_def inj_check_BHP_def inj_check_RATE_def
        inj_check_RESV_def inj_check_THP_def orElse_def Let_def
      split: option.splits sum.splits if_splits)

lemma checkIndividualConstraints_producer_frame:
  "checkIndividualConstraints_producer wi ws s = Some ws' \<Longrightarrow>
     \<exists>c. ws' = set_currentProductionControl (index_of_well wi) c ws"
  by (auto simp: producer_blocks_find)

lemma checkIndividualConstraints_frame:
  assumes "checkIndividualConstraints wi ws s = Inr (b, ws')"
  shows "(\<not> b \<longrightarrow> ws' = ws)
       \<and> (ws' = ws \<or> (\<exists>c. ws' = set_currentInjectionControl (index_of_well wi) c ws)
          \<or> (\<exists>c. ws' = set_currentProductionControl (index_of_well wi) c ws))"
  using assms
  by (auto simp: checkIndividualConstraints_def
      split: if_splits sum.splits option.splits
      dest: checkIndividualConstraints_injector_frame checkIndividualConstraints_producer_frame)

lemma checkIndividualConstraints_rates:
  assumes "checkIndividualConstraints wi ws s = Inr (b, ws')"
  shows "wellRates ws' = wellRates ws \<and> wellReservoirRates ws' = wellReservoirRates ws"
  using checkIndividualConstraints_frame[OF assms]
  by (auto simp: set_currentInjectionControl_def set_currentProductionControl_def)

lemma checkGroupConstraints_frame:
  assumes "checkGroupConstraints wi ws gs sch s = Inr (b, ws')"
  shows "(\<not> b \<longrightarrow> ws' = ws)
       \<and> wellReservoirRates ws' = wellReservoirRates ws
       \<and> (\<forall>w. w \<noteq> index_of_well wi \<longrightarrow> wellRates ws' w = wellRates ws w)"
  using assms
  by (auto simp: checkGroupConstraints_def checkGroupConstraints_injector_def
        checkGroupConstraints_producer_def scale_wellRates_def Let_def
        set_currentInjectionControl_def set_currentProductionControl_def
      split: if_splits sum.splits option.splits)

section \<open>Group escalation\<close>

lemma scale_wellRates_map:
  "length (wellRates ws i) = numPhases ws \<Longrightarrow>
   scale_wellRates i sf ws = ws\<lparr>wellRates := (wellRates ws)(i := map (\<lambda>x. x * sf) (wellRates ws i))\<rparr>"
  by (simp add: scale_wellRates_def for_phases_scale)

lemma checkConstraints_no_individual:
  assumes "checkIndividualConstraints wi ws s = Inr (False, ws')"
  shows "checkConstraints wi ws gs sch s = checkGroupConstraints wi ws gs sch s"
proof -
  from checkIndividualConstraints_frame[OF assms] have "ws' = ws" by simp
  with assms show ?thesis by (simp add: checkConstraints_def)
qed

text \<open>
  Claim C2. When no individual constraint fires and the well is not on GRUP control,
  \<^verbatim>\<open>checkConstraints\<close> evaluates the constraint of the parent group
  \<^verbatim>\<open>getGroup(groupName(), current_step_)\<close>; when that reports a violation with scale factor
  \<open>sf\<close>, the control mode of the well becomes GRUP, every entry of the rate vector of the
  well is multiplied by \<open>sf\<close>, and the call returns true. When the well is on GRUP control
  already, the call returns false and the well state is untouched. The rate vector has
  \<^verbatim>\<open>numPhases()\<close> entries.
\<close>

theorem checkConstraints_group_escalation:
  assumes "checkIndividualConstraints wi ws s = Inr (False, ws')"
  shows
  "(isInjector (well_ecl wi) \<and> currentInjectionControl ws (index_of_well wi) \<noteq> Inj_GRUP
      \<and> checkGroupConstraintsInj wi
           (getGroup wi sch (groupName (well_ecl wi)) (current_step wi)) ws gs
           (getEfficiencyFactor (well_ecl wi)) sch s = Inr (True, sf)
      \<and> length (wellRates ws (index_of_well wi)) = numPhases ws
      \<longrightarrow> checkConstraints wi ws gs sch s
            = Inr (True,
                ws\<lparr>currentInjectionControl :=
                      (currentInjectionControl ws)(index_of_well wi := Inj_GRUP),
                   wellRates :=
                      (wellRates ws)(index_of_well wi :=
                         map (\<lambda>x. x * sf) (wellRates ws (index_of_well wi)))\<rparr>))
   \<and> (isProducer (well_ecl wi) \<and> currentProductionControl ws (index_of_well wi) \<noteq> Prod_GRUP
      \<and> checkGroupConstraintsProd wi
           (getGroup wi sch (groupName (well_ecl wi)) (current_step wi)) ws gs
           (getEfficiencyFactor (well_ecl wi)) sch s = (True, sf)
      \<and> length (wellRates ws (index_of_well wi)) = numPhases ws
      \<longrightarrow> checkConstraints wi ws gs sch s
            = Inr (True,
                ws\<lparr>currentProductionControl :=
                      (currentProductionControl ws)(index_of_well wi := Prod_GRUP),
                   wellRates :=
                      (wellRates ws)(index_of_well wi :=
                         map (\<lambda>x. x * sf) (wellRates ws (index_of_well wi)))\<rparr>))
   \<and> (isInjector (well_ecl wi) \<and> currentInjectionControl ws (index_of_well wi) = Inj_GRUP
      \<longrightarrow> checkConstraints wi ws gs sch s = Inr (False, ws))
   \<and> (isProducer (well_ecl wi) \<and> currentProductionControl ws (index_of_well wi) = Prod_GRUP
      \<longrightarrow> checkConstraints wi ws gs sch s = Inr (False, ws))"
proof -
  note cc = checkConstraints_no_individual[OF assms, of gs sch]
  have excl: "isProducer (well_ecl wi) = (\<not> isInjector (well_ecl wi))"
    by (simp add: isInjector_def isProducer_def)
  show ?thesis
  proof (intro conjI impI)
    assume a: "isInjector (well_ecl wi) \<and> currentInjectionControl ws (index_of_well wi) \<noteq> Inj_GRUP
      \<and> checkGroupConstraintsInj wi
           (getGroup wi sch (groupName (well_ecl wi)) (current_step wi)) ws gs
           (getEfficiencyFactor (well_ecl wi)) sch s = Inr (True, sf)
      \<and> length (wellRates ws (index_of_well wi)) = numPhases ws"
    then have len: "length (wellRates (set_currentInjectionControl (index_of_well wi) Inj_GRUP ws)
                      (index_of_well wi))
                    = numPhases (set_currentInjectionControl (index_of_well wi) Inj_GRUP ws)"
      by (simp add: set_currentInjectionControl_def)
    from a show "checkConstraints wi ws gs sch s
            = Inr (True,
                ws\<lparr>currentInjectionControl :=
                      (currentInjectionControl ws)(index_of_well wi := Inj_GRUP),
                   wellRates :=
                      (wellRates ws)(index_of_well wi :=
                         map (\<lambda>x. x * sf) (wellRates ws (index_of_well wi)))\<rparr>)"
      by (simp add: cc checkGroupConstraints_def checkGroupConstraints_injector_def Let_def
            scale_wellRates_map[OF len])
         (simp add: set_currentInjectionControl_def)
  next
    assume a: "isProducer (well_ecl wi) \<and> currentProductionControl ws (index_of_well wi) \<noteq> Prod_GRUP
      \<and> checkGroupConstraintsProd wi
           (getGroup wi sch (groupName (well_ecl wi)) (current_step wi)) ws gs
           (getEfficiencyFactor (well_ecl wi)) sch s = (True, sf)
      \<and> length (wellRates ws (index_of_well wi)) = numPhases ws"
    then have len: "length (wellRates (set_currentProductionControl (index_of_well wi) Prod_GRUP ws)
                      (index_of_well wi))
                    = numPhases (set_currentProductionControl (index_of_well wi) Prod_GRUP ws)"
      by (simp add: set_currentProductionControl_def)
    from a excl show "checkConstraints wi ws gs sch s
            = Inr (True,
                ws\<lparr>currentProductionControl :=
                      (currentProductionControl ws)(index_of_well wi := Prod_GRUP),
                   wellRates :=
                      (wellRates ws)(index_of_well wi :=
                         map (\<lambda>x. x * sf) (wellRates ws (index_of_well wi)))\<rparr>)"
      by (simp add: cc checkGroupConstraints_def checkGroupConstraints_producer_def Let_def
            scale_wellRates_map[OF len])
         (simp add: set_currentProductionControl_def)
  next
    assume "isInjector (well_ecl wi) \<and> currentInjectionControl ws (index_of_well wi) = Inj_GRUP"
    then show "checkConstraints wi ws gs sch s = Inr (False, ws)"
      using excl by (simp add: cc checkGroupConstraints_def checkGroupConstraints_injector_def)
  next
    assume "isProducer (well_ecl wi) \<and> currentProductionControl ws (index_of_well wi) = Prod_GRUP"
    then show "checkConstraints wi ws gs sch s = Inr (False, ws)"
      using excl by (simp add: cc checkGroupConstraints_def checkGroupConstraints_producer_def)
  qed
qed


lemma ex_individual_quiet:
  "checkIndividualConstraints ex_wi ex_ws_quiet () = Inr (False, ex_ws_quiet)"
  by (simp add: checkIndividualConstraints_def isInjector_def isProducer_def inj_block_defs
        ex_ws_quiet_def ex_defs)

lemma ex_group_quiet:
  "checkGroupConstraints ex_wi ex_ws_quiet () () ()
     = Inr (True, ex_ws_quiet\<lparr>currentInjectionControl := (\<lambda>_. Inj_RATE)(0 := Inj_GRUP),
                               wellRates := (\<lambda>_. [100, 0, 0])(0 := [70, 0, 0])\<rparr>)"
  by (simp add: checkGroupConstraints_def checkGroupConstraints_injector_def
        checkGroupConstraintsInj_def isInjector_def scale_wellRates_def for_phases_full
        set_currentInjectionControl_def ex_ws_quiet_def ex_defs numeral_3_eq_3)

theorem checkConstraints_group_escalation_witness:
  "checkConstraints ex_wi ex_ws_quiet () () ()
     = Inr (True, ex_ws_quiet\<lparr>currentInjectionControl := (\<lambda>_. Inj_RATE)(0 := Inj_GRUP),
                               wellRates := (\<lambda>_. [100, 0, 0])(0 := [70, 0, 0])\<rparr>)
   \<and> checkConstraints ex_prod_wi ex_ws_quiet () () ()
     = Inr (True, ex_ws_quiet\<lparr>currentProductionControl := (\<lambda>_. Prod_GRAT)(0 := Prod_GRUP),
                               wellRates := (\<lambda>_. [100, 0, 0])(0 := [70, 0, 0])\<rparr>)
   \<and> checkConstraints ex_wi ex_ws_grup () () () = Inr (False, ex_ws_grup)
   \<and> checkConstraints ex_prod_wi ex_ws_prod_grup () () () = Inr (False, ex_ws_prod_grup)"
proof -
  note quiet = ex_ws_quiet_def ex_ws_grup_def ex_ws_prod_grup_def ex_prod_wi_def
  note i1 = ex_individual_quiet
  have i2: "checkIndividualConstraints ex_prod_wi ex_ws_quiet () = Inr (False, ex_ws_quiet)"
    by (simp add: checkIndividualConstraints_def isInjector_def isProducer_def
          producer_blocks_find producer_priority_def prod_fires_def prod_limit_broken_def
          prod_resv_current_rate_def quiet ex_defs)
  have i3: "checkIndividualConstraints ex_wi ex_ws_grup () = Inr (False, ex_ws_grup)"
    by (simp add: checkIndividualConstraints_def isInjector_def isProducer_def inj_block_defs
          quiet ex_defs)
  have i4: "checkIndividualConstraints ex_prod_wi ex_ws_prod_grup ()
              = Inr (False, ex_ws_prod_grup)"
    by (simp add: checkIndividualConstraints_def isInjector_def isProducer_def
          producer_blocks_find producer_priority_def prod_fires_def prod_limit_broken_def
          prod_resv_current_rate_def quiet ex_defs)
  have h1: "isInjector (well_ecl ex_wi) \<and> currentInjectionControl ex_ws_quiet (index_of_well ex_wi) \<noteq> Inj_GRUP
      \<and> checkGroupConstraintsInj ex_wi
           (getGroup ex_wi () (groupName (well_ecl ex_wi)) (current_step ex_wi)) ex_ws_quiet ()
           (getEfficiencyFactor (well_ecl ex_wi)) () () = Inr (True, 7 / 10)
      \<and> length (wellRates ex_ws_quiet (index_of_well ex_wi)) = numPhases ex_ws_quiet"
    by (simp add: isInjector_def checkGroupConstraintsInj_def quiet ex_defs)
  have h2: "isProducer (well_ecl ex_prod_wi)
      \<and> currentProductionControl ex_ws_quiet (index_of_well ex_prod_wi) \<noteq> Prod_GRUP
      \<and> checkGroupConstraintsProd ex_prod_wi
           (getGroup ex_prod_wi () (groupName (well_ecl ex_prod_wi)) (current_step ex_prod_wi))
           ex_ws_quiet () (getEfficiencyFactor (well_ecl ex_prod_wi)) () () = (True, 7 / 10)
      \<and> length (wellRates ex_ws_quiet (index_of_well ex_prod_wi)) = numPhases ex_ws_quiet"
    by (simp add: isProducer_def checkGroupConstraintsProd_def quiet ex_defs)
  have h3: "isInjector (well_ecl ex_wi)
      \<and> currentInjectionControl ex_ws_grup (index_of_well ex_wi) = Inj_GRUP"
    by (simp add: isInjector_def quiet ex_defs)
  have h4: "isProducer (well_ecl ex_prod_wi)
      \<and> currentProductionControl ex_ws_prod_grup (index_of_well ex_prod_wi) = Prod_GRUP"
    by (simp add: isProducer_def quiet ex_defs)
  have v: "index_of_well ex_wi = 0" "index_of_well ex_prod_wi = 0"
      "currentInjectionControl ex_ws_quiet = (\<lambda>_. Inj_RATE)"
      "currentProductionControl ex_ws_quiet = (\<lambda>_. Prod_GRAT)"
      "wellRates ex_ws_quiet = (\<lambda>_. [100, 0, 0])"
    by (simp_all add: quiet ex_defs)
  from checkConstraints_group_escalation [OF i1, where gs = "()" and sch = "()" and sf = "7 / 10"] h1
  have 1: "checkConstraints ex_wi ex_ws_quiet () () ()
     = Inr (True, ex_ws_quiet\<lparr>currentInjectionControl := (\<lambda>_. Inj_RATE)(0 := Inj_GRUP),
                               wellRates := (\<lambda>_. [100, 0, 0])(0 := [70, 0, 0])\<rparr>)"
    by (simp add: v)
  from checkConstraints_group_escalation [OF i2, where gs = "()" and sch = "()" and sf = "7 / 10"] h2
  have 2: "checkConstraints ex_prod_wi ex_ws_quiet () () ()
     = Inr (True, ex_ws_quiet\<lparr>currentProductionControl := (\<lambda>_. Prod_GRAT)(0 := Prod_GRUP),
                               wellRates := (\<lambda>_. [100, 0, 0])(0 := [70, 0, 0])\<rparr>)"
    by (simp add: v)
  from checkConstraints_group_escalation [OF i3, where gs = "()" and sch = "()"] h3
  have 3: "checkConstraints ex_wi ex_ws_grup () () () = Inr (False, ex_ws_grup)"
    by blast
  from checkConstraints_group_escalation [OF i4, where gs = "()" and sch = "()"] h4
  have 4: "checkConstraints ex_prod_wi ex_ws_prod_grup () () () = Inr (False, ex_ws_prod_grup)"
    by blast
  from 1 2 3 4 show ?thesis by blast
qed

section \<open>Which rates the engine rewrites\<close>

text \<open>
  Claim C9 says that no operation but the rescaling after a group violation rewrites a
  rate slot of the well state, \<^verbatim>\<open>calculateReservoirRates\<close> included. That function stores
  the converted rates in the reservoir-rate slots of its well: with a converter that
  doubles the surface rates \<open>[100, 0, 0]\<close>, the reservoir rates \<open>[1500, 0, 0]\<close> become
  \<open>[200, 0, 0]\<close>.
\<close>

theorem calculateReservoirRates_rewrites_reservoir_rates:
  "wellReservoirRates (calculateReservoirRates ex_wi ex_ws) 0 = [200, 0, 0]
   \<and> wellReservoirRates ex_ws 0 = [1500, 0, 0]
   \<and> wellReservoirRates (calculateReservoirRates ex_wi ex_ws) 0 \<noteq> wellReservoirRates ex_ws 0"
  by (simp add: calculateReservoirRates_def for_phases_full ex_defs numeral_3_eq_3)

text \<open>
  Claim C9, amended. \<^verbatim>\<open>checkConstraints\<close> leaves every reservoir-rate slot and the surface
  rates of every other well as they are, and changes the surface rates of its own well
  only when no individual constraint fired and the group check reported a violation;
  \<^verbatim>\<open>checkIndividualConstraints\<close> changes no rate; \<^verbatim>\<open>calculateReservoirRates\<close> changes no
  surface rate and no reservoir rate of another well: it overwrites the reservoir rates of
  its own well. The economic evaluators take the well state read-only: in the embedding
  they return no well state.
\<close>

theorem decision_engine_rate_frame:
  "(checkConstraints wi ws gs sch s = Inr (b, ws')
      \<longrightarrow> wellReservoirRates ws' = wellReservoirRates ws
          \<and> (\<forall>w. w \<noteq> index_of_well wi \<longrightarrow> wellRates ws' w = wellRates ws w)
          \<and> (wellRates ws' = wellRates ws
             \<or> (checkIndividualConstraints wi ws s = Inr (False, ws)
                \<and> checkGroupConstraints wi ws gs sch s = Inr (True, ws'))))
   \<and> (checkIndividualConstraints wi ws s = Inr (b, ws')
      \<longrightarrow> wellRates ws' = wellRates ws \<and> wellReservoirRates ws' = wellReservoirRates ws)
   \<and> wellRates (calculateReservoirRates wi ws) = wellRates ws
   \<and> (\<forall>w. w \<noteq> index_of_well wi
        \<longrightarrow> wellReservoirRates (calculateReservoirRates wi ws) w = wellReservoirRates ws w)"
proof (intro conjI impI)
  assume a: "checkConstraints wi ws gs sch s = Inr (b, ws')"
  then obtain b1 ws1 where i: "checkIndividualConstraints wi ws s = Inr (b1, ws1)"
    by (auto simp: checkConstraints_def split: sum.splits)
  note f1 = checkIndividualConstraints_frame[OF i] checkIndividualConstraints_rates[OF i]
  show "wellReservoirRates ws' = wellReservoirRates ws"
    using a i f1 by (cases b1) (auto simp: checkConstraints_def dest: checkGroupConstraints_frame)
  show "\<forall>w. w \<noteq> index_of_well wi \<longrightarrow> wellRates ws' w = wellRates ws w"
    using a i f1 by (cases b1) (auto simp: checkConstraints_def dest: checkGroupConstraints_frame)
  show "wellRates ws' = wellRates ws
             \<or> (checkIndividualConstraints wi ws s = Inr (False, ws)
                \<and> checkGroupConstraints wi ws gs sch s = Inr (True, ws'))"
  proof (cases b1)
    case True
    with a i f1 show ?thesis by (simp add: checkConstraints_def)
  next
    case False
    with i f1 have i': "checkIndividualConstraints wi ws s = Inr (False, ws)" by simp
    with a have g: "checkGroupConstraints wi ws gs sch s = Inr (b, ws')"
      by (simp add: checkConstraints_def)
    show ?thesis using i' g checkGroupConstraints_frame[OF g] by (cases b) auto
  qed
next
  assume "checkIndividualConstraints wi ws s = Inr (b, ws')"
  from checkIndividualConstraints_rates[OF this]
  show "wellRates ws' = wellRates ws" "wellReservoirRates ws' = wellReservoirRates ws"
    by simp_all
next
  show "wellRates (calculateReservoirRates wi ws) = wellRates ws"
    by (simp add: calculateReservoirRates_def Let_def)
  show "\<forall>w. w \<noteq> index_of_well wi
        \<longrightarrow> wellReservoirRates (calculateReservoirRates wi ws) w = wellReservoirRates ws w"
    by (simp add: calculateReservoirRates_def Let_def)
qed


theorem decision_engine_rate_frame_witness:
  "wellReservoirRates
       (ex_ws_quiet\<lparr>currentInjectionControl := (\<lambda>_. Inj_RATE)(0 := Inj_GRUP),
                    wellRates := (\<lambda>_. [100, 0, 0])(0 := [70, 0, 0])\<rparr>)
     = wellReservoirRates ex_ws_quiet
   \<and> wellRates
       (ex_ws_quiet\<lparr>currentInjectionControl := (\<lambda>_. Inj_RATE)(0 := Inj_GRUP),
                    wellRates := (\<lambda>_. [100, 0, 0])(0 := [70, 0, 0])\<rparr>) 1
     = wellRates ex_ws_quiet 1
   \<and> checkGroupConstraints ex_wi ex_ws_quiet () () ()
     = Inr (True, ex_ws_quiet\<lparr>currentInjectionControl := (\<lambda>_. Inj_RATE)(0 := Inj_GRUP),
                               wellRates := (\<lambda>_. [100, 0, 0])(0 := [70, 0, 0])\<rparr>)
   \<and> wellRates (calculateReservoirRates ex_wi ex_ws) = wellRates ex_ws
   \<and> wellReservoirRates (calculateReservoirRates ex_wi ex_ws) 1 = wellReservoirRates ex_ws 1"
proof -
  let ?ws' = "ex_ws_quiet\<lparr>currentInjectionControl := (\<lambda>_. Inj_RATE)(0 := Inj_GRUP),
                          wellRates := (\<lambda>_. [100, 0, 0])(0 := [70, 0, 0])\<rparr>"
  have c: "checkConstraints ex_wi ex_ws_quiet () () () = Inr (True, ?ws')"
    by (simp add: checkConstraints_def ex_individual_quiet ex_group_quiet)
  have i0: "index_of_well ex_wi = 0" by (simp add: ex_defs)
  have ne: "wellRates ?ws' \<noteq> wellRates ex_ws_quiet"
  proof
    assume "wellRates ?ws' = wellRates ex_ws_quiet"
    then have "wellRates ?ws' 0 = wellRates ex_ws_quiet 0" by (rule arg_cong)
    then show False by (simp add: ex_ws_quiet_def ex_defs)
  qed
  note frame = decision_engine_rate_frame [of ex_wi ex_ws_quiet "()" "()" "()" True ?ws']
  from frame c have 1: "wellReservoirRates ?ws' = wellReservoirRates ex_ws_quiet" by blast
  from frame c i0 have 2: "wellRates ?ws' 1 = wellRates ex_ws_quiet 1" by simp
  from frame c ne have 3: "checkGroupConstraints ex_wi ex_ws_quiet () () () = Inr (True, ?ws')"
    by blast
  note frame' = decision_engine_rate_frame [of ex_wi ex_ws "()" "()" "()"]
  from frame' have 4: "wellRates (calculateReservoirRates ex_wi ex_ws) = wellRates ex_ws"
    by blast
  from frame' i0
  have 5: "wellReservoirRates (calculateReservoirRates ex_wi ex_ws) 1 = wellReservoirRates ex_ws 1"
    by simp
  from 1 2 3 4 5 show ?thesis by blast
qed

section \<open>The ratio evaluators\<close>

text \<open>
  Claim C8. The gas-oil ratio behind \<^verbatim>\<open>checkMaxGORLimit\<close>: with an oil rate of zero and a
  gas rate other than zero it is the sentinel \<open>10 ^ 100\<close>, which is above \<open>10 ^ 50\<close>; with
  both rates zero it is zero; otherwise it is the gas rate over the oil rate. The two
  rates have the same direction: the evaluator asserts it.
\<close>

theorem gor_edge_rule:
  "(rates ! phase_pos pu Oil = 0 \<and> rates ! phase_pos pu Gas \<noteq> 0
      \<longrightarrow> gor rates pu = Inr (10 ^ 100) \<and> (10 ^ 50 :: real) < 10 ^ 100)
   \<and> (rates ! phase_pos pu Oil = 0 \<and> rates ! phase_pos pu Gas = 0
      \<longrightarrow> gor rates pu = Inr 0)
   \<and> (rates ! phase_pos pu Oil \<noteq> 0
        \<and> 0 \<le> rates ! phase_pos pu Oil * rates ! phase_pos pu Gas
      \<longrightarrow> gor rates pu = Inr (rates ! phase_pos pu Gas / rates ! phase_pos pu Oil))"
  by (simp add: gor_def Let_def)

theorem gor_edge_rule_witness:
  "gor [0, 0, 5] ex_pu = Inr (10 ^ 100) \<and> (10 ^ 50 :: real) < 10 ^ 100
   \<and> gor [0, 0, 0] ex_pu = Inr 0
   \<and> gor [0, 2, 6] ex_pu = Inr 3"
proof -
  have a: "[0, 0, 5] ! phase_pos ex_pu Oil = (0::real) \<and> [0, 0, 5] ! phase_pos ex_pu Gas \<noteq> (0::real)"
    by (simp add: ex_pu_def)
  have b: "[0, 0, 0] ! phase_pos ex_pu Oil = (0::real) \<and> [0, 0, 0] ! phase_pos ex_pu Gas = (0::real)"
    by (simp add: ex_pu_def)
  have c: "[0, 2, 6] ! phase_pos ex_pu Oil \<noteq> (0::real)
           \<and> (0::real) \<le> [0, 2, 6] ! phase_pos ex_pu Oil * [0, 2, 6] ! phase_pos ex_pu Gas"
    by (simp add: ex_pu_def)
  have d: "[0, 2, 6] ! phase_pos ex_pu Gas / [0, 2, 6] ! phase_pos ex_pu Oil = (3::real)"
    by (simp add: ex_pu_def)
  from gor_edge_rule [of "[0, 0, 5]" ex_pu] a
  have 1: "gor [0, 0, 5] ex_pu = Inr (10 ^ 100) \<and> (10 ^ 50 :: real) < 10 ^ 100" by blast
  from gor_edge_rule [of "[0, 0, 0]" ex_pu] b
  have 2: "gor [0, 0, 0] ex_pu = Inr 0" by blast
  from gor_edge_rule [of "[0, 2, 6]" ex_pu] c
  have "gor [0, 2, 6] ex_pu = Inr ([0, 2, 6] ! phase_pos ex_pu Gas / [0, 2, 6] ! phase_pos ex_pu Oil)"
    by blast
  with d have 3: "gor [0, 2, 6] ex_pu = Inr 3" by simp
  from 1 2 3 show ?thesis by blast
qed

section \<open>The economic limit evaluator: early returns and rate limits\<close>

text \<open>
  Claim C7. \<^verbatim>\<open>updateWellTestStateEconomic\<close> returns at once, with the ledger and the logger
  as they were, when the well is stopped or no economic limit is effective; a second call
  in succession on such a well is a no-op again.
\<close>

theorem updateWellTestStateEconomic_noop:
  "wellIsStopped wi \<or> \<not> onAnyEffectiveLimit (getEconLimits (well_ecl wi)) \<longrightarrow>
     updateWellTestStateEconomic wi ws t w wts lg = Inr (wts, lg)
     \<and> (case updateWellTestStateEconomic wi ws t w wts lg of
          Inl e \<Rightarrow> False
        | Inr (wts1, lg1) \<Rightarrow>
            updateWellTestStateEconomic wi ws t' w' wts1 lg1 = Inr (wts, lg))"
  by (auto simp: updateWellTestStateEconomic_def Let_def)

lemma checkRateEconLimits_violated:
  assumes act: "rate_limit_phases_active wi"
      and el: "el = getEconLimits (well_ecl wi)"
      and v: "(onMinOilRate el \<and> \<bar>q (phase_pos (phaseUsage wi) Oil)\<bar> < minOilRate el)
         \<or> (onMinGasRate el \<and> \<bar>q (phase_pos (phaseUsage wi) Gas)\<bar> < minGasRate el)
         \<or> (onMinLiquidRate el
            \<and> \<bar>q (phase_pos (phaseUsage wi) Oil) + q (phase_pos (phaseUsage wi) Water)\<bar>
                < minLiquidRate el)"
  shows "checkRateEconLimits wi el q lg = Inr (True, lg)"
proof -
  have a1: "onMinOilRate el \<Longrightarrow> phaseIsActive wi Oil"
    and a2: "onMinGasRate el \<Longrightarrow> phaseIsActive wi Gas"
    and a3: "onMinLiquidRate el \<Longrightarrow> phaseIsActive wi Oil \<and> phaseIsActive wi Water"
    using act el by (auto simp: rate_limit_phases_active_def Let_def split: if_splits)
  show ?thesis
  proof (cases "onMinOilRate el \<and> \<bar>q (phase_pos (phaseUsage wi) Oil)\<bar> < minOilRate el")
    case True
    then show ?thesis using a1 by (simp add: checkRateEconLimits_def Let_def)
  next
    case oil: False
    show ?thesis
    proof (cases "onMinGasRate el \<and> \<bar>q (phase_pos (phaseUsage wi) Gas)\<bar> < minGasRate el")
      case True
      then show ?thesis using oil a1 a2 by (auto simp: checkRateEconLimits_def Let_def)
    next
      case gas: False
      with oil v have "onMinLiquidRate el
            \<and> \<bar>q (phase_pos (phaseUsage wi) Oil) + q (phase_pos (phaseUsage wi) Water)\<bar>
                < minLiquidRate el" by blast
      then show ?thesis using oil gas a1 a2 a3 by (auto simp: checkRateEconLimits_def Let_def)
    qed
  qed
qed

lemma rate_limit_violated_True:
  assumes "onAnyRateLimit (getEconLimits (well_ecl wi))"
      and "rate_limit_phases_active wi"
      and "min_rate_violated wi ws"
  shows "rate_limit_violated wi (getEconLimits (well_ecl wi)) ws lg = Inr (True, lg)"
proof (cases "quantityLimit (getEconLimits (well_ecl wi)) = QuantityLimit_POTN")
  case True
  with assms show ?thesis
    by (simp add: rate_limit_violated_def Let_def)
       (rule checkRateEconLimits_violated,
         simp_all add: min_rate_violated_def econ_quantity_def Let_def)
next
  case False
  with assms show ?thesis
    by (simp add: rate_limit_violated_def Let_def)
       (rule checkRateEconLimits_violated,
         simp_all add: min_rate_violated_def econ_quantity_def Let_def)
qed

lemma hasWellClosed_closeWell: "hasWellClosed (closeWell n r t wts) n r"
  by (simp add: hasWellClosed_def closeWell_def)

lemma fst_close_for_rate_limit:
  "fst (close_for_rate_limit wi el t w wts lg) = closeWell (name wi) ECONOMIC t wts"
  by (simp add: close_for_rate_limit_def Let_def)

lemma rate_path_result:
  assumes "\<not> wellIsStopped wi" "onAnyEffectiveLimit (getEconLimits (well_ecl wi))"
     "onAnyRateLimit (getEconLimits (well_ecl wi))"
     "rate_limit_phases_active wi" "min_rate_violated wi ws"
  shows "updateWellTestStateEconomic wi ws t w wts lg
         = Inr (close_for_rate_limit wi (getEconLimits (well_ecl wi)) t w wts lg)"
proof -
  from assms have r: "rate_limit_violated wi (getEconLimits (well_ecl wi)) ws lg = Inr (True, lg)"
    by (simp add: rate_limit_violated_True)
  from assms r show ?thesis
    by (simp add: updateWellTestStateEconomic_def Let_def)
qed

lemma rate_path_ignores_ratio_limits:
  assumes "\<not> wellIsStopped wi" "onAnyEffectiveLimit (getEconLimits (well_ecl wi))"
     "onAnyRateLimit (getEconLimits (well_ecl wi))"
     "rate_limit_phases_active wi" "min_rate_violated wi ws"
  shows "updateWellTestStateEconomic
           (wi\<lparr>well_ecl := (well_ecl wi)\<lparr>getEconLimits := (getEconLimits (well_ecl wi))
                  \<lparr>onAnyRatioLimit := a1, onMaxWaterCut := a2, maxWaterCut := x2,
                   onMaxGasOilRatio := a3, maxGasOilRatio := x3,
                   onMaxWaterGasRatio := a4, maxWaterGasRatio := x4,
                   onMaxGasLiquidRatio := a5, workover := wo\<rparr>\<rparr>,
                completions := cs\<rparr>)
           (ws\<lparr>perfPhaseRates := pr\<rparr>) t w wts lg
         = updateWellTestStateEconomic wi ws t w wts lg"
proof -
  let ?wi = "wi\<lparr>well_ecl := (well_ecl wi)\<lparr>getEconLimits := (getEconLimits (well_ecl wi))
                  \<lparr>onAnyRatioLimit := a1, onMaxWaterCut := a2, maxWaterCut := x2,
                   onMaxGasOilRatio := a3, maxGasOilRatio := x3,
                   onMaxWaterGasRatio := a4, maxWaterGasRatio := x4,
                   onMaxGasLiquidRatio := a5, workover := wo\<rparr>\<rparr>,
                completions := cs\<rparr>"
  let ?ws = "ws\<lparr>perfPhaseRates := pr\<rparr>"
  have 1: "\<not> wellIsStopped ?wi" "onAnyEffectiveLimit (getEconLimits (well_ecl ?wi))"
     "onAnyRateLimit (getEconLimits (well_ecl ?wi))"
    using assms by simp_all
  have 2: "rate_limit_phases_active ?wi"
    using assms(4) by (simp add: rate_limit_phases_active_def Let_def)
  have q: "\<And>ph. econ_quantity ?wi ?ws ph = econ_quantity wi ws ph"
    by (simp add: econ_quantity_def)
  have "min_rate_violated ?wi ?ws = min_rate_violated wi ws"
    by (simp add: min_rate_violated_def q Let_def)
  with assms(5) have 3: "min_rate_violated ?wi ?ws" by simp
  have c: "close_for_rate_limit ?wi (getEconLimits (well_ecl ?wi)) t w wts lg
           = close_for_rate_limit wi (getEconLimits (well_ecl wi)) t w wts lg"
    by (simp add: close_for_rate_limit_def name_def)
  show ?thesis
    by (simp only: rate_path_result[OF 1 2 3] rate_path_result[OF assms] c)
qed

text \<open>
  Claim C4. For a well that is not stopped and has a rate limit in effect: when one of the
  configured minimum oil, gas or liquid rates is violated, on the rates or on the
  potentials by the quantity-limit mode, \<^verbatim>\<open>updateWellTestStateEconomic\<close> closes the well in
  the ledger with reason ECONOMIC and returns the result of the rate-limit block alone. No
  ratio limit is consulted and no completion is closed: the result is the same whatever
  the ratio limits, the workover policy, the completions and the perforation rates are.
\<close>

theorem rate_limit_short_circuit:
  "\<not> wellIsStopped wi \<and> onAnyEffectiveLimit (getEconLimits (well_ecl wi))
     \<and> onAnyRateLimit (getEconLimits (well_ecl wi))
     \<and> rate_limit_phases_active wi \<and> min_rate_violated wi ws
   \<longrightarrow> updateWellTestStateEconomic wi ws t w wts lg
         = Inr (close_for_rate_limit wi (getEconLimits (well_ecl wi)) t w wts lg)
       \<and> fst (close_for_rate_limit wi (getEconLimits (well_ecl wi)) t w wts lg)
         = closeWell (name wi) ECONOMIC t wts
       \<and> hasWellClosed (closeWell (name wi) ECONOMIC t wts) (name wi) ECONOMIC
       \<and> wt_completions (closeWell (name wi) ECONOMIC t wts) = wt_completions wts
       \<and> updateWellTestStateEconomic
            (wi\<lparr>well_ecl := (well_ecl wi)\<lparr>getEconLimits := (getEconLimits (well_ecl wi))
                   \<lparr>onAnyRatioLimit := a1, onMaxWaterCut := a2, maxWaterCut := x2,
                    onMaxGasOilRatio := a3, maxGasOilRatio := x3,
                    onMaxWaterGasRatio := a4, maxWaterGasRatio := x4,
                    onMaxGasLiquidRatio := a5, workover := wo\<rparr>\<rparr>,
                 completions := cs\<rparr>)
            (ws\<lparr>perfPhaseRates := pr\<rparr>) t w wts lg
         = updateWellTestStateEconomic wi ws t w wts lg"
proof (intro impI)
  assume a: "\<not> wellIsStopped wi \<and> onAnyEffectiveLimit (getEconLimits (well_ecl wi))
     \<and> onAnyRateLimit (getEconLimits (well_ecl wi))
     \<and> rate_limit_phases_active wi \<and> min_rate_violated wi ws"
  then have u: "updateWellTestStateEconomic wi ws t w wts lg
         = Inr (close_for_rate_limit wi (getEconLimits (well_ecl wi)) t w wts lg)"
    by (simp add: rate_path_result)
  have c: "wt_completions (closeWell (name wi) ECONOMIC t wts) = wt_completions wts"
    by (simp add: closeWell_def)
  from a have n: "updateWellTestStateEconomic
            (wi\<lparr>well_ecl := (well_ecl wi)\<lparr>getEconLimits := (getEconLimits (well_ecl wi))
                   \<lparr>onAnyRatioLimit := a1, onMaxWaterCut := a2, maxWaterCut := x2,
                    onMaxGasOilRatio := a3, maxGasOilRatio := x3,
                    onMaxWaterGasRatio := a4, maxWaterGasRatio := x4,
                    onMaxGasLiquidRatio := a5, workover := wo\<rparr>\<rparr>,
                 completions := cs\<rparr>)
            (ws\<lparr>perfPhaseRates := pr\<rparr>) t w wts lg
         = updateWellTestStateEconomic wi ws t w wts lg"
    by (intro rate_path_ignores_ratio_limits) simp_all
  from u c n fst_close_for_rate_limit[of wi "getEconLimits (well_ecl wi)" t w wts lg]
    hasWellClosed_closeWell[of "name wi" ECONOMIC t wts]
  show "updateWellTestStateEconomic wi ws t w wts lg
         = Inr (close_for_rate_limit wi (getEconLimits (well_ecl wi)) t w wts lg)
       \<and> fst (close_for_rate_limit wi (getEconLimits (well_ecl wi)) t w wts lg)
         = closeWell (name wi) ECONOMIC t wts
       \<and> hasWellClosed (closeWell (name wi) ECONOMIC t wts) (name wi) ECONOMIC
       \<and> wt_completions (closeWell (name wi) ECONOMIC t wts) = wt_completions wts
       \<and> updateWellTestStateEconomic
            (wi\<lparr>well_ecl := (well_ecl wi)\<lparr>getEconLimits := (getEconLimits (well_ecl wi))
                   \<lparr>onAnyRatioLimit := a1, onMaxWaterCut := a2, maxWaterCut := x2,
                    onMaxGasOilRatio := a3, maxGasOilRatio := x3,
                    onMaxWaterGasRatio := a4, maxWaterGasRatio := x4,
                    onMaxGasLiquidRatio := a5, workover := wo\<rparr>\<rparr>,
                 completions := cs\<rparr>)
            (ws\<lparr>perfPhaseRates := pr\<rparr>) t w wts lg
         = updateWellTestStateEconomic wi ws t w wts lg"
    by (intro conjI)
qed

section \<open>The workover CON\<close>

lemma allCompletionsClosed_foldl:
  "foldl (\<lambda>flag connection.
              if state connection = OPEN \<and> \<not> hasCompletion wts n (complnum connection)
              then False else flag) flag0 cs
   = (flag0 \<and> (\<forall>c \<in> set cs. state c = OPEN \<longrightarrow> hasCompletion wts n (complnum c)))"
  by (induction cs arbitrary: flag0) auto

lemma allCompletionsClosed_iff:
  "allCompletionsClosed wi wts
   = (\<forall>c \<in> set (getConnections (well_ecl wi)).
        state c = OPEN \<longrightarrow> hasCompletion wts (name wi) (complnum c))"
  by (simp add: allCompletionsClosed_def allCompletionsClosed_foldl)

lemma hasCompletion_closeWell:
  "hasCompletion (closeWell n r t wts) n' k = hasCompletion wts n' k"
  by (simp add: hasCompletion_def closeWell_def)

lemma hasCompletion_addClosedCompletion:
  "hasCompletion (addClosedCompletion n k t wts) n k"
  by (simp add: hasCompletion_def addClosedCompletion_def)

lemma workover_CON_closes:
  "hasCompletion (fst (workover_CON wi report t w wts lg)) (name wi)
     (worst_offending_completion report)
   \<and> ((\<forall>c \<in> set (getConnections (well_ecl wi)).
         state c = OPEN
           \<longrightarrow> hasCompletion (fst (workover_CON wi report t w wts lg)) (name wi) (complnum c))
      \<longrightarrow> hasWellClosed (fst (workover_CON wi report t w wts lg)) (name wi) ECONOMIC)"
  by (auto simp: workover_CON_def Let_def allCompletionsClosed_iff hasCompletion_closeWell
        hasCompletion_addClosedCompletion hasWellClosed_closeWell)

text \<open>
  Claim C3. When \<^verbatim>\<open>updateWellTestStateEconomic\<close> reaches the workover \<open>CON\<close> with a violated
  ratio report, the ledger after the call holds the worst-offending completion as closed,
  and if every open connection of the well then belongs to a completion the ledger holds
  as closed, the well is closed with reason ECONOMIC; so it is when the completions of all
  connections are closed.
\<close>

theorem workover_CON_escalation:
  "\<not> wellIsStopped wi \<and> onAnyEffectiveLimit (getEconLimits (well_ecl wi))
     \<and> rate_limit_violated wi (getEconLimits (well_ecl wi)) ws lg = Inr (False, lg1)
     \<and> onAnyRatioLimit (getEconLimits (well_ecl wi))
     \<and> checkRatioEconLimits wi (getEconLimits (well_ecl wi)) ws new_RatioLimitCheckReport lg1
         = Inr (report, lg2)
     \<and> ratio_limit_violated report
     \<and> workover (getEconLimits (well_ecl wi)) = CON
   \<longrightarrow> updateWellTestStateEconomic wi ws t w wts lg
         = Inr (workover_CON wi report t w wts lg2)
       \<and> fst (workover_CON wi report t w wts lg2)
         = (if allCompletionsClosed wi
                 (addClosedCompletion (name wi) (worst_offending_completion report) t wts)
            then closeWell (name wi) ECONOMIC t
                   (addClosedCompletion (name wi) (worst_offending_completion report) t wts)
            else addClosedCompletion (name wi) (worst_offending_completion report) t wts)
       \<and> hasCompletion (fst (workover_CON wi report t w wts lg2)) (name wi)
            (worst_offending_completion report)
       \<and> ((\<forall>c \<in> set (getConnections (well_ecl wi)).
              state c = OPEN
                \<longrightarrow> hasCompletion (fst (workover_CON wi report t w wts lg2)) (name wi)
                      (complnum c))
           \<longrightarrow> hasWellClosed (fst (workover_CON wi report t w wts lg2)) (name wi) ECONOMIC)
       \<and> ((\<forall>c \<in> set (getConnections (well_ecl wi)).
              hasCompletion (fst (workover_CON wi report t w wts lg2)) (name wi) (complnum c))
           \<longrightarrow> hasWellClosed (fst (workover_CON wi report t w wts lg2)) (name wi) ECONOMIC)"
proof (intro impI)
  assume a: "\<not> wellIsStopped wi \<and> onAnyEffectiveLimit (getEconLimits (well_ecl wi))
     \<and> rate_limit_violated wi (getEconLimits (well_ecl wi)) ws lg = Inr (False, lg1)
     \<and> onAnyRatioLimit (getEconLimits (well_ecl wi))
     \<and> checkRatioEconLimits wi (getEconLimits (well_ecl wi)) ws new_RatioLimitCheckReport lg1
         = Inr (report, lg2)
     \<and> ratio_limit_violated report
     \<and> workover (getEconLimits (well_ecl wi)) = CON"
  let ?R = "workover_CON wi report t w wts lg2"
  from a have u: "updateWellTestStateEconomic wi ws t w wts lg = Inr ?R"
    by (simp add: updateWellTestStateEconomic_def Let_def)
  have f: "fst ?R
         = (if allCompletionsClosed wi
                 (addClosedCompletion (name wi) (worst_offending_completion report) t wts)
            then closeWell (name wi) ECONOMIC t
                   (addClosedCompletion (name wi) (worst_offending_completion report) t wts)
            else addClosedCompletion (name wi) (worst_offending_completion report) t wts)"
    by (simp add: workover_CON_def Let_def)
  note c = workover_CON_closes [of wi report t w wts lg2]
  from c have c1: "hasCompletion (fst ?R) (name wi) (worst_offending_completion report)"
    by blast
  from c have c2: "(\<forall>c \<in> set (getConnections (well_ecl wi)).
              state c = OPEN \<longrightarrow> hasCompletion (fst ?R) (name wi) (complnum c))
           \<longrightarrow> hasWellClosed (fst ?R) (name wi) ECONOMIC"
    by blast
  then have c3: "(\<forall>c \<in> set (getConnections (well_ecl wi)).
              hasCompletion (fst ?R) (name wi) (complnum c))
           \<longrightarrow> hasWellClosed (fst ?R) (name wi) ECONOMIC"
    by blast
  from u f c1 c2 c3
  show "updateWellTestStateEconomic wi ws t w wts lg = Inr ?R
       \<and> fst ?R
         = (if allCompletionsClosed wi
                 (addClosedCompletion (name wi) (worst_offending_completion report) t wts)
            then closeWell (name wi) ECONOMIC t
                   (addClosedCompletion (name wi) (worst_offending_completion report) t wts)
            else addClosedCompletion (name wi) (worst_offending_completion report) t wts)
       \<and> hasCompletion (fst ?R) (name wi) (worst_offending_completion report)
       \<and> ((\<forall>c \<in> set (getConnections (well_ecl wi)).
              state c = OPEN \<longrightarrow> hasCompletion (fst ?R) (name wi) (complnum c))
           \<longrightarrow> hasWellClosed (fst ?R) (name wi) ECONOMIC)
       \<and> ((\<forall>c \<in> set (getConnections (well_ecl wi)).
              hasCompletion (fst ?R) (name wi) (complnum c))
           \<longrightarrow> hasWellClosed (fst ?R) (name wi) ECONOMIC)"
    by (intro conjI)
qed

section \<open>Evaluating the example producer\<close>

lemma for_phases_3:
  "length v = 3 \<Longrightarrow> for_phases 3 g v = [g 0 (v ! 0), g 1 (v ! 1), g 2 (v ! 2)]"
  by (simp add: for_phases_full numeral_3_eq_3 numeral_2_eq_2)

lemmas ex_econ_defs = ex_econ_wi_def ex_econ_well_def ex_econ_ws_def ex_ratio_limits_def
  ex_defs

lemma ex_completion_ratios:
  "completion_ratio ex_econ_wi ex_econ_ws waterCut [0] = Inr (3 / 10)"
  "completion_ratio ex_econ_wi ex_econ_ws waterCut [1] = Inr (9 / 10)"
  "completion_ratio ex_econ_wi ex_econ_ws waterCut [2] = Inr (6 / 10)"
  by (simp_all add: completion_ratio_def completion_rates_def perf_phase_rates_def
        waterCut_def for_phases_3 ex_econ_defs)

lemma ex_well_ratio:
  "checkMaxRatioLimitWell ex_econ_wi ex_econ_ws (1 / 2) waterCut = Inr True"
  by (simp add: checkMaxRatioLimitWell_def waterCut_def for_phases_3 ex_econ_defs)

lemma ex_completions:
  "completions ex_econ_wi = [(1, [0]), (2, [1]), (3, [2])]"
  by (simp add: ex_econ_defs)

lemma ex_checkMaxRatioLimitCompletions:
  "checkMaxRatioLimitCompletions ex_econ_wi ex_econ_ws (1 / 2) waterCut
     (new_RatioLimitCheckReport\<lparr>ratio_limit_violated := True\<rparr>)
   = Inr \<lparr>ratio_limit_violated = True, worst_offending_completion = 2,
          violation_extent = 9 / 5\<rparr>"
  by (simp add: checkMaxRatioLimitCompletions_def ex_completions ex_completion_ratios
        INVALIDCOMPLETION_def new_RatioLimitCheckReport_def del: One_nat_def)

lemma ex_checkRatioEconLimits:
  "checkRatioEconLimits ex_econ_wi ex_ratio_limits ex_econ_ws new_RatioLimitCheckReport lg
   = Inr (\<lparr>ratio_limit_violated = True, worst_offending_completion = 2,
           violation_extent = 9 / 5\<rparr>, lg)"
proof -
  have w: "checkMaxWaterCutLimit ex_econ_wi ex_ratio_limits ex_econ_ws new_RatioLimitCheckReport
     = Inr \<lparr>ratio_limit_violated = True, worst_offending_completion = 2,
            violation_extent = 9 / 5\<rparr>"
    using ex_well_ratio ex_checkMaxRatioLimitCompletions
    by (simp add: checkMaxWaterCutLimit_def ex_ratio_limits_def ex_limits_def)
       (simp add: ex_econ_wi_def ex_wi_def)
  show ?thesis
    by (simp add: checkRatioEconLimits_def w INVALIDCOMPLETION_def)
       (simp add: ex_ratio_limits_def ex_limits_def)
qed


lemma ex_econ_limits:
  "getEconLimits (well_ecl ex_econ_wi) = ex_ratio_limits"
  "\<not> wellIsStopped ex_econ_wi" "name ex_econ_wi = ''P1''"
  "getConnections (well_ecl ex_econ_wi)
     = [\<lparr>state = OPEN, complnum = 1\<rparr>, \<lparr>state = OPEN, complnum = 2\<rparr>,
        \<lparr>state = OPEN, complnum = 3\<rparr>]"
  by (simp_all add: name_def ex_econ_defs)

lemma ex_ratio_limits_fields:
  "onAnyEffectiveLimit ex_ratio_limits" "\<not> onAnyRateLimit ex_ratio_limits"
  "onAnyRatioLimit ex_ratio_limits" "workover ex_ratio_limits = CON"
  by (simp_all add: ex_ratio_limits_def ex_limits_def)

lemma ex_update_CON:
  "updateWellTestStateEconomic ex_econ_wi ex_econ_ws 5 False ex_ledger []
   = Inr (closeWell ''P1'' ECONOMIC 5 (addClosedCompletion ''P1'' 2 5 ex_ledger), [])"
  by (simp add: updateWellTestStateEconomic_def rate_limit_violated_def ex_econ_limits
        ex_ratio_limits_fields ex_checkRatioEconLimits workover_CON_def
        allCompletionsClosed_def hasCompletion_def addClosedCompletion_def ex_ledger_def)

theorem workover_CON_escalation_witness:
  "updateWellTestStateEconomic ex_econ_wi ex_econ_ws 5 False ex_ledger []
     = Inr (closeWell ''P1'' ECONOMIC 5 (addClosedCompletion ''P1'' 2 5 ex_ledger), [])
   \<and> hasCompletion (closeWell ''P1'' ECONOMIC 5 (addClosedCompletion ''P1'' 2 5 ex_ledger))
        ''P1'' 2
   \<and> hasWellClosed (closeWell ''P1'' ECONOMIC 5 (addClosedCompletion ''P1'' 2 5 ex_ledger))
        ''P1'' ECONOMIC
   \<and> \<not> hasWellClosed ex_ledger ''P1'' ECONOMIC"
proof -
  let ?X = "closeWell ''P1'' ECONOMIC 5 (addClosedCompletion ''P1'' 2 5 ex_ledger)"
  let ?report = "\<lparr>ratio_limit_violated = True, worst_offending_completion = 2,
                   violation_extent = 9 / 5\<rparr>"
  let ?R = "workover_CON ex_econ_wi ?report 5 False ex_ledger []"
  have h: "\<not> wellIsStopped ex_econ_wi \<and> onAnyEffectiveLimit (getEconLimits (well_ecl ex_econ_wi))
     \<and> rate_limit_violated ex_econ_wi (getEconLimits (well_ecl ex_econ_wi)) ex_econ_ws []
         = Inr (False, [])
     \<and> onAnyRatioLimit (getEconLimits (well_ecl ex_econ_wi))
     \<and> checkRatioEconLimits ex_econ_wi (getEconLimits (well_ecl ex_econ_wi)) ex_econ_ws
         new_RatioLimitCheckReport [] = Inr (?report, [])
     \<and> ratio_limit_violated ?report
     \<and> workover (getEconLimits (well_ecl ex_econ_wi)) = CON"
    by (simp add: ex_econ_limits ex_ratio_limits_fields rate_limit_violated_def
          ex_checkRatioEconLimits)
  note esc = workover_CON_escalation
         [of ex_econ_wi ex_econ_ws "[]" "[]" ?report "[]" 5 False ex_ledger]
  from esc h
  have u: "updateWellTestStateEconomic ex_econ_wi ex_econ_ws 5 False ex_ledger [] = Inr ?R"
    by blast
  then have x: "?R = (?X, [])" by (simp add: ex_update_CON)
  have all: "\<forall>c \<in> set (getConnections (well_ecl ex_econ_wi)).
               hasCompletion (fst ?R) (name ex_econ_wi) (complnum c)"
    by (simp only: x fst_conv)
       (simp add: ex_econ_limits hasCompletion_def closeWell_def addClosedCompletion_def
          ex_ledger_def)
  from esc h have "hasCompletion (fst ?R) (name ex_econ_wi) (worst_offending_completion ?report)"
    by blast
  then have 1: "hasCompletion ?X ''P1'' 2" by (simp add: x ex_econ_limits)
  from esc h all have "hasWellClosed (fst ?R) (name ex_econ_wi) ECONOMIC" by blast
  then have 2: "hasWellClosed ?X ''P1'' ECONOMIC" by (simp add: x ex_econ_limits)
  have 3: "\<not> hasWellClosed ex_ledger ''P1'' ECONOMIC"
    by (simp add: hasWellClosed_def ex_ledger_def)
  from u x 1 2 3 show ?thesis by simp
qed

lemma ex_rate_limits:
  "getEconLimits (well_ecl ex_rate_wi)
     = ex_ratio_limits\<lparr>onAnyRateLimit := True, onMinOilRate := True, minOilRate := 20\<rparr>"
  "\<not> wellIsStopped ex_rate_wi" "name ex_rate_wi = ''P1''"
  "getAutomaticShutIn (well_ecl ex_rate_wi)"
  by (simp_all add: name_def ex_rate_wi_def ex_econ_defs)

theorem rate_limit_short_circuit_witness:
  "updateWellTestStateEconomic ex_rate_wi ex_econ_ws 5 True ex_ledger []
     = Inr (closeWell ''P1'' ECONOMIC 5 ex_ledger,
            [Info ''well P1 will be shut due to rate economic limit''])
   \<and> hasWellClosed (closeWell ''P1'' ECONOMIC 5 ex_ledger) ''P1'' ECONOMIC
   \<and> wt_completions (closeWell ''P1'' ECONOMIC 5 ex_ledger) = wt_completions ex_ledger
   \<and> checkMaxRatioLimitWell ex_rate_wi ex_econ_ws (1 / 2) waterCut = Inr True"
proof -
  have h: "\<not> wellIsStopped ex_rate_wi \<and> onAnyEffectiveLimit (getEconLimits (well_ecl ex_rate_wi))
     \<and> onAnyRateLimit (getEconLimits (well_ecl ex_rate_wi))
     \<and> rate_limit_phases_active ex_rate_wi \<and> min_rate_violated ex_rate_wi ex_econ_ws"
    by (simp add: ex_rate_limits rate_limit_phases_active_def min_rate_violated_def
          econ_quantity_def ex_ratio_limits_def ex_limits_def)
       (simp add: ex_rate_wi_def ex_econ_defs)
  have cl: "close_for_rate_limit ex_rate_wi (getEconLimits (well_ecl ex_rate_wi)) 5 True
              ex_ledger []
            = (closeWell ''P1'' ECONOMIC 5 ex_ledger,
               [Info ''well P1 will be shut due to rate economic limit''])"
    by (simp add: close_for_rate_limit_def ex_rate_limits info_def ex_ratio_limits_def
          ex_limits_def)
  have wc: "checkMaxRatioLimitWell ex_rate_wi ex_econ_ws (1 / 2) waterCut = Inr True"
    by (simp add: checkMaxRatioLimitWell_def waterCut_def for_phases_3 ex_rate_wi_def
          ex_econ_defs)
  from rate_limit_short_circuit [of ex_rate_wi ex_econ_ws 5 True ex_ledger "[]"] h cl wc
  show ?thesis by (simp add: ex_rate_limits)
qed

theorem updateWellTestStateEconomic_noop_witness:
  "updateWellTestStateEconomic ex_wi ex_ws 5 True ex_ledger [] = Inr (ex_ledger, [])
   \<and> updateWellTestStateEconomic (ex_rate_wi\<lparr>wellIsStopped := True\<rparr>) ex_econ_ws 5 True
        (closeWell ''P1'' ECONOMIC 4 ex_ledger) []
     = Inr (closeWell ''P1'' ECONOMIC 4 ex_ledger, [])"
proof -
  have a: "wellIsStopped ex_wi \<or> \<not> onAnyEffectiveLimit (getEconLimits (well_ecl ex_wi))"
    by (simp add: ex_defs)
  have b: "wellIsStopped (ex_rate_wi\<lparr>wellIsStopped := True\<rparr>)
           \<or> \<not> onAnyEffectiveLimit (getEconLimits (well_ecl (ex_rate_wi\<lparr>wellIsStopped := True\<rparr>)))"
    by simp
  from updateWellTestStateEconomic_noop [of ex_wi ex_ws 5 True ex_ledger "[]"] a
  have 1: "updateWellTestStateEconomic ex_wi ex_ws 5 True ex_ledger [] = Inr (ex_ledger, [])"
    by blast
  from updateWellTestStateEconomic_noop
         [of "ex_rate_wi\<lparr>wellIsStopped := True\<rparr>" ex_econ_ws 5 True
             "closeWell ''P1'' ECONOMIC 4 ex_ledger" "[]"] b
  have 2: "updateWellTestStateEconomic (ex_rate_wi\<lparr>wellIsStopped := True\<rparr>) ex_econ_ws 5 True
        (closeWell ''P1'' ECONOMIC 4 ex_ledger) []
     = Inr (closeWell ''P1'' ECONOMIC 4 ex_ledger, [])"
    by blast
  from 1 2 show ?thesis by blast
qed

section \<open>The scan over the completions\<close>

lemma completion_rates_foldl:
  assumes "length acc = np" "p < np"
  shows "length (foldl (\<lambda>rates c. for_phases np (\<lambda>p x. x + f (c * np + p)) rates) acc conns) = np
       \<and> foldl (\<lambda>rates c. for_phases np (\<lambda>p x. x + f (c * np + p)) rates) acc conns ! p
         = acc ! p + (\<Sum>c\<leftarrow>conns. f (c * np + p))"
  using assms
proof (induction conns arbitrary: acc)
  case Nil
  then show ?case by simp
next
  case (Cons c conns)
  let ?acc = "for_phases np (\<lambda>p x. x + f (c * np + p)) acc"
  have l: "length ?acc = np" using Cons.prems by (simp add: for_phases_full)
  have v: "?acc ! p = acc ! p + f (c * np + p)" using Cons.prems by (simp add: for_phases_full)
  from Cons.IH[OF l Cons.prems(2)] v show ?case by simp
qed

lemma completion_rates_sum:
  "p < number_of_phases wi \<Longrightarrow>
   completion_rates wi ws conns ! p
     = (\<Sum>c\<leftarrow>conns. perf_phase_rates wi ws (c * number_of_phases wi + p))"
  using completion_rates_foldl[of "replicate (number_of_phases wi) 0" "number_of_phases wi" p
          "perf_phase_rates wi ws" conns]
  by (simp add: completion_rates_def Let_def)

lemma scan_completions_select:
  "map (\<lambda>c. ratio_of (snd c)) cs = map Inr rs \<Longrightarrow>
   scan_completions ratio_of cs acc = Inr (select_worst acc (zip (map fst cs) rs))"
proof (induction cs arbitrary: acc rs)
  case Nil
  then show ?case by (simp add: select_worst_def)
next
  case (Cons c cs)
  then obtain r rs' where rs: "rs = r # rs'" and r: "ratio_of (snd c) = Inr r"
    and rest: "map (\<lambda>c. ratio_of (snd c)) cs = map Inr rs'"
    by (cases rs) auto
  from Cons.IH[OF rest] r rs show ?case
    by (simp add: select_worst_def)
qed

lemma select_worst_Cons:
  "select_worst acc (z # zs) = select_worst (if snd z > snd acc then z else acc) zs"
  by (simp add: select_worst_def)

lemma select_worst_cases:
  "(select_worst acc zs = acc \<and> (\<forall>z \<in> set zs. snd z \<le> snd acc))
   \<or> (\<exists>pre z post. zs = pre @ z # post \<and> select_worst acc zs = z \<and> snd acc < snd z
         \<and> (\<forall>y \<in> set pre. snd y < snd z) \<and> (\<forall>y \<in> set post. snd y \<le> snd z))"
proof (induction zs arbitrary: acc)
  case Nil
  then show ?case by (simp add: select_worst_def)
next
  case (Cons z zs)
  show ?case
  proof (cases "snd z > snd acc")
    case True
    then have s: "select_worst acc (z # zs) = select_worst z zs"
      by (simp add: select_worst_Cons)
    from Cons.IH[of z] show ?thesis
    proof
      assume "select_worst z zs = z \<and> (\<forall>y \<in> set zs. snd y \<le> snd z)"
      with s True have "z # zs = [] @ z # zs \<and> select_worst acc (z # zs) = z \<and> snd acc < snd z
         \<and> (\<forall>y \<in> set []. snd y < snd z) \<and> (\<forall>y \<in> set zs. snd y \<le> snd z)" by simp
      then show ?thesis by blast
    next
      assume "\<exists>pre z' post. zs = pre @ z' # post \<and> select_worst z zs = z' \<and> snd z < snd z'
         \<and> (\<forall>y \<in> set pre. snd y < snd z') \<and> (\<forall>y \<in> set post. snd y \<le> snd z')"
      then obtain pre z' post where p: "zs = pre @ z' # post" "select_worst z zs = z'"
         "snd z < snd z'" "\<forall>y \<in> set pre. snd y < snd z'" "\<forall>y \<in> set post. snd y \<le> snd z'"
        by blast
      with s True have "z # zs = (z # pre) @ z' # post \<and> select_worst acc (z # zs) = z'
         \<and> snd acc < snd z' \<and> (\<forall>y \<in> set (z # pre). snd y < snd z')
         \<and> (\<forall>y \<in> set post. snd y \<le> snd z')" by auto
      then show ?thesis by blast
    qed
  next
    case False
    then have s: "select_worst acc (z # zs) = select_worst acc zs"
      by (simp add: select_worst_Cons)
    from Cons.IH[of acc] show ?thesis
    proof
      assume "select_worst acc zs = acc \<and> (\<forall>y \<in> set zs. snd y \<le> snd acc)"
      with s False show ?thesis by auto
    next
      assume "\<exists>pre z' post. zs = pre @ z' # post \<and> select_worst acc zs = z' \<and> snd acc < snd z'
         \<and> (\<forall>y \<in> set pre. snd y < snd z') \<and> (\<forall>y \<in> set post. snd y \<le> snd z')"
      then obtain pre z' post where p: "zs = pre @ z' # post" "select_worst acc zs = z'"
         "snd acc < snd z'" "\<forall>y \<in> set pre. snd y < snd z'" "\<forall>y \<in> set post. snd y \<le> snd z'"
        by blast
      with s False have "z # zs = (z # pre) @ z' # post \<and> select_worst acc (z # zs) = z'
         \<and> snd acc < snd z' \<and> (\<forall>y \<in> set (z # pre). snd y < snd z')
         \<and> (\<forall>y \<in> set post. snd y \<le> snd z')" by auto
      then show ?thesis by blast
    qed
  qed
qed

text \<open>The same in terms of positions: the winner is the first position of the maximum.\<close>

lemma select_worst_index:
  assumes len: "length ids = length rs"
  shows "(select_worst (w0, m0) (zip ids rs) = (w0, m0) \<and> (\<forall>r \<in> set rs. r \<le> m0))
   \<or> (\<exists>k < length rs. select_worst (w0, m0) (zip ids rs) = (ids ! k, rs ! k) \<and> m0 < rs ! k
         \<and> (\<forall>j < k. rs ! j < rs ! k) \<and> (\<forall>j < length rs. rs ! j \<le> rs ! k))"
proof -
  let ?zs = "zip ids rs"
  have lz: "length ?zs = length rs" using len by simp
  have nz: "\<And>j. j < length rs \<Longrightarrow> ?zs ! j = (ids ! j, rs ! j)" using len by simp
  have "map snd ?zs = rs" using len by simp
  then have "set (map snd ?zs) = set rs" by simp
  then have sz: "snd ` set ?zs = set rs" by (simp only: set_map)
  from select_worst_cases[of "(w0, m0)" ?zs] show ?thesis
  proof
    assume "select_worst (w0, m0) ?zs = (w0, m0) \<and> (\<forall>z \<in> set ?zs. snd z \<le> snd (w0, m0))"
    then have "select_worst (w0, m0) ?zs = (w0, m0)" and "\<forall>r \<in> snd ` set ?zs. r \<le> m0"
      by auto
    then show ?thesis using sz by simp
  next
    assume "\<exists>pre z post. ?zs = pre @ z # post \<and> select_worst (w0, m0) ?zs = z
         \<and> snd (w0, m0) < snd z
         \<and> (\<forall>y \<in> set pre. snd y < snd z) \<and> (\<forall>y \<in> set post. snd y \<le> snd z)"
    then obtain pre z post where p: "?zs = pre @ z # post" "select_worst (w0, m0) ?zs = z"
         "m0 < snd z" "\<forall>y \<in> set pre. snd y < snd z" "\<forall>y \<in> set post. snd y \<le> snd z"
      by auto
    let ?k = "length pre"
    have "length ?zs = length (pre @ z # post)" using p(1) by (rule arg_cong)
    then have k: "?k < length rs" using lz by simp
    have zk: "?zs ! ?k = z" using p(1) by simp
    with nz[OF k] have z: "z = (ids ! ?k, rs ! ?k)" by simp
    have before: "\<forall>j < ?k. rs ! j < rs ! ?k"
    proof (intro allI impI)
      fix j assume j: "j < ?k"
      then have "?zs ! j = pre ! j" using p(1) by (simp add: nth_append)
      moreover have "j < length rs" using j k by simp
      moreover have "pre ! j \<in> set pre" using j by (rule nth_mem)
      ultimately have "(ids ! j, rs ! j) \<in> set pre" using nz by simp
      with p(4) z show "rs ! j < rs ! ?k" by auto
    qed
    have all: "\<forall>j < length rs. rs ! j \<le> rs ! ?k"
    proof (intro allI impI)
      fix j assume j: "j < length rs"
      then have "j < length ?zs" using lz by simp
      then have "?zs ! j \<in> set ?zs" by (rule nth_mem)
      moreover have "set ?zs = set pre \<union> {z} \<union> set post"
        by (subst p(1)) auto
      ultimately have "?zs ! j \<in> set pre \<or> ?zs ! j = z \<or> ?zs ! j \<in> set post"
        by blast
      with p(4,5) have "snd (?zs ! j) \<le> snd z" by auto
      with nz[OF j] z show "rs ! j \<le> rs ! ?k" by simp
    qed
    from k p(2,3) z before all
    have "?k < length rs \<and> select_worst (w0, m0) ?zs = (ids ! ?k, rs ! ?k) \<and> m0 < rs ! ?k
         \<and> (\<forall>j < ?k. rs ! j < rs ! ?k) \<and> (\<forall>j < length rs. rs ! j \<le> rs ! ?k)" by simp
    then show ?thesis by blast
  qed
qed

section \<open>The worst-offending completion\<close>

lemma checkMaxRatioLimitCompletions_select:
  assumes ratios: "map (\<lambda>c. completion_ratio wi ws ratioFunc (snd c)) (completions wi)
                     = map Inr rs"
      and limit: "0 < L"
  shows "checkMaxRatioLimitCompletions wi ws L ratioFunc report =
     (let wm = select_worst (INVALIDCOMPLETION, 0) (zip (map fst (completions wi)) rs)
      in if \<not> (L < snd wm) \<or> fst wm = INVALIDCOMPLETION then Inl AssertionFailed
         else if violation_extent report < snd wm / L
         then Inr (report\<lparr>worst_offending_completion := fst wm,
                          violation_extent := snd wm / L\<rparr>)
         else Inr report)"
proof -
  have s: "scan_completions (completion_ratio wi ws ratioFunc) (completions wi)
             (INVALIDCOMPLETION, 0)
           = Inr (select_worst (INVALIDCOMPLETION, 0) (zip (map fst (completions wi)) rs))"
    using ratios by (rule scan_completions_select)
  have d: "\<And>m. L < m \<Longrightarrow> 1 < m / L" using limit by simp
  show ?thesis
    by (cases "select_worst (INVALIDCOMPLETION, 0) (zip (map fst (completions wi)) rs)")
       (auto simp: checkMaxRatioLimitCompletions_def s Let_def d)
qed

lemma select_worst_completions:
  assumes ratios: "map (\<lambda>c. ratio_of (snd c)) cs = map Inr rs"
  shows "(select_worst (w0, m0) (zip (map fst cs) rs) = (w0, m0) \<and> (\<forall>r \<in> set rs. r \<le> m0))
   \<or> (\<exists>k < length rs. select_worst (w0, m0) (zip (map fst cs) rs) = (fst (cs ! k), rs ! k)
         \<and> m0 < rs ! k \<and> (\<forall>j < k. rs ! j < rs ! k) \<and> (\<forall>j < length rs. rs ! j \<le> rs ! k))"
proof -
  from ratios have "length (map (\<lambda>c. ratio_of (snd c)) cs) = length (map Inr rs)" by simp
  then have len: "length (map fst cs) = length rs" by simp
  from select_worst_index[OF len, of w0 m0] len show ?thesis by auto
qed

lemma Max_nth:
  fixes rs :: "real list"
  assumes "k < length rs" "\<forall>j < length rs. rs ! j \<le> rs ! k"
  shows "Max (set rs) = rs ! k"
proof (rule Max_eqI)
  show "finite (set rs)" by simp
  show "rs ! k \<in> set rs" using assms(1) by simp
  fix y assume "y \<in> set rs"
  then obtain j where "j < length rs" "rs ! j = y" by (auto simp: in_set_conv_nth)
  with assms(2) show "y \<le> rs ! k" by auto
qed

lemma worst_selected:
  assumes ratios: "map (\<lambda>c. completion_ratio wi ws ratioFunc (snd c)) (completions wi)
                     = map Inr rs"
      and limit: "0 < L"
      and res: "checkMaxRatioLimitCompletions wi ws L ratioFunc report = Inr report'"
  shows "\<exists>k < length rs. rs ! k = Max (set rs) \<and> (\<forall>j < k. rs ! j < rs ! k)
           \<and> L < rs ! k \<and> 1 < rs ! k / L
           \<and> report' = (if violation_extent report < rs ! k / L
                        then report\<lparr>worst_offending_completion := fst (completions wi ! k),
                                    violation_extent := rs ! k / L\<rparr>
                        else report)
           \<and> violation_extent report' = max (violation_extent report) (rs ! k / L)
           \<and> 1 < violation_extent report'"
proof -
  let ?wm = "select_worst (INVALIDCOMPLETION, 0) (zip (map fst (completions wi)) rs)"
  note eq = checkMaxRatioLimitCompletions_select[OF ratios limit, of report]
  from res eq have ok: "L < snd ?wm"
    by (auto simp: Let_def split: if_splits)
  from res eq have r': "report' = (if violation_extent report < snd ?wm / L
         then report\<lparr>worst_offending_completion := fst ?wm, violation_extent := snd ?wm / L\<rparr>
         else report)"
    by (auto simp: Let_def split: if_splits)
  from select_worst_completions[OF ratios, of INVALIDCOMPLETION 0]
  show ?thesis
  proof
    assume "?wm = (INVALIDCOMPLETION, 0) \<and> (\<forall>r \<in> set rs. r \<le> 0)"
    with ok limit show ?thesis by simp
  next
    assume "\<exists>k < length rs. ?wm = (fst (completions wi ! k), rs ! k)
         \<and> 0 < rs ! k \<and> (\<forall>j < k. rs ! j < rs ! k) \<and> (\<forall>j < length rs. rs ! j \<le> rs ! k)"
    then obtain k where k: "k < length rs" "?wm = (fst (completions wi ! k), rs ! k)"
        "\<forall>j < k. rs ! j < rs ! k" "\<forall>j < length rs. rs ! j \<le> rs ! k" by blast
    have mx: "rs ! k = Max (set rs)" using Max_nth[OF k(1) k(4)] by simp
    have gt: "L < rs ! k" using ok k(2) by simp
    then have one: "1 < rs ! k / L" using limit by simp
    have rep: "report' = (if violation_extent report < rs ! k / L
                        then report\<lparr>worst_offending_completion := fst (completions wi ! k),
                                    violation_extent := rs ! k / L\<rparr>
                        else report)" using r' k(2) by simp
    then have ve: "violation_extent report' = max (violation_extent report) (rs ! k / L)"
      by (simp add: max_def)
    with one have "1 < violation_extent report'" by simp
    with k(1) mx k(3) gt one rep ve show ?thesis by blast
  qed
qed

lemma worst_selection_total:
  assumes ratios: "map (\<lambda>c. completion_ratio wi ws ratioFunc (snd c)) (completions wi)
                     = map Inr rs"
      and limit: "0 < L"
      and ne: "rs \<noteq> []" and gt: "L < Max (set rs)"
      and valid: "INVALIDCOMPLETION \<notin> fst ` set (completions wi)"
  shows "\<exists>report'. checkMaxRatioLimitCompletions wi ws L ratioFunc report = Inr report'"
proof -
  let ?wm = "select_worst (INVALIDCOMPLETION, 0) (zip (map fst (completions wi)) rs)"
  from ratios have "length (map (\<lambda>c. completion_ratio wi ws ratioFunc (snd c)) (completions wi))
                      = length (map Inr rs)" by simp
  then have len: "length (completions wi) = length rs" by simp
  from select_worst_completions[OF ratios, of INVALIDCOMPLETION 0]
  have "L < snd ?wm \<and> fst ?wm \<noteq> INVALIDCOMPLETION"
  proof
    assume "?wm = (INVALIDCOMPLETION, 0) \<and> (\<forall>r \<in> set rs. r \<le> 0)"
    then have "\<forall>r \<in> set rs. r \<le> 0" by simp
    moreover have "Max (set rs) \<in> set rs" using ne by simp
    ultimately have "Max (set rs) \<le> 0" by blast
    with gt limit show ?thesis by simp
  next
    assume "\<exists>k < length rs. ?wm = (fst (completions wi ! k), rs ! k)
         \<and> 0 < rs ! k \<and> (\<forall>j < k. rs ! j < rs ! k) \<and> (\<forall>j < length rs. rs ! j \<le> rs ! k)"
    then obtain k where k: "k < length rs" "?wm = (fst (completions wi ! k), rs ! k)"
        "\<forall>j < length rs. rs ! j \<le> rs ! k" by blast
    have mx: "rs ! k = Max (set rs)" using Max_nth[OF k(1) k(3)] by simp
    have "completions wi ! k \<in> set (completions wi)" using k(1) len by simp
    then have "fst (completions wi ! k) \<in> fst ` set (completions wi)" by (rule imageI)
    with valid have "fst (completions wi ! k) \<noteq> INVALIDCOMPLETION" by metis
    with mx gt k(2) show ?thesis by simp
  qed
  then show ?thesis
    by (simp add: checkMaxRatioLimitCompletions_select[OF ratios limit] Let_def)
qed

lemma checkRatioEconLimits_violated:
  "checkRatioEconLimits wi el ws report0 lg = Inr (r, lg') \<Longrightarrow> ratio_limit_violated r \<Longrightarrow>
   1 < violation_extent r \<and> worst_offending_completion r \<noteq> INVALIDCOMPLETION"
  by (auto simp: checkRatioEconLimits_def Let_def split: sum.splits if_splits)

lemma checkRatioEconLimits_order:
  assumes "checkRatioEconLimits wi el ws report0 lg = Inr (r, lg')"
  shows "\<exists>report1 report2.
           (if onMaxWaterCut el then checkMaxWaterCutLimit wi el ws report0 else Inr report0)
             = Inr report1
         \<and> (if onMaxGasOilRatio el then checkMaxGORLimit wi el ws report1 else Inr report1)
             = Inr report2
         \<and> (if onMaxWaterGasRatio el then checkMaxWGRLimit wi el ws report2 else Inr report2)
             = Inr r"
  using assms
  by (simp add: checkRatioEconLimits_def Let_def split: sum.splits if_splits)

section \<open>The worst offender of a kind and the report across the kinds\<close>

lemma scan_completions_ratios:
  "scan_completions ratio_of cs acc = Inr x \<Longrightarrow>
   \<exists>rs. map (\<lambda>c. ratio_of (snd c)) cs = map Inr rs"
proof (induction cs arbitrary: acc)
  case Nil
  then show ?case by simp
next
  case (Cons c cs)
  then obtain q where q: "ratio_of (snd c) = Inr q"
    by (cases "ratio_of (snd c)") auto
  with Cons.prems have "scan_completions ratio_of cs
            (if q > snd acc then (fst c, q) else acc) = Inr x" by simp
  from Cons.IH[OF this] obtain rs where "map (\<lambda>c. ratio_of (snd c)) cs = map Inr rs"
    by blast
  with q have "map (\<lambda>c. ratio_of (snd c)) (c # cs) = map Inr (q # rs)" by simp
  then show ?case by blast
qed

lemma kind_outcome_first_max:
  assumes ratios: "map (\<lambda>c. completion_ratio wi ws ratioFunc (snd c)) (completions wi)
                     = map Inr rs"
      and well: "checkMaxRatioLimitWell wi ws L ratioFunc = Inr True"
      and k: "k < length rs" "rs ! k = Max (set rs)" "\<forall>j < k. rs ! j < rs ! k"
  shows "kind_outcome wi ws True L ratioFunc = Some (fst (completions wi ! k), rs ! k / L)"
proof -
  let ?cs = "completions wi"
  let ?f = "\<lambda>c. completion_ratio wi ws ratioFunc (snd c)"
  from ratios have "length (map ?f ?cs) = length (map Inr rs)" by simp
  then have len: "length ?cs = length rs" by simp
  have nth: "\<And>i. i < length rs \<Longrightarrow> ?f (?cs ! i) = Inr (rs ! i)"
  proof -
    fix i assume i: "i < length rs"
    then have "map ?f ?cs ! i = map Inr rs ! i" using ratios by simp
    with i len show "?f (?cs ! i) = Inr (rs ! i)" by simp
  qed
  have ne: "?cs \<noteq> []" using k(1) len by auto
  have proj: "map (\<lambda>c. case ?f c of Inr q \<Rightarrow> q | Inl _ \<Rightarrow> 0) ?cs = rs"
    by (rule nth_equalityI) (simp_all add: len nth)
  have "find (\<lambda>c. ?f c = Inr (rs ! k)) ?cs = Some (?cs ! k)"
  proof -
    have "k < length ?cs" using k(1) len by simp
    moreover have "?f (?cs ! k) = Inr (rs ! k)" using nth k(1) by simp
    moreover have "\<forall>j < k. \<not> ?f (?cs ! j) = Inr (rs ! k)"
    proof (intro allI impI)
      fix j assume j: "j < k"
      then have "?f (?cs ! j) = Inr (rs ! j)" using nth k(1) by simp
      moreover have "rs ! j \<noteq> rs ! k" using k(3) j by auto
      ultimately show "\<not> ?f (?cs ! j) = Inr (rs ! k)" by simp
    qed
    ultimately show ?thesis by (subst find_Some_iff) blast
  qed
  then show ?thesis
    using well ne proj k(2) by (simp add: kind_outcome_def Let_def)
qed

lemma kind_step:
  assumes limit: "0 < L"
      and res: "(case checkMaxRatioLimitWell wi ws L ratioFunc of
                   Inl e \<Rightarrow> Inl e
                 | Inr violated \<Rightarrow>
                     if violated
                     then checkMaxRatioLimitCompletions wi ws L ratioFunc
                            (report\<lparr>ratio_limit_violated := True\<rparr>)
                     else Inr report) = Inr report'"
  shows "report' = kind_update (kind_outcome wi ws True L ratioFunc) report
       \<and> (case kind_outcome wi ws True L ratioFunc of
            None \<Rightarrow> True | Some ce \<Rightarrow> 1 < snd ce)"
proof (cases "checkMaxRatioLimitWell wi ws L ratioFunc")
  case (Inl e)
  with res show ?thesis by simp
next
  case (Inr violated)
  show ?thesis
  proof (cases violated)
    case False
    with Inr res have "report' = report" by simp
    moreover from Inr False have "kind_outcome wi ws True L ratioFunc = None"
      by (simp add: kind_outcome_def)
    ultimately show ?thesis by (simp add: kind_update_def)
  next
    case True
    with Inr res have c: "checkMaxRatioLimitCompletions wi ws L ratioFunc
                            (report\<lparr>ratio_limit_violated := True\<rparr>) = Inr report'" by simp
    then obtain x where "scan_completions (completion_ratio wi ws ratioFunc) (completions wi)
                           (INVALIDCOMPLETION, 0) = Inr x"
      by (auto simp: checkMaxRatioLimitCompletions_def split: sum.splits)
    from scan_completions_ratios[OF this]
    obtain rs where ratios: "map (\<lambda>c. completion_ratio wi ws ratioFunc (snd c)) (completions wi)
                               = map Inr rs" by blast
    from worst_selected[OF ratios limit c]
    obtain k where k: "k < length rs" "rs ! k = Max (set rs)" "\<forall>j < k. rs ! j < rs ! k"
        "1 < rs ! k / L"
        "report' = (if violation_extent (report\<lparr>ratio_limit_violated := True\<rparr>) < rs ! k / L
                    then report\<lparr>ratio_limit_violated := True\<rparr>
                           \<lparr>worst_offending_completion := fst (completions wi ! k),
                            violation_extent := rs ! k / L\<rparr>
                    else report\<lparr>ratio_limit_violated := True\<rparr>)"
      by blast
    from Inr True have well: "checkMaxRatioLimitWell wi ws L ratioFunc = Inr True" by simp
    have o: "kind_outcome wi ws True L ratioFunc = Some (fst (completions wi ! k), rs ! k / L)"
      using kind_outcome_first_max[OF ratios well k(1,2,3)] .
    from k(4,5) show ?thesis by (simp add: o kind_update_def)
  qed
qed

lemma kind_outcome_off: "kind_outcome wi ws False L ratioFunc = None"
  by (simp add: kind_outcome_def)

lemma checkMaxWaterCutLimit_outcome:
  assumes "(if onMaxWaterCut el then checkMaxWaterCutLimit wi el ws report else Inr report)
             = Inr report'"
  shows "report' = kind_update (kind_outcome wi ws (onMaxWaterCut el) (maxWaterCut el) waterCut)
                     report
       \<and> (case kind_outcome wi ws (onMaxWaterCut el) (maxWaterCut el) waterCut of
            None \<Rightarrow> True | Some ce \<Rightarrow> 1 < snd ce)"
proof (cases "onMaxWaterCut el")
  case False
  with assms show ?thesis by (simp add: kind_outcome_off kind_update_def)
next
  case True
  with assms have c: "checkMaxWaterCutLimit wi el ws report = Inr report'" by simp
  then have l: "0 < maxWaterCut el"
    by (auto simp: checkMaxWaterCutLimit_def Let_def split: if_splits)
  from c have "(case checkMaxRatioLimitWell wi ws (maxWaterCut el) waterCut of
                   Inl e \<Rightarrow> Inl e
                 | Inr violated \<Rightarrow>
                     if violated
                     then checkMaxRatioLimitCompletions wi ws (maxWaterCut el) waterCut
                            (report\<lparr>ratio_limit_violated := True\<rparr>)
                     else Inr report) = Inr report'"
    by (auto simp: checkMaxWaterCutLimit_def Let_def split: if_splits)
  from kind_step[OF l this] True show ?thesis by simp
qed

lemma checkMaxGORLimit_outcome:
  assumes "(if onMaxGasOilRatio el then checkMaxGORLimit wi el ws report else Inr report)
             = Inr report'"
  shows "report' = kind_update (kind_outcome wi ws (onMaxGasOilRatio el) (maxGasOilRatio el) gor)
                     report
       \<and> (case kind_outcome wi ws (onMaxGasOilRatio el) (maxGasOilRatio el) gor of
            None \<Rightarrow> True | Some ce \<Rightarrow> 1 < snd ce)"
proof (cases "onMaxGasOilRatio el")
  case False
  with assms show ?thesis by (simp add: kind_outcome_off kind_update_def)
next
  case True
  with assms have c: "checkMaxGORLimit wi el ws report = Inr report'" by simp
  then have l: "0 < maxGasOilRatio el"
    by (auto simp: checkMaxGORLimit_def Let_def split: if_splits)
  from c have "(case checkMaxRatioLimitWell wi ws (maxGasOilRatio el) gor of
                   Inl e \<Rightarrow> Inl e
                 | Inr violated \<Rightarrow>
                     if violated
                     then checkMaxRatioLimitCompletions wi ws (maxGasOilRatio el) gor
                            (report\<lparr>ratio_limit_violated := True\<rparr>)
                     else Inr report) = Inr report'"
    by (auto simp: checkMaxGORLimit_def Let_def split: if_splits)
  from kind_step[OF l this] True show ?thesis by simp
qed

lemma checkMaxWGRLimit_outcome:
  assumes "(if onMaxWaterGasRatio el then checkMaxWGRLimit wi el ws report else Inr report)
             = Inr report'"
  shows "report' = kind_update
                     (kind_outcome wi ws (onMaxWaterGasRatio el) (maxWaterGasRatio el) wgr)
                     report
       \<and> (case kind_outcome wi ws (onMaxWaterGasRatio el) (maxWaterGasRatio el) wgr of
            None \<Rightarrow> True | Some ce \<Rightarrow> 1 < snd ce)"
proof (cases "onMaxWaterGasRatio el")
  case False
  with assms show ?thesis by (simp add: kind_outcome_off kind_update_def)
next
  case True
  with assms have c: "checkMaxWGRLimit wi el ws report = Inr report'" by simp
  then have l: "0 < maxWaterGasRatio el"
    by (auto simp: checkMaxWGRLimit_def Let_def split: if_splits)
  from c have "(case checkMaxRatioLimitWell wi ws (maxWaterGasRatio el) wgr of
                   Inl e \<Rightarrow> Inl e
                 | Inr violated \<Rightarrow>
                     if violated
                     then checkMaxRatioLimitCompletions wi ws (maxWaterGasRatio el) wgr
                            (report\<lparr>ratio_limit_violated := True\<rparr>)
                     else Inr report) = Inr report'"
    by (auto simp: checkMaxWGRLimit_def Let_def split: if_splits)
  from kind_step[OF l this] True show ?thesis by simp
qed

lemma retains_largest_new: "retains_largest new_RatioLimitCheckReport []"
  by (simp add: retains_largest_def new_RatioLimitCheckReport_def)

lemma retains_largest_step:
  assumes inv: "retains_largest report outcomes"
      and gt: "case outcome of None \<Rightarrow> True | Some ce \<Rightarrow> 1 < snd ce"
  shows "retains_largest (kind_update outcome report) (outcomes @ [outcome])"
proof (cases outcome)
  case None
  with inv show ?thesis
    by (auto simp: retains_largest_def kind_update_def list_all_iff list_ex_iff
        split: option.splits if_splits)
next
  case (Some ce)
  with gt have one: "1 < snd ce" by simp
  show ?thesis
  proof (cases "violation_extent report < snd ce")
    case True
    with Some inv show ?thesis
      by (auto simp: retains_largest_def kind_update_def list_all_iff list_ex_iff
          split: option.splits if_splits)
  next
    case False
    with one have "violation_extent report \<noteq> 0" by simp
    with inv have v: "ratio_limit_violated report"
      by (auto simp: retains_largest_def split: if_splits)
    with False Some inv show ?thesis
      by (auto simp: retains_largest_def kind_update_def list_all_iff list_ex_iff
          split: option.splits if_splits)
  qed
qed

lemma checkRatioEconLimits_report:
  assumes "checkRatioEconLimits wi el ws report lg = Inr (r, lg')"
  shows "r = kind_update (kind_outcome wi ws (onMaxWaterGasRatio el) (maxWaterGasRatio el) wgr)
               (kind_update (kind_outcome wi ws (onMaxGasOilRatio el) (maxGasOilRatio el) gor)
                  (kind_update (kind_outcome wi ws (onMaxWaterCut el) (maxWaterCut el) waterCut)
                     report))"
    and "report = new_RatioLimitCheckReport \<Longrightarrow>
         retains_largest r
           [kind_outcome wi ws (onMaxWaterCut el) (maxWaterCut el) waterCut,
            kind_outcome wi ws (onMaxGasOilRatio el) (maxGasOilRatio el) gor,
            kind_outcome wi ws (onMaxWaterGasRatio el) (maxWaterGasRatio el) wgr]"
proof -
  let ?o1 = "kind_outcome wi ws (onMaxWaterCut el) (maxWaterCut el) waterCut"
  let ?o2 = "kind_outcome wi ws (onMaxGasOilRatio el) (maxGasOilRatio el) gor"
  let ?o3 = "kind_outcome wi ws (onMaxWaterGasRatio el) (maxWaterGasRatio el) wgr"
  from checkRatioEconLimits_order[OF assms] obtain report1 report2 where
    s1: "(if onMaxWaterCut el then checkMaxWaterCutLimit wi el ws report else Inr report)
           = Inr report1"
    and s2: "(if onMaxGasOilRatio el then checkMaxGORLimit wi el ws report1 else Inr report1)
           = Inr report2"
    and s3: "(if onMaxWaterGasRatio el then checkMaxWGRLimit wi el ws report2 else Inr report2)
           = Inr r"
    by blast
  note k1 = checkMaxWaterCutLimit_outcome[OF s1]
  note k2 = checkMaxGORLimit_outcome[OF s2]
  note k3 = checkMaxWGRLimit_outcome[OF s3]
  from k1 k2 k3 show eq: "r = kind_update ?o3 (kind_update ?o2 (kind_update ?o1 report))"
    by simp
  assume new: "report = new_RatioLimitCheckReport"
  from new retains_largest_new have i0: "retains_largest report []" by simp
  note a1 = retains_largest_step[OF i0 conjunct2[OF k1]]
  note a2 = retains_largest_step[OF a1 conjunct2[OF k2]]
  note a3 = retains_largest_step[OF a2 conjunct2[OF k3]]
  from a3 k1 k2
  have "retains_largest (kind_update ?o3 (kind_update ?o2 (kind_update ?o1 report)))
               [?o1, ?o2, ?o3]" by simp
  with eq show "retains_largest r [?o1, ?o2, ?o3]" by simp
qed

text \<open>
  Claim C5. The rates of a completion are the sums of the perforation rates over its
  connections, reduced by the collective sum before the ratio is taken. When the ratios
  of the completions are \<open>rs\<close> and the limit is positive, a call of
  \<^verbatim>\<open>checkMaxRatioLimitCompletions\<close> that returns has found the first completion with the
  maximum ratio; that ratio is above the limit, the extent is the ratio over the limit and
  is above \<open>1\<close>, and the report keeps the larger of its old extent and the new one, with
  the completion that belongs to it. The call returns whenever the maximum is above the
  limit. A report of \<^verbatim>\<open>checkRatioEconLimits\<close> that marks a violation has an extent above
  \<open>1\<close>. Across the kinds, the report \<^verbatim>\<open>checkRatioEconLimits\<close> returns is the report it was
  given, updated by the worst offender of the water cut, then of the gas-oil ratio, then
  of the water-gas ratio; started on a fresh report it marks a violation exactly when some
  kind is violated and then holds the worst offender of a kind whose extent no other kind
  exceeds.
\<close>

theorem worst_offender_selection:
  "(p < number_of_phases wi \<longrightarrow>
      completion_rates wi ws conns ! p
        = (\<Sum>c\<leftarrow>conns. perf_phase_rates wi ws (c * number_of_phases wi + p))
      \<and> completion_ratio wi ws ratioFunc conns
        = ratioFunc (communication_sum wi (completion_rates wi ws conns)) (phaseUsage wi))
   \<and> (map (\<lambda>c. completion_ratio wi ws ratioFunc (snd c)) (completions wi) = map Inr rs
        \<and> 0 < L
        \<and> checkMaxRatioLimitCompletions wi ws L ratioFunc report = Inr report'
      \<longrightarrow> (\<exists>k < length rs. rs ! k = Max (set rs) \<and> (\<forall>j < k. rs ! j < rs ! k)
             \<and> L < rs ! k \<and> 1 < rs ! k / L
             \<and> report' = (if violation_extent report < rs ! k / L
                          then report\<lparr>worst_offending_completion := fst (completions wi ! k),
                                      violation_extent := rs ! k / L\<rparr>
                          else report)
             \<and> violation_extent report' = max (violation_extent report) (rs ! k / L)
             \<and> 1 < violation_extent report'))
   \<and> (map (\<lambda>c. completion_ratio wi ws ratioFunc (snd c)) (completions wi) = map Inr rs
        \<and> 0 < L \<and> rs \<noteq> [] \<and> L < Max (set rs)
        \<and> INVALIDCOMPLETION \<notin> fst ` set (completions wi)
      \<longrightarrow> (\<exists>report'. checkMaxRatioLimitCompletions wi ws L ratioFunc report = Inr report'))
   \<and> (checkRatioEconLimits wi el ws new_RatioLimitCheckReport lg = Inr (r, lg')
        \<and> ratio_limit_violated r
      \<longrightarrow> 1 < violation_extent r \<and> worst_offending_completion r \<noteq> INVALIDCOMPLETION)
   \<and> (checkRatioEconLimits wi el ws report0 lg = Inr (r, lg')
      \<longrightarrow> r = kind_update
                 (kind_outcome wi ws (onMaxWaterGasRatio el) (maxWaterGasRatio el) wgr)
                 (kind_update
                    (kind_outcome wi ws (onMaxGasOilRatio el) (maxGasOilRatio el) gor)
                    (kind_update
                       (kind_outcome wi ws (onMaxWaterCut el) (maxWaterCut el) waterCut)
                       report0)))
   \<and> (checkRatioEconLimits wi el ws new_RatioLimitCheckReport lg = Inr (r, lg')
      \<longrightarrow> retains_largest r
            [kind_outcome wi ws (onMaxWaterCut el) (maxWaterCut el) waterCut,
             kind_outcome wi ws (onMaxGasOilRatio el) (maxGasOilRatio el) gor,
             kind_outcome wi ws (onMaxWaterGasRatio el) (maxWaterGasRatio el) wgr])"
proof (intro conjI impI)
  assume "p < number_of_phases wi"
  then show "completion_rates wi ws conns ! p
        = (\<Sum>c\<leftarrow>conns. perf_phase_rates wi ws (c * number_of_phases wi + p))"
    by (rule completion_rates_sum)
next
  show "completion_ratio wi ws ratioFunc conns
        = ratioFunc (communication_sum wi (completion_rates wi ws conns)) (phaseUsage wi)"
    by (simp add: completion_ratio_def)
next
  assume "map (\<lambda>c. completion_ratio wi ws ratioFunc (snd c)) (completions wi) = map Inr rs
        \<and> 0 < L
        \<and> checkMaxRatioLimitCompletions wi ws L ratioFunc report = Inr report'"
  then show "\<exists>k < length rs. rs ! k = Max (set rs) \<and> (\<forall>j < k. rs ! j < rs ! k)
             \<and> L < rs ! k \<and> 1 < rs ! k / L
             \<and> report' = (if violation_extent report < rs ! k / L
                          then report\<lparr>worst_offending_completion := fst (completions wi ! k),
                                      violation_extent := rs ! k / L\<rparr>
                          else report)
             \<and> violation_extent report' = max (violation_extent report) (rs ! k / L)
             \<and> 1 < violation_extent report'"
    using worst_selected[of wi ws ratioFunc rs L report report'] by blast
next
  assume "map (\<lambda>c. completion_ratio wi ws ratioFunc (snd c)) (completions wi) = map Inr rs
        \<and> 0 < L \<and> rs \<noteq> [] \<and> L < Max (set rs)
        \<and> INVALIDCOMPLETION \<notin> fst ` set (completions wi)"
  then show "\<exists>report'. checkMaxRatioLimitCompletions wi ws L ratioFunc report = Inr report'"
    using worst_selection_total[of wi ws ratioFunc rs L report] by blast
next
  assume a: "checkRatioEconLimits wi el ws new_RatioLimitCheckReport lg = Inr (r, lg')
        \<and> ratio_limit_violated r"
  with checkRatioEconLimits_violated[of wi el ws new_RatioLimitCheckReport lg r lg']
  show "1 < violation_extent r" "worst_offending_completion r \<noteq> INVALIDCOMPLETION"
    by simp_all
next
  assume "checkRatioEconLimits wi el ws report0 lg = Inr (r, lg')"
  then show "r = kind_update
                 (kind_outcome wi ws (onMaxWaterGasRatio el) (maxWaterGasRatio el) wgr)
                 (kind_update
                    (kind_outcome wi ws (onMaxGasOilRatio el) (maxGasOilRatio el) gor)
                    (kind_update
                       (kind_outcome wi ws (onMaxWaterCut el) (maxWaterCut el) waterCut)
                       report0))"
    by (rule checkRatioEconLimits_report(1))
next
  assume "checkRatioEconLimits wi el ws new_RatioLimitCheckReport lg = Inr (r, lg')"
  then show "retains_largest r
            [kind_outcome wi ws (onMaxWaterCut el) (maxWaterCut el) waterCut,
             kind_outcome wi ws (onMaxGasOilRatio el) (maxGasOilRatio el) gor,
             kind_outcome wi ws (onMaxWaterGasRatio el) (maxWaterGasRatio el) wgr]"
    by (rule checkRatioEconLimits_report(2)) simp
qed

lemma ex_ratios:
  "map (\<lambda>c. completion_ratio ex_econ_wi ex_econ_ws waterCut (snd c)) (completions ex_econ_wi)
     = map Inr [3 / 10, 9 / 10, 6 / 10]"
  by (simp add: ex_completions ex_completion_ratios del: One_nat_def)

section \<open>Evaluating the producer with two violated kinds\<close>

lemmas ex_multi_defs = ex_multi_wi_def ex_tie_ws_def ex_econ_wi_def ex_econ_well_def
  ex_ratio_limits_def ex_defs

lemma ex_multi_watercuts:
  "map (\<lambda>c. completion_ratio ex_multi_wi ex_tie_ws waterCut (snd c)) (completions ex_multi_wi)
     = map Inr [9 / 10, 9 / 10, 0]"
  by (simp add: completion_ratio_def completion_rates_def perf_phase_rates_def
        waterCut_def for_phases_3 ex_multi_defs)

lemma ex_multi_gors:
  "map (\<lambda>c. completion_ratio ex_multi_wi ex_tie_ws gor (snd c)) (completions ex_multi_wi)
     = map Inr [0, 0, 9]"
  by (simp add: completion_ratio_def completion_rates_def perf_phase_rates_def
        gor_def for_phases_3 ex_multi_defs)

lemma ex_multi_well:
  "checkMaxRatioLimitWell ex_multi_wi ex_tie_ws (1 / 2) waterCut = Inr True"
  "checkMaxRatioLimitWell ex_multi_wi ex_tie_ws 3 gor = Inr True"
  by (simp_all add: checkMaxRatioLimitWell_def waterCut_def gor_def for_phases_3 ex_multi_defs)

lemma ex_multi_limits:
  "phaseIsActive ex_multi_wi = (\<lambda>_. True)"
  "completions ex_multi_wi = [(1, [0]), (2, [1]), (3, [2])]"
  "onMaxWaterCut (getEconLimits (well_ecl ex_multi_wi))"
  "maxWaterCut (getEconLimits (well_ecl ex_multi_wi)) = 1 / 2"
  "onMaxGasOilRatio (getEconLimits (well_ecl ex_multi_wi))"
  "maxGasOilRatio (getEconLimits (well_ecl ex_multi_wi)) = 3"
  "\<not> onMaxWaterGasRatio (getEconLimits (well_ecl ex_multi_wi))"
  "\<not> onMaxGasLiquidRatio (getEconLimits (well_ecl ex_multi_wi))"
  by (simp_all add: ex_multi_defs)

lemma ex_multi_outcomes:
  "kind_outcome ex_multi_wi ex_tie_ws True (1 / 2) waterCut = Some (1, 9 / 5)"
  "kind_outcome ex_multi_wi ex_tie_ws True 3 gor = Some (3, 3)"
proof -
  have "kind_outcome ex_multi_wi ex_tie_ws True (1 / 2) waterCut
          = Some (fst (completions ex_multi_wi ! 0), [9 / 10, 9 / 10, 0] ! 0 / (1 / 2))"
    by (rule kind_outcome_first_max[OF ex_multi_watercuts ex_multi_well(1)]) simp_all
  then show "kind_outcome ex_multi_wi ex_tie_ws True (1 / 2) waterCut = Some (1, 9 / 5)"
    by (simp add: ex_multi_limits)
  have "kind_outcome ex_multi_wi ex_tie_ws True 3 gor
          = Some (fst (completions ex_multi_wi ! 2), [0, 0, 9] ! 2 / 3)"
    by (rule kind_outcome_first_max[OF ex_multi_gors ex_multi_well(2)])
       (simp_all add: less_Suc_eq numeral_2_eq_2)
  then show "kind_outcome ex_multi_wi ex_tie_ws True 3 gor = Some (3, 3)"
    by (simp add: ex_multi_limits)
qed

lemma ex_multi_checkRatioEconLimits:
  "checkRatioEconLimits ex_multi_wi (getEconLimits (well_ecl ex_multi_wi)) ex_tie_ws
     new_RatioLimitCheckReport []
   = Inr (\<lparr>ratio_limit_violated = True, worst_offending_completion = 3,
           violation_extent = 3\<rparr>, [])"
proof -
  let ?el = "getEconLimits (well_ecl ex_multi_wi)"
  have s1: "scan_completions (completion_ratio ex_multi_wi ex_tie_ws waterCut)
              (completions ex_multi_wi) (INVALIDCOMPLETION, 0) = Inr (1, 9 / 10)"
    by (simp only: scan_completions_select[OF ex_multi_watercuts])
       (simp add: select_worst_def ex_multi_limits INVALIDCOMPLETION_def)
  have s2: "scan_completions (completion_ratio ex_multi_wi ex_tie_ws gor)
              (completions ex_multi_wi) (INVALIDCOMPLETION, 0) = Inr (3, 9)"
    by (simp only: scan_completions_select[OF ex_multi_gors])
       (simp add: select_worst_def ex_multi_limits INVALIDCOMPLETION_def)
  have c1: "checkMaxRatioLimitCompletions ex_multi_wi ex_tie_ws (1 / 2) waterCut
             (new_RatioLimitCheckReport\<lparr>ratio_limit_violated := True\<rparr>)
           = Inr \<lparr>ratio_limit_violated = True, worst_offending_completion = 1,
                  violation_extent = 9 / 5\<rparr>"
    by (simp only: checkMaxRatioLimitCompletions_def s1)
       (simp add: INVALIDCOMPLETION_def new_RatioLimitCheckReport_def)
  have c2: "checkMaxRatioLimitCompletions ex_multi_wi ex_tie_ws 3 gor
             \<lparr>ratio_limit_violated = True, worst_offending_completion = 1,
              violation_extent = 9 / 5\<rparr>
           = Inr \<lparr>ratio_limit_violated = True, worst_offending_completion = 3,
                  violation_extent = 3\<rparr>"
    by (simp only: checkMaxRatioLimitCompletions_def s2) (simp add: INVALIDCOMPLETION_def)
  have w: "checkMaxWaterCutLimit ex_multi_wi ?el ex_tie_ws new_RatioLimitCheckReport
     = Inr \<lparr>ratio_limit_violated = True, worst_offending_completion = 1,
            violation_extent = 9 / 5\<rparr>"
    by (simp add: checkMaxWaterCutLimit_def ex_multi_limits ex_multi_well c1)
  have g: "checkMaxGORLimit ex_multi_wi ?el ex_tie_ws
             \<lparr>ratio_limit_violated = True, worst_offending_completion = 1,
              violation_extent = 9 / 5\<rparr>
     = Inr \<lparr>ratio_limit_violated = True, worst_offending_completion = 3,
            violation_extent = 3\<rparr>"
    by (simp add: checkMaxGORLimit_def ex_multi_limits ex_multi_well c2)
  show ?thesis
    by (simp add: checkRatioEconLimits_def ex_multi_limits w g INVALIDCOMPLETION_def)
qed

theorem worst_offender_selection_witness:
  "checkMaxRatioLimitCompletions ex_econ_wi ex_econ_ws (1 / 2) waterCut
     (new_RatioLimitCheckReport\<lparr>ratio_limit_violated := True\<rparr>)
     = Inr \<lparr>ratio_limit_violated = True, worst_offending_completion = 2,
            violation_extent = 9 / 5\<rparr>
   \<and> map (\<lambda>c. completion_ratio ex_econ_wi ex_econ_ws waterCut (snd c)) (completions ex_econ_wi)
     = map Inr [3 / 10, 9 / 10, 6 / 10]
   \<and> completion_rates ex_econ_wi ex_econ_ws [1] ! 0 = - 9
   \<and> (1::real) < 9 / 5
   \<and> (\<exists>report'. checkMaxRatioLimitCompletions ex_econ_wi ex_econ_ws (1 / 2) waterCut
          new_RatioLimitCheckReport = Inr report')
   \<and> checkRatioEconLimits ex_multi_wi (getEconLimits (well_ecl ex_multi_wi)) ex_tie_ws
        new_RatioLimitCheckReport []
      = Inr (\<lparr>ratio_limit_violated = True, worst_offending_completion = 3,
              violation_extent = 3\<rparr>, [])
   \<and> kind_outcome ex_multi_wi ex_tie_ws True (1 / 2) waterCut = Some (1, 9 / 5)
   \<and> kind_outcome ex_multi_wi ex_tie_ws True 3 gor = Some (3, 3)
   \<and> \<lparr>ratio_limit_violated = True, worst_offending_completion = 3, violation_extent = 3\<rparr>
      = kind_update None
          (kind_update (Some (3, 3))
             (kind_update (Some (1, 9 / 5)) new_RatioLimitCheckReport))
   \<and> retains_largest
        \<lparr>ratio_limit_violated = True, worst_offending_completion = 3, violation_extent = 3\<rparr>
        [Some (1, 9 / 5), Some (3, 3), None]"
proof -
  let ?start = "new_RatioLimitCheckReport\<lparr>ratio_limit_violated := True\<rparr>"
  let ?res = "\<lparr>ratio_limit_violated = True, worst_offending_completion = 2,
              violation_extent = 9 / 5\<rparr>"
  let ?multi = "\<lparr>ratio_limit_violated = True, worst_offending_completion = 3,
                 violation_extent = 3\<rparr>"
  let ?el = "getEconLimits (well_ecl ex_multi_wi)"
  note sel = worst_offender_selection
    [where p = 0 and wi = ex_econ_wi and ws = ex_econ_ws and conns = "[1]"
       and ratioFunc = waterCut and rs = "[3 / 10, 9 / 10, 6 / 10]" and L = "1 / 2"
       and el = ex_ratio_limits and lg = "[]" and r = ?res and lg' = "[]"]
  have p: "0 < number_of_phases ex_econ_wi" by (simp add: ex_econ_defs)
  have s: "(\<Sum>c\<leftarrow>[1]. perf_phase_rates ex_econ_wi ex_econ_ws (c * number_of_phases ex_econ_wi + 0))
             = - 9"
    by (simp add: perf_phase_rates_def ex_econ_defs)
  from sel p s have 1: "completion_rates ex_econ_wi ex_econ_ws [1] ! 0 = - 9" by simp
  have h2: "map (\<lambda>c. completion_ratio ex_econ_wi ex_econ_ws waterCut (snd c))
               (completions ex_econ_wi) = map Inr [3 / 10, 9 / 10, 6 / 10]
        \<and> (0::real) < 1 / 2
        \<and> checkMaxRatioLimitCompletions ex_econ_wi ex_econ_ws (1 / 2) waterCut ?start = Inr ?res"
    by (intro conjI ex_ratios ex_checkMaxRatioLimitCompletions) simp
  from sel [where report = ?start and report' = ?res] h2 have "1 < violation_extent ?res" by blast
  then have 2: "(1::real) < 9 / 5" by simp
  have m: "Max (set [3 / 10, 9 / 10, 6 / 10 :: real]) = 9 / 10" by simp
  have h3: "map (\<lambda>c. completion_ratio ex_econ_wi ex_econ_ws waterCut (snd c))
               (completions ex_econ_wi) = map Inr [3 / 10, 9 / 10, 6 / 10]
        \<and> (0::real) < 1 / 2 \<and> [3 / 10, 9 / 10, 6 / 10 :: real] \<noteq> []
        \<and> (1 / 2 :: real) < Max (set [3 / 10, 9 / 10, 6 / 10])
        \<and> INVALIDCOMPLETION \<notin> fst ` set (completions ex_econ_wi)"
    by (intro conjI ex_ratios) (simp_all add: m ex_completions INVALIDCOMPLETION_def)
  from sel [where report = new_RatioLimitCheckReport] h3
  have 3: "\<exists>report'. checkMaxRatioLimitCompletions ex_econ_wi ex_econ_ws (1 / 2) waterCut
          new_RatioLimitCheckReport = Inr report'" by blast
  note multi = worst_offender_selection
    [where wi = ex_multi_wi and ws = ex_tie_ws and el = ?el and lg = "[]" and r = ?multi
       and lg' = "[]" and report0 = new_RatioLimitCheckReport]
  have o: "kind_outcome ex_multi_wi ex_tie_ws (onMaxWaterCut ?el) (maxWaterCut ?el) waterCut
             = Some (1, 9 / 5)"
     "kind_outcome ex_multi_wi ex_tie_ws (onMaxGasOilRatio ?el) (maxGasOilRatio ?el) gor
             = Some (3, 3)"
     "kind_outcome ex_multi_wi ex_tie_ws (onMaxWaterGasRatio ?el) (maxWaterGasRatio ?el) wgr
             = None"
    by (simp_all add: ex_multi_limits ex_multi_outcomes kind_outcome_off)
  from multi ex_multi_checkRatioEconLimits
  have "?multi = kind_update
                 (kind_outcome ex_multi_wi ex_tie_ws (onMaxWaterGasRatio ?el)
                    (maxWaterGasRatio ?el) wgr)
                 (kind_update
                    (kind_outcome ex_multi_wi ex_tie_ws (onMaxGasOilRatio ?el)
                       (maxGasOilRatio ?el) gor)
                    (kind_update
                       (kind_outcome ex_multi_wi ex_tie_ws (onMaxWaterCut ?el)
                          (maxWaterCut ?el) waterCut)
                       new_RatioLimitCheckReport))"
    by blast
  then have 4: "?multi = kind_update None
          (kind_update (Some (3, 3))
             (kind_update (Some (1, 9 / 5)) new_RatioLimitCheckReport))"
    by (simp only: o)
  from multi ex_multi_checkRatioEconLimits
  have "retains_largest ?multi
            [kind_outcome ex_multi_wi ex_tie_ws (onMaxWaterCut ?el) (maxWaterCut ?el) waterCut,
             kind_outcome ex_multi_wi ex_tie_ws (onMaxGasOilRatio ?el) (maxGasOilRatio ?el) gor,
             kind_outcome ex_multi_wi ex_tie_ws (onMaxWaterGasRatio ?el)
               (maxWaterGasRatio ?el) wgr]"
    by blast
  then have 5: "retains_largest ?multi [Some (1, 9 / 5), Some (3, 3), None]"
    by (simp only: o)
  from ex_checkMaxRatioLimitCompletions ex_ratios 1 2 3 ex_multi_checkRatioEconLimits
    ex_multi_outcomes 4 5
  show ?thesis by (intro conjI)
qed

section \<open>Ties\<close>

lemma checkMaxRatioLimitCompletions_strict:
  "checkMaxRatioLimitCompletions wi ws L ratioFunc report = Inr report' \<Longrightarrow>
   report' = report \<or> violation_extent report < violation_extent report'"
  by (auto simp: checkMaxRatioLimitCompletions_def Let_def split: sum.splits if_splits)

lemma checkMaxRatioLimitCompletions_slot:
  "checkMaxRatioLimitCompletions wi ws L ratioFunc report = Inr report' \<Longrightarrow>
   (worst_offending_completion report' = worst_offending_completion report
      \<and> violation_extent report' = violation_extent report)
   \<or> violation_extent report < violation_extent report'"
  using checkMaxRatioLimitCompletions_strict by blast

lemma ratio_kind_slot:
  assumes "checkMaxWaterCutLimit wi el ws report = Inr report'
           \<or> checkMaxGORLimit wi el ws report = Inr report'
           \<or> checkMaxWGRLimit wi el ws report = Inr report'"
  shows "(worst_offending_completion report' = worst_offending_completion report
            \<and> violation_extent report' = violation_extent report)
         \<or> violation_extent report < violation_extent report'"
  using assms
  by (auto simp: checkMaxWaterCutLimit_def checkMaxGORLimit_def checkMaxWGRLimit_def Let_def
      split: if_splits sum.splits dest!: checkMaxRatioLimitCompletions_slot)

text \<open>
  Claim C10. \<^verbatim>\<open>checkMaxRatioLimitCompletions\<close> changes the report only to one of strictly
  greater extent. Within a scan the candidate is replaced only by a strictly greater
  ratio: the completion found is the first with the maximum ratio, every earlier one is
  strictly below it. Each of the three ratio checks either leaves the worst-offender slot
  and the extent as they are or raises the extent strictly, and \<^verbatim>\<open>checkRatioEconLimits\<close>
  hands the report through water cut, gas-oil ratio and water-gas ratio in this order: on
  equal extents the earlier kind keeps the slot.
\<close>

theorem tie_keeps_earlier:
  "(checkMaxRatioLimitCompletions wi ws L ratioFunc report = Inr report'
      \<longrightarrow> report' = report \<or> violation_extent report < violation_extent report')
   \<and> (map (\<lambda>c. ratio_of (snd c)) cs = map Inr rs
        \<and> scan_completions ratio_of cs (w0, m0) = Inr (w, m)
      \<longrightarrow> (w = w0 \<and> m = m0 \<and> (\<forall>r \<in> set rs. r \<le> m0))
          \<or> (\<exists>k < length rs. w = fst (cs ! k) \<and> m = rs ! k \<and> m0 < m
                \<and> (\<forall>j < k. rs ! j < m) \<and> (\<forall>j < length rs. rs ! j \<le> m)))
   \<and> (checkMaxWaterCutLimit wi el ws report = Inr report'
        \<or> checkMaxGORLimit wi el ws report = Inr report'
        \<or> checkMaxWGRLimit wi el ws report = Inr report'
      \<longrightarrow> (worst_offending_completion report' = worst_offending_completion report
             \<and> violation_extent report' = violation_extent report)
          \<or> violation_extent report < violation_extent report')
   \<and> (checkRatioEconLimits wi el ws report lg = Inr (r, lg')
      \<longrightarrow> (\<exists>report1 report2.
             (if onMaxWaterCut el then checkMaxWaterCutLimit wi el ws report else Inr report)
               = Inr report1
           \<and> (if onMaxGasOilRatio el then checkMaxGORLimit wi el ws report1 else Inr report1)
               = Inr report2
           \<and> (if onMaxWaterGasRatio el then checkMaxWGRLimit wi el ws report2 else Inr report2)
               = Inr r))"
proof (intro conjI impI)
  assume "checkMaxRatioLimitCompletions wi ws L ratioFunc report = Inr report'"
  then show "report' = report \<or> violation_extent report < violation_extent report'"
    by (rule checkMaxRatioLimitCompletions_strict)
next
  assume a: "map (\<lambda>c. ratio_of (snd c)) cs = map Inr rs
        \<and> scan_completions ratio_of cs (w0, m0) = Inr (w, m)"
  then have s: "select_worst (w0, m0) (zip (map fst cs) rs) = (w, m)"
    using scan_completions_select[of ratio_of cs rs "(w0, m0)"] by simp
  from a have "map (\<lambda>c. ratio_of (snd c)) cs = map Inr rs" by simp
  from select_worst_completions[OF this, of w0 m0] s
  show "(w = w0 \<and> m = m0 \<and> (\<forall>r \<in> set rs. r \<le> m0))
          \<or> (\<exists>k < length rs. w = fst (cs ! k) \<and> m = rs ! k \<and> m0 < m
                \<and> (\<forall>j < k. rs ! j < m) \<and> (\<forall>j < length rs. rs ! j \<le> m))"
    by auto
next
  assume "checkMaxWaterCutLimit wi el ws report = Inr report'
        \<or> checkMaxGORLimit wi el ws report = Inr report'
        \<or> checkMaxWGRLimit wi el ws report = Inr report'"
  then show "(worst_offending_completion report' = worst_offending_completion report
             \<and> violation_extent report' = violation_extent report)
          \<or> violation_extent report < violation_extent report'"
    by (rule ratio_kind_slot)
next
  assume "checkRatioEconLimits wi el ws report lg = Inr (r, lg')"
  then show "\<exists>report1 report2.
             (if onMaxWaterCut el then checkMaxWaterCutLimit wi el ws report else Inr report)
               = Inr report1
           \<and> (if onMaxGasOilRatio el then checkMaxGORLimit wi el ws report1 else Inr report1)
               = Inr report2
           \<and> (if onMaxWaterGasRatio el then checkMaxWGRLimit wi el ws report2 else Inr report2)
               = Inr r"
    by (rule checkRatioEconLimits_order)
qed

lemmas ex_tie_defs = ex_tie_wi_def ex_tie_ws_def ex_econ_wi_def ex_econ_well_def
  ex_ratio_limits_def ex_defs

lemma ex_tie_watercuts:
  "completion_ratio ex_tie_wi ex_tie_ws waterCut [0] = Inr (9 / 10)"
  "completion_ratio ex_tie_wi ex_tie_ws waterCut [1] = Inr (9 / 10)"
  "completion_ratio ex_tie_wi ex_tie_ws waterCut [2] = Inr 0"
  by (simp_all add: completion_ratio_def completion_rates_def perf_phase_rates_def
        waterCut_def for_phases_3 ex_tie_defs)

lemma ex_tie_gors:
  "completion_ratio ex_tie_wi ex_tie_ws gor [0] = Inr 0"
  "completion_ratio ex_tie_wi ex_tie_ws gor [1] = Inr 0"
  "completion_ratio ex_tie_wi ex_tie_ws gor [2] = Inr 9"
  by (simp_all add: completion_ratio_def completion_rates_def perf_phase_rates_def
        gor_def for_phases_3 ex_tie_defs)

lemma ex_tie_completions:
  "completions ex_tie_wi = [(1, [0]), (2, [1]), (3, [2])]"
  by (simp add: ex_tie_defs)

lemma ex_tie_limits:
  "phaseIsActive ex_tie_wi = (\<lambda>_. True)"
  "getEconLimits (well_ecl ex_tie_wi)
     = ex_ratio_limits\<lparr>onMaxGasOilRatio := True, maxGasOilRatio := 5\<rparr>"
  by (simp_all add: ex_tie_wi_def ex_econ_wi_def ex_wi_def)

lemma ex_tie_scan_watercut:
  "scan_completions (completion_ratio ex_tie_wi ex_tie_ws waterCut) (completions ex_tie_wi)
     (INVALIDCOMPLETION, 0) = Inr (1, 9 / 10)"
  by (simp add: ex_tie_completions ex_tie_watercuts del: One_nat_def)

lemma ex_tie_watercut:
  "checkMaxWaterCutLimit ex_tie_wi (getEconLimits (well_ecl ex_tie_wi)) ex_tie_ws
     new_RatioLimitCheckReport
   = Inr \<lparr>ratio_limit_violated = True, worst_offending_completion = 1,
          violation_extent = 9 / 5\<rparr>"
proof -
  have w: "checkMaxRatioLimitWell ex_tie_wi ex_tie_ws (1 / 2) waterCut = Inr True"
    by (simp add: checkMaxRatioLimitWell_def waterCut_def for_phases_3 ex_tie_defs)
  have c: "checkMaxRatioLimitCompletions ex_tie_wi ex_tie_ws (1 / 2) waterCut
             (new_RatioLimitCheckReport\<lparr>ratio_limit_violated := True\<rparr>)
           = Inr \<lparr>ratio_limit_violated = True, worst_offending_completion = 1,
                  violation_extent = 9 / 5\<rparr>"
    by (simp only: checkMaxRatioLimitCompletions_def ex_tie_scan_watercut)
       (simp add: INVALIDCOMPLETION_def new_RatioLimitCheckReport_def)
  show ?thesis
    by (simp add: checkMaxWaterCutLimit_def ex_tie_limits)
       (simp add: ex_ratio_limits_def ex_limits_def w c)
qed

lemma ex_tie_gor:
  "checkMaxGORLimit ex_tie_wi (getEconLimits (well_ecl ex_tie_wi)) ex_tie_ws
     \<lparr>ratio_limit_violated = True, worst_offending_completion = 1, violation_extent = 9 / 5\<rparr>
   = Inr \<lparr>ratio_limit_violated = True, worst_offending_completion = 1,
          violation_extent = 9 / 5\<rparr>"
  "checkMaxGORLimit ex_tie_wi (getEconLimits (well_ecl ex_tie_wi)) ex_tie_ws
     new_RatioLimitCheckReport
   = Inr \<lparr>ratio_limit_violated = True, worst_offending_completion = 3,
          violation_extent = 9 / 5\<rparr>"
proof -
  have w: "checkMaxRatioLimitWell ex_tie_wi ex_tie_ws 5 gor = Inr True"
    by (simp add: checkMaxRatioLimitWell_def gor_def for_phases_3 ex_tie_defs)
  have s: "scan_completions (completion_ratio ex_tie_wi ex_tie_ws gor) (completions ex_tie_wi)
     (INVALIDCOMPLETION, 0) = Inr (3, 9)"
    by (simp add: ex_tie_completions ex_tie_gors del: One_nat_def)
  have c: "checkMaxRatioLimitCompletions ex_tie_wi ex_tie_ws 5 gor
             \<lparr>ratio_limit_violated = True, worst_offending_completion = 1,
              violation_extent = 9 / 5\<rparr>
           = Inr \<lparr>ratio_limit_violated = True, worst_offending_completion = 1,
                  violation_extent = 9 / 5\<rparr>"
    by (simp only: checkMaxRatioLimitCompletions_def s) (simp add: INVALIDCOMPLETION_def)
  have c': "checkMaxRatioLimitCompletions ex_tie_wi ex_tie_ws 5 gor
             (new_RatioLimitCheckReport\<lparr>ratio_limit_violated := True\<rparr>)
           = Inr \<lparr>ratio_limit_violated = True, worst_offending_completion = 3,
                  violation_extent = 9 / 5\<rparr>"
    by (simp only: checkMaxRatioLimitCompletions_def s)
       (simp add: INVALIDCOMPLETION_def new_RatioLimitCheckReport_def)
  show "checkMaxGORLimit ex_tie_wi (getEconLimits (well_ecl ex_tie_wi)) ex_tie_ws
     \<lparr>ratio_limit_violated = True, worst_offending_completion = 1, violation_extent = 9 / 5\<rparr>
   = Inr \<lparr>ratio_limit_violated = True, worst_offending_completion = 1,
          violation_extent = 9 / 5\<rparr>"
    by (simp add: checkMaxGORLimit_def ex_tie_limits)
       (simp add: ex_ratio_limits_def ex_limits_def w c)
  show "checkMaxGORLimit ex_tie_wi (getEconLimits (well_ecl ex_tie_wi)) ex_tie_ws
     new_RatioLimitCheckReport
   = Inr \<lparr>ratio_limit_violated = True, worst_offending_completion = 3,
          violation_extent = 9 / 5\<rparr>"
    by (simp add: checkMaxGORLimit_def ex_tie_limits)
       (simp add: ex_ratio_limits_def ex_limits_def w c')
qed

lemma ex_tie_checkRatioEconLimits:
  "checkRatioEconLimits ex_tie_wi (getEconLimits (well_ecl ex_tie_wi)) ex_tie_ws
     new_RatioLimitCheckReport []
   = Inr (\<lparr>ratio_limit_violated = True, worst_offending_completion = 1,
           violation_extent = 9 / 5\<rparr>, [])"
proof -
  have f: "onMaxWaterCut (getEconLimits (well_ecl ex_tie_wi))"
     "onMaxGasOilRatio (getEconLimits (well_ecl ex_tie_wi))"
     "\<not> onMaxWaterGasRatio (getEconLimits (well_ecl ex_tie_wi))"
     "\<not> onMaxGasLiquidRatio (getEconLimits (well_ecl ex_tie_wi))"
    by (simp_all add: ex_tie_limits ex_ratio_limits_def ex_limits_def)
  show ?thesis
    by (simp add: checkRatioEconLimits_def f ex_tie_watercut ex_tie_gor INVALIDCOMPLETION_def)
qed

theorem tie_keeps_earlier_witness:
  "scan_completions (completion_ratio ex_tie_wi ex_tie_ws waterCut) (completions ex_tie_wi)
     (INVALIDCOMPLETION, 0) = Inr (1, 9 / 10)
   \<and> map (\<lambda>c. completion_ratio ex_tie_wi ex_tie_ws waterCut (snd c)) (completions ex_tie_wi)
     = map Inr [9 / 10, 9 / 10, 0]
   \<and> (\<exists>k < length [9 / 10, 9 / 10, 0 :: real].
         1 = fst (completions ex_tie_wi ! k)
         \<and> (\<forall>j < k. [9 / 10, 9 / 10, 0 :: real] ! j < 9 / 10))
   \<and> checkMaxGORLimit ex_tie_wi (getEconLimits (well_ecl ex_tie_wi)) ex_tie_ws
       new_RatioLimitCheckReport
     = Inr \<lparr>ratio_limit_violated = True, worst_offending_completion = 3,
            violation_extent = 9 / 5\<rparr>
   \<and> checkRatioEconLimits ex_tie_wi (getEconLimits (well_ecl ex_tie_wi)) ex_tie_ws
       new_RatioLimitCheckReport []
     = Inr (\<lparr>ratio_limit_violated = True, worst_offending_completion = 1,
             violation_extent = 9 / 5\<rparr>, [])
   \<and> (\<exists>report1.
         checkMaxWaterCutLimit ex_tie_wi (getEconLimits (well_ecl ex_tie_wi)) ex_tie_ws
           new_RatioLimitCheckReport = Inr report1
         \<and> checkMaxGORLimit ex_tie_wi (getEconLimits (well_ecl ex_tie_wi)) ex_tie_ws report1
           = Inr \<lparr>ratio_limit_violated = True, worst_offending_completion = 1,
                  violation_extent = 9 / 5\<rparr>)"
proof -
  let ?wct = "\<lparr>ratio_limit_violated = True, worst_offending_completion = 1,
               violation_extent = 9 / 5\<rparr>"
  let ?el = "getEconLimits (well_ecl ex_tie_wi)"
  have ratios: "map (\<lambda>c. completion_ratio ex_tie_wi ex_tie_ws waterCut (snd c))
                  (completions ex_tie_wi) = map Inr [9 / 10, 9 / 10, 0]"
    by (simp add: ex_tie_completions ex_tie_watercuts del: One_nat_def)
  have f: "onMaxWaterCut ?el" "onMaxGasOilRatio ?el" "\<not> onMaxWaterGasRatio ?el"
    by (simp_all add: ex_tie_limits ex_ratio_limits_def ex_limits_def)
  note tie = tie_keeps_earlier
    [where wi = ex_tie_wi and ws = ex_tie_ws and el = ?el
       and ratio_of = "completion_ratio ex_tie_wi ex_tie_ws waterCut"
       and cs = "completions ex_tie_wi" and rs = "[9 / 10, 9 / 10, 0]"
       and ?w0.0 = INVALIDCOMPLETION and ?m0.0 = 0 and w = 1 and m = "9 / 10"
       and lg = "[]" and lg' = "[]"]
  from tie ratios ex_tie_scan_watercut
  have "(1 = INVALIDCOMPLETION \<and> (9 / 10 :: real) = 0
           \<and> (\<forall>r \<in> set [9 / 10, 9 / 10, 0 :: real]. r \<le> 0))
        \<or> (\<exists>k < length [9 / 10, 9 / 10, 0 :: real].
              1 = fst (completions ex_tie_wi ! k) \<and> (9 / 10 :: real) = [9 / 10, 9 / 10, 0] ! k
              \<and> (0::real) < 9 / 10
              \<and> (\<forall>j < k. [9 / 10, 9 / 10, 0 :: real] ! j < 9 / 10)
              \<and> (\<forall>j < length [9 / 10, 9 / 10, 0 :: real].
                    [9 / 10, 9 / 10, 0 :: real] ! j \<le> 9 / 10))"
    by blast
  moreover have "(9 / 10 :: real) \<noteq> 0" by simp
  ultimately have first: "\<exists>k < length [9 / 10, 9 / 10, 0 :: real].
         1 = fst (completions ex_tie_wi ! k)
         \<and> (\<forall>j < k. [9 / 10, 9 / 10, 0 :: real] ! j < 9 / 10)"
    by blast
  from tie [where report = new_RatioLimitCheckReport and r = ?wct] ex_tie_checkRatioEconLimits
  obtain report1 report2 where
    "(if onMaxWaterCut ?el
      then checkMaxWaterCutLimit ex_tie_wi ?el ex_tie_ws new_RatioLimitCheckReport
      else Inr new_RatioLimitCheckReport) = Inr report1"
    "(if onMaxGasOilRatio ?el then checkMaxGORLimit ex_tie_wi ?el ex_tie_ws report1
      else Inr report1) = Inr report2"
    "(if onMaxWaterGasRatio ?el then checkMaxWGRLimit ex_tie_wi ?el ex_tie_ws report2
      else Inr report2) = Inr ?wct"
    by blast
  with f have order: "\<exists>report1.
         checkMaxWaterCutLimit ex_tie_wi ?el ex_tie_ws new_RatioLimitCheckReport = Inr report1
         \<and> checkMaxGORLimit ex_tie_wi ?el ex_tie_ws report1 = Inr ?wct"
    by auto
  from ex_tie_scan_watercut ratios first ex_tie_gor(2) ex_tie_checkRatioEconLimits order
  show ?thesis by blast
qed

end
